theory Spec2Isabelle
  imports Complex_Main "HOL-Library.Monad_Syntax"
begin

section \<open>The tensor backend\<close>

text \<open>
  Modelled from the spec: the tensor engine (package \<^verbatim>\<open>gorgonia\<close>, with its
  \<^verbatim>\<open>tensor\<close> package) is an external library whose sources are not part of the
  repository; the operations \<^verbatim>\<open>Fwd\<close> and \<^verbatim>\<open>Train\<close> call are given their
  documented meaning here. Go's \<^verbatim>\<open>float64\<close> values are idealised as real numbers
  throughout. The operations are modelled on values: a
  tensor is a shape with its elements in row-major order over the reals, and an
  operation that the engine rejects (it returns an error, which \<^verbatim>\<open>G.Must\<close> turns
  into a panic) yields \<open>None\<close>. Building the graph and running it are one step here:
  the forward pass is applied to the values bound to the placeholders, and the shape
  checks done while the graph is built are the checks of the operations below. Only
  the operand ranks this program uses are modelled; any other rank is \<open>None\<close>.
\<close>

record tensor =
  shape :: "nat list"
  data :: "real list"

text \<open>A slice specification: \<^verbatim>\<open>nil\<close> (the whole axis) or \<^verbatim>\<open>G.S(i)\<close> (one index).\<close>

datatype slice = All | G_S nat

definition Reshape :: "tensor \<Rightarrow> nat list \<Rightarrow> tensor option" where
  "Reshape t s =
     (if prod_list s = prod_list (shape t) then Some \<lparr>shape = s, data = data t\<rparr> else None)"

fun Slice :: "tensor \<Rightarrow> slice list \<Rightarrow> tensor option" where
  "Slice t [G_S i] =
     (case shape t of
        [] \<Rightarrow> None
      | r # rest \<Rightarrow>
          if i < r
          then Some \<lparr>shape = rest,
                     data = take (prod_list rest) (drop (i * prod_list rest) (data t))\<rparr>
          else None)"
| "Slice t [All, G_S i] =
     (case shape t of
        r # c # rest \<Rightarrow>
          if i < c
          then Some \<lparr>shape = r # rest,
                     data = concat (map (\<lambda>b. take (prod_list rest)
                                      (drop ((b * c + i) * prod_list rest) (data t))) [0..<r])\<rparr>
          else None
      | _ \<Rightarrow> None)"
| "Slice t _ = None"

definition OuterProd :: "tensor \<Rightarrow> tensor \<Rightarrow> tensor option" where
  "OuterProd a b =
     (case (shape a, shape b) of
        ([m], [n]) \<Rightarrow>
          Some \<lparr>shape = [m, n], data = concat (map (\<lambda>x. map (\<lambda>y. x * y) (data b)) (data a))\<rparr>
      | _ \<Rightarrow> None)"

definition Concat :: "nat \<Rightarrow> tensor list \<Rightarrow> tensor option" where
  "Concat axis ts =
     (case ts of
        [] \<Rightarrow> None
      | t0 # _ \<Rightarrow>
          if axis = 0 then
            (if list_all (\<lambda>t. shape t \<noteq> [] \<and> tl (shape t) = tl (shape t0)) ts
             then Some \<lparr>shape = sum_list (map (\<lambda>t. hd (shape t)) ts) # tl (shape t0),
                        data = concat (map data ts)\<rparr>
             else None)
          else if axis = 1 then
            (if list_all (\<lambda>t. length (shape t) = 2 \<and> hd (shape t) = hd (shape t0)) ts
             then Some \<lparr>shape = [hd (shape t0), sum_list (map (\<lambda>t. shape t ! 1) ts)],
                        data = concat (map (\<lambda>b. concat (map (\<lambda>t. take (shape t ! 1)
                                         (drop (b * (shape t ! 1)) (data t))) ts))
                                       [0..<hd (shape t0)])\<rparr>
             else None)
          else None)"

text \<open>\<^verbatim>\<open>G.Mul\<close> on two matrices: the matrix product.\<close>

definition Mul :: "tensor \<Rightarrow> tensor \<Rightarrow> tensor option" where
  "Mul a b =
     (case (shape a, shape b) of
        ([m, k], [k', n]) \<Rightarrow>
          if k = k'
          then Some \<lparr>shape = [m, n],
                     data = concat (map (\<lambda>i. map (\<lambda>j.
                              sum_list (map (\<lambda>l. data a ! (i * k + l) * data b ! (l * n + j)) [0..<k]))
                              [0..<n]) [0..<m])\<rparr>
          else None
      | _ \<Rightarrow> None)"

definition Rectify :: "tensor \<Rightarrow> tensor option" where
  "Rectify t = Some \<lparr>shape = shape t, data = map (\<lambda>x. max x 0) (data t)\<rparr>"

definition LeakyRelu :: "tensor \<Rightarrow> real \<Rightarrow> tensor option" where
  "LeakyRelu t alpha =
     Some \<lparr>shape = shape t, data = map (\<lambda>x. if 0 < x then x else alpha * x) (data t)\<rparr>"

text \<open>
  Modelled from the spec: the sigmoid of the backend is the logistic function, applied
  to every element ("a final sigmoid producing a probability"). Its rounding in 64-bit
  floating point, where the sigmoid of a large argument is exactly 1, is not modelled.
\<close>

definition Sigmoid :: "tensor \<Rightarrow> tensor option" where
  "Sigmoid t = Some \<lparr>shape = shape t, data = map (\<lambda>x. 1 / (1 + exp (- x))) (data t)\<rparr>"

text \<open>
  Modelled from the spec: the dropout of the backend, "dropout with a given
  probability", is "only active during training-mode forward passes". The mode of a
  pass is a state of the backend's execution, not an argument of \<^verbatim>\<open>G.Dropout\<close>; it
  is an explicit argument here. In evaluation mode the operation returns \<open>x\<close> itself.
  In training mode it draws one uniform sample per element, keeps the elements whose
  sample is below the keep probability \<open>1 - dropProb\<close> and divides them by the keep
  probability. The samples are an explicit argument too: \<open>u k\<close> is the sample drawn
  for element \<open>k\<close>.
\<close>

datatype mode = Training | Evaluation

definition Dropout :: "tensor \<Rightarrow> real \<Rightarrow> mode \<Rightarrow> (nat \<Rightarrow> real) \<Rightarrow> tensor option" where
  "Dropout x dropProb md u =
     (case md of
        Evaluation \<Rightarrow> Some x
      | Training \<Rightarrow>
          Some \<lparr>shape = shape x,
                data = map (\<lambda>k. data x ! k * (if u k < 1 - dropProb then 1 else 0)
                                  / (1 - dropProb)) [0..<length (data x)]\<rparr>)"

text \<open>
  \<^verbatim>\<open>G.BroadcastHadamardProd(a, b, nil, []byte{1})\<close>: the right operand, of shape
  \<open>[m, 1]\<close>, is broadcast along axis 1 and multiplied elementwise with \<open>a\<close>.
\<close>

definition BroadcastHadamardProd :: "tensor \<Rightarrow> tensor \<Rightarrow> nat list \<Rightarrow> nat list \<Rightarrow> tensor option" where
  "BroadcastHadamardProd a b leftPattern rightPattern =
     (if leftPattern = [] \<and> rightPattern = [1] then
        (case (shape a, shape b) of
           ([m, n], [m', one]) \<Rightarrow>
             if m = m' \<and> one = 1
             then Some \<lparr>shape = [m, n],
                        data = concat (map (\<lambda>i. map (\<lambda>j. data a ! (i * n + j) * data b ! i)
                                 [0..<n]) [0..<m])\<rparr>
             else None
         | _ \<Rightarrow> None)
      else None)"

definition Add :: "tensor \<Rightarrow> tensor \<Rightarrow> tensor option" where
  "Add a b =
     (if shape a = shape b
      then Some \<lparr>shape = shape a, data = map (\<lambda>k. data a ! k + data b ! k) [0..<length (data a)]\<rparr>
      else None)"

definition Sub :: "tensor \<Rightarrow> tensor \<Rightarrow> tensor option" where
  "Sub a b =
     (if shape a = shape b
      then Some \<lparr>shape = shape a, data = map (\<lambda>k. data a ! k - data b ! k) [0..<length (data a)]\<rparr>
      else None)"

definition Square :: "tensor \<Rightarrow> tensor option" where
  "Square t = Some \<lparr>shape = shape t, data = map (\<lambda>x. x * x) (data t)\<rparr>"

text \<open>The mean over all elements, a scalar; the mean of no elements is not a real number.\<close>

definition Mean :: "tensor \<Rightarrow> tensor option" where
  "Mean t =
     (if data t = [] then None
      else Some \<lparr>shape = [], data = [sum_list (data t) / real (length (data t))]\<rparr>)"

text \<open>\<^verbatim>\<open>G.WithInit(G.Zeroes())\<close> on a new tensor of the given shape.\<close>

definition Zeroes :: "nat list \<Rightarrow> tensor" where
  "Zeroes shp = \<lparr>shape = shp, data = replicate (prod_list shp) 0\<rparr>"

section \<open>The two models\<close>

text \<open>
  A learnable parameter is a named graph node holding a tensor. Its initial elements
  are drawn from a Gaussian; the draws are an explicit argument, \<open>gaussian name k\<close>
  being the sample for element \<open>k\<close> of the node called \<open>name\<close>.
\<close>

record Node =
  nname :: string
  nvalue :: tensor

definition NewNode :: "(string \<Rightarrow> nat \<Rightarrow> real) \<Rightarrow> string \<Rightarrow> nat list \<Rightarrow> Node" where
  "NewNode gaussian nm shp =
     \<lparr>nname = nm, nvalue = \<lparr>shape = shp, data = map (gaussian nm) [0..<prod_list shp]\<rparr>\<rparr>"

text \<open>The decimal digits of \<^verbatim>\<open>fmt.Sprintf("%d", i)\<close> for a non-negative \<open>i\<close>.\<close>

definition digit :: "nat \<Rightarrow> char" where
  "digit d = char_of (48 + d)"

function itoa :: "nat \<Rightarrow> string" where
  "itoa n = (if n < 10 then [digit n] else itoa (n div 10) @ [digit (n mod 10)])"
  by pat_completeness auto
termination
  by (relation "measure id") auto

declare itoa.simps [simp del]

text \<open>
  The error value of the dimension check, with the two numbers of its message
  \<^verbatim>\<open>"uBehaviorDim %d != iFeatureDim %d"\<close>.
\<close>

datatype error = DimMismatch nat nat

text \<open>
  \<^verbatim>\<open>SimpleMLP\<close> and \<^verbatim>\<open>DinNet\<close>. Both structs have the fields \<^verbatim>\<open>mlp0\<close>,
  \<^verbatim>\<open>mlp1\<close>, \<^verbatim>\<open>mlp2\<close>, \<^verbatim>\<open>d0\<close>, \<^verbatim>\<open>d1\<close> and \<^verbatim>\<open>out\<close>; the second
  record extends the first so that both keep the field names of the source. The graph
  handle \<^verbatim>\<open>g\<close> has no counterpart on values. \<^verbatim>\<open>out\<close> is \<open>None\<close> while unset.
\<close>

record SimpleMLP =
  mlp0 :: Node
  mlp1 :: Node
  mlp2 :: Node
  d0 :: real
  d1 :: real
  out :: "tensor option"

record DinNet = SimpleMLP +
  uProfileDim :: nat
  uBehaviorSize :: nat
  uBehaviorDim :: nat
  iFeatureDim :: nat
  cFeatureDim :: nat
  att0 :: "Node list"
  att1 :: "Node list"

text \<open>
  The constructors. \<open>Inl e\<close> is the exit of the process through \<^verbatim>\<open>log.Fatalf\<close>,
  \<open>Inr m\<close> the returned model.
\<close>

definition NewSimpleMLP ::
  "(string \<Rightarrow> nat \<Rightarrow> real) \<Rightarrow> nat \<Rightarrow> nat \<Rightarrow> nat \<Rightarrow> nat \<Rightarrow> nat \<Rightarrow> error + SimpleMLP" where
  "NewSimpleMLP gaussian uProfileDim' uBehaviorSize' uBehaviorDim' iFeatureDim' ctxFeatureDim' =
     (let mlp0' = NewNode gaussian ''mlp0''
                    [uProfileDim' + uBehaviorSize' * uBehaviorDim' + iFeatureDim' + ctxFeatureDim', 200];
          mlp1' = NewNode gaussian ''mlp1'' [200, 80];
          mlp2' = NewNode gaussian ''mlp2'' [80, 1]
      in Inr \<lparr>mlp0 = mlp0', mlp1 = mlp1', mlp2 = mlp2', d0 = 1 / 100, d1 = 1 / 100, out = None\<rparr>)"

definition NewDinNet ::
  "(string \<Rightarrow> nat \<Rightarrow> real) \<Rightarrow> nat \<Rightarrow> nat \<Rightarrow> nat \<Rightarrow> nat \<Rightarrow> nat \<Rightarrow> error + DinNet" where
  "NewDinNet gaussian uProfileDim' uBehaviorSize' uBehaviorDim' iFeatureDim' ctxFeatureDim' =
     (if uBehaviorDim' \<noteq> iFeatureDim' then Inl (DimMismatch uBehaviorDim' iFeatureDim')
      else
        let att0' = map (\<lambda>i. NewNode gaussian (''att0-'' @ itoa i)
                      [uBehaviorDim' + iFeatureDim' + uBehaviorSize' * uBehaviorDim' * iFeatureDim', 36])
                      [0..<uBehaviorSize'];
            att1' = map (\<lambda>i. NewNode gaussian (''att1-'' @ itoa i) [36, 1]) [0..<uBehaviorSize'];
            mlp0' = NewNode gaussian ''mlp0''
                      [uProfileDim' + uBehaviorDim' + iFeatureDim' + ctxFeatureDim', 200];
            mlp1' = NewNode gaussian ''mlp1'' [200, 80];
            mlp2' = NewNode gaussian ''mlp2'' [80, 1]
        in Inr \<lparr>mlp0 = mlp0', mlp1 = mlp1', mlp2 = mlp2', d0 = 1 / 1000, d1 = 1 / 1000, out = None,
                uProfileDim = uProfileDim', uBehaviorSize = uBehaviorSize',
                uBehaviorDim = uBehaviorDim', iFeatureDim = iFeatureDim',
                cFeatureDim = ctxFeatureDim', att0 = att0', att1 = att1'\<rparr>)"

definition SimpleMLP_Out :: "SimpleMLP \<Rightarrow> tensor option" where
  "SimpleMLP_Out mlp = out mlp"

definition DinNet_Out :: "DinNet \<Rightarrow> tensor option" where
  "DinNet_Out din = out din"

definition SimpleMLP_learnable :: "SimpleMLP \<Rightarrow> Node list" where
  "SimpleMLP_learnable mlp = [mlp0 mlp, mlp1 mlp, mlp2 mlp]"

definition DinNet_learnable :: "DinNet \<Rightarrow> Node list" where
  "DinNet_learnable din =
     (let ret = [mlp0 din, mlp1 din, mlp2 din];
          ret = ret @ att0 din;
          ret = ret @ att1 din
      in ret)"

text \<open>
  The forward passes. The result is \<open>None\<close> when a \<^verbatim>\<open>G.Must\<close> panics, and otherwise
  the returned error (\<open>None\<close> for \<^verbatim>\<open>nil\<close>) with the model after the call. The
  mode \<open>md\<close> of the pass and the samples \<open>u0\<close> and \<open>u1\<close> of the two dropout nodes
  belong to the execution of the graph; they are explicit arguments here.
\<close>

definition SimpleMLP_Fwd ::
  "SimpleMLP \<Rightarrow> mode \<Rightarrow> (nat \<Rightarrow> real) \<Rightarrow> (nat \<Rightarrow> real)
     \<Rightarrow> tensor \<Rightarrow> tensor \<Rightarrow> tensor \<Rightarrow> tensor
     \<Rightarrow> nat \<Rightarrow> nat \<Rightarrow> nat \<Rightarrow> (error option \<times> SimpleMLP) option" where
  "SimpleMLP_Fwd mlp md u0 u1 xUserProfile ubMatrix xItemFeature xCtxFeature
       batchSize uBehaviorSize' uBehaviorDim' =
     do {
       ubMatrix \<leftarrow> Reshape ubMatrix [batchSize, uBehaviorSize' * uBehaviorDim'];
       x \<leftarrow> Concat 1 [xUserProfile, ubMatrix, xItemFeature, xCtxFeature];
       h0 \<leftarrow> Mul x (nvalue (mlp0 mlp));
       mlp0Out \<leftarrow> LeakyRelu h0 (1 / 10);
       mlp0Out \<leftarrow> Dropout mlp0Out (d0 mlp) md u0;
       h1 \<leftarrow> Mul mlp0Out (nvalue (mlp1 mlp));
       mlp1Out \<leftarrow> LeakyRelu h1 (1 / 10);
       mlp1Out \<leftarrow> Dropout mlp1Out (d1 mlp) md u1;
       h2 \<leftarrow> Mul mlp1Out (nvalue (mlp2 mlp));
       mlp2Out \<leftarrow> Sigmoid h2;
       Some (None, mlp\<lparr>out := Some mlp2Out\<rparr>)
     }"

text \<open>Indexing a Go slice panics out of range.\<close>

definition index :: "'a list \<Rightarrow> nat \<Rightarrow> 'a option" where
  "index xs i = (if i < length xs then Some (xs ! i) else None)"

text \<open>The body of the first loop of \<^verbatim>\<open>DinNet.Fwd\<close>: the outer product of example \<open>i\<close>.\<close>

definition outProdVec :: "tensor \<Rightarrow> tensor \<Rightarrow> nat \<Rightarrow> nat \<Rightarrow> nat \<Rightarrow> nat \<Rightarrow> tensor option" where
  "outProdVec ubMatrix xItemFeature uBehaviorSize' uBehaviorDim' iFeatureDim' i =
     do {
       ubVec \<leftarrow> Slice ubMatrix [G_S i];
       itemVec \<leftarrow> Slice xItemFeature [G_S i];
       outProd \<leftarrow> OuterProd ubVec itemVec;
       Reshape outProd [uBehaviorSize' * uBehaviorDim' * iFeatureDim']
     }"

text \<open>The first loop, the concatenation of its results and the final reshape.\<close>

definition outProducts :: "tensor \<Rightarrow> tensor \<Rightarrow> nat \<Rightarrow> nat \<Rightarrow> nat \<Rightarrow> nat \<Rightarrow> tensor option" where
  "outProducts ubMatrix xItemFeature batchSize uBehaviorSize' uBehaviorDim' iFeatureDim' =
     do {
       outProdVecs \<leftarrow> those (map (outProdVec ubMatrix xItemFeature
                                   uBehaviorSize' uBehaviorDim' iFeatureDim') [0..<batchSize]);
       outProductsVec \<leftarrow> Concat 0 outProdVecs;
       Reshape outProductsVec [batchSize, uBehaviorSize' * uBehaviorDim' * iFeatureDim']
     }"

text \<open>The body of the second loop up to \<^verbatim>\<open>actOut\<close>: the activation unit of slot \<open>i\<close>.\<close>

definition actOut :: "DinNet \<Rightarrow> tensor \<Rightarrow> tensor \<Rightarrow> tensor \<Rightarrow> nat \<Rightarrow> tensor option" where
  "actOut din xUserBehaviors outProducts' xItemFeature i =
     do {
       ub \<leftarrow> Slice xUserBehaviors [All, G_S i];
       actConcat \<leftarrow> Concat 1 [ub, outProducts', xItemFeature];
       att0i \<leftarrow> index (att0 din) i;
       a0 \<leftarrow> Mul actConcat (nvalue att0i);
       att1i \<leftarrow> index (att1 din) i;
       a1 \<leftarrow> Mul a0 (nvalue att1i);
       score \<leftarrow> Rectify a1;
       BroadcastHadamardProd ub score [] [1]
     }"

text \<open>The second loop, over the slots still to be visited, with its accumulator.\<close>

fun sumPooling :: "DinNet \<Rightarrow> tensor \<Rightarrow> tensor \<Rightarrow> tensor \<Rightarrow> nat list \<Rightarrow> tensor \<Rightarrow> tensor option" where
  "sumPooling din xUserBehaviors outProducts' xItemFeature [] actOuts = Some actOuts"
| "sumPooling din xUserBehaviors outProducts' xItemFeature (i # slots) actOuts =
     do {
       actOut' \<leftarrow> actOut din xUserBehaviors outProducts' xItemFeature i;
       actOuts \<leftarrow> Add actOuts actOut';
       sumPooling din xUserBehaviors outProducts' xItemFeature slots actOuts
     }"

definition DinNet_Fwd ::
  "DinNet \<Rightarrow> mode \<Rightarrow> (nat \<Rightarrow> real) \<Rightarrow> (nat \<Rightarrow> real)
     \<Rightarrow> tensor \<Rightarrow> tensor \<Rightarrow> tensor \<Rightarrow> tensor
     \<Rightarrow> nat \<Rightarrow> nat \<Rightarrow> nat \<Rightarrow> (error option \<times> DinNet) option" where
  "DinNet_Fwd din md u0 u1 xUserProfile ubMatrix xItemFeature xCtxFeature
       batchSize uBehaviorSize' uBehaviorDim' =
     do {
       iFeatureDim' \<leftarrow> index (shape xItemFeature) 1;
       if uBehaviorDim' \<noteq> iFeatureDim'
       then Some (Some (DimMismatch uBehaviorDim' iFeatureDim'), din)
       else do {
         xUserBehaviors \<leftarrow> Reshape ubMatrix [batchSize, uBehaviorSize', uBehaviorDim'];
         outProducts' \<leftarrow> outProducts ubMatrix xItemFeature batchSize
                            uBehaviorSize' uBehaviorDim' iFeatureDim';
         actOuts \<leftarrow> sumPooling din xUserBehaviors outProducts' xItemFeature
                       [0..<uBehaviorSize'] (Zeroes [batchSize, uBehaviorDim']);
         concat' \<leftarrow> Concat 1 [xUserProfile, actOuts, xItemFeature, xCtxFeature];
         h0 \<leftarrow> Mul concat' (nvalue (mlp0 din));
         mlp0Out \<leftarrow> LeakyRelu h0 (1 / 10);
         mlp0Out \<leftarrow> Dropout mlp0Out (d0 din) md u0;
         h1 \<leftarrow> Mul mlp0Out (nvalue (mlp1 din));
         mlp1Out \<leftarrow> LeakyRelu h1 (1 / 10);
         mlp1Out \<leftarrow> Dropout mlp1Out (d1 din) md u1;
         h2 \<leftarrow> Mul mlp1Out (nvalue (mlp2 din));
         mlp2Out \<leftarrow> Sigmoid h2;
         Some (None, din\<lparr>out := Some mlp2Out\<rparr>)
       }
     }"

section \<open>Metric helpers\<close>

text \<open>
  The only non-real values the metric's division can produce are the NaN of \<^verbatim>\<open>0.0 / 0.0\<close>
  and the infinity of a positive count divided by zero; they are kept apart from the
  finite quotients.
\<close>

datatype f64 = NaN | PosInf | Val real

text \<open>\<^verbatim>\<open>math.Round\<close>: the nearest integer, halves rounded away from zero.\<close>

definition Round :: "real \<Rightarrow> real" where
  "Round x = (if x < 0 then - real_of_int \<lfloor>- x + 1 / 2\<rfloor> else real_of_int \<lfloor>x + 1 / 2\<rfloor>)"

text \<open>
  The loop of \<^verbatim>\<open>accuracy\<close>: \<^verbatim>\<open>i\<close> runs over the indices of \<^verbatim>\<open>prediction\<close>;
  reading \<^verbatim>\<open>y[i]\<close> beyond the end of \<^verbatim>\<open>y\<close> panics (\<open>None\<close>).
\<close>

function accuracy_loop :: "real list \<Rightarrow> real list \<Rightarrow> nat \<Rightarrow> real \<Rightarrow> real option" where
  "accuracy_loop prediction y i ok =
     (if i < length prediction then
        (if i < length y then
           accuracy_loop prediction y (i + 1)
             (if Round (prediction ! i - y ! i) = 0 then ok + 1 else ok)
         else None)
      else Some ok)"
  by pat_completeness auto
termination
  by (relation "measure (\<lambda>(prediction, y, i, ok). length prediction - i)") auto

declare accuracy_loop.simps [simp del]

definition accuracy :: "real list \<Rightarrow> real list \<Rightarrow> f64 option" where
  "accuracy prediction y =
     (case accuracy_loop prediction y 0 0 of
        None \<Rightarrow> None
      | Some ok \<Rightarrow>
          Some (if length y = 0 then (if ok = 0 then NaN else PosInf)
                else Val (ok / real (length y))))"

section \<open>Concrete draws for worked examples\<close>

text \<open>
  Gaussian draws that are all one, and uniform dropout samples in \<open>[0, 1)\<close> that keep
  every element (all samples 0) or drop every element (all samples 0.9995, above both
  keep probabilities 0.99 and 0.999).
\<close>

definition unit_draws :: "string \<Rightarrow> nat \<Rightarrow> real" where
  "unit_draws nm k = 1"

definition keep_all :: "nat \<Rightarrow> real" where
  "keep_all k = 0"

definition drop_all :: "nat \<Rightarrow> real" where
  "drop_all k = 9995 / 10000"

section \<open>Rows of a matrix and the flattened outer product\<close>

text \<open>
  Notions used to state the properties: a tensor is well formed when it has as many
  elements as its shape says; \<open>row t b\<close> is row \<open>b\<close> of a matrix; \<open>kron u v\<close> is
  the outer product of two vectors, flattened row by row.
\<close>

definition wf_tensor :: "tensor \<Rightarrow> bool" where
  "wf_tensor t \<longleftrightarrow> length (data t) = prod_list (shape t)"

definition row :: "tensor \<Rightarrow> nat \<Rightarrow> real list" where
  "row t b = take (shape t ! 1) (drop (b * (shape t ! 1)) (data t))"

definition kron :: "real list \<Rightarrow> real list \<Rightarrow> real list" where
  "kron u v = concat (map (\<lambda>x. map (\<lambda>y. x * y) v) u)"

text \<open>A batch of two examples, for worked examples.\<close>

definition ub_example :: tensor where
  "ub_example = \<lparr>shape = [2, 2], data = [1, 2, 5, 6]\<rparr>"

definition item_example :: tensor where
  "item_example = \<lparr>shape = [2, 2], data = [3, 4, 7, 8]\<rparr>"

section \<open>Vectors, slots and the activation score\<close>

text \<open>
  \<open>vecmat v W\<close> is the row vector \<open>v\<close> times the matrix \<open>W\<close>; \<open>slot r D i\<close> is the
  \<open>i\<close>-th behaviour vector, of dimension \<open>D\<close>, inside the flattened behaviour row \<open>r\<close>.
\<close>

definition vecmat :: "real list \<Rightarrow> tensor \<Rightarrow> real list" where
  "vecmat v W =
     map (\<lambda>j. sum_list (map (\<lambda>l. v ! l * data W ! (l * (shape W ! 1) + j)) [0..<length v]))
       [0..<shape W ! 1]"

definition slot :: "real list \<Rightarrow> nat \<Rightarrow> nat \<Rightarrow> real list" where
  "slot r D i = take D (drop (i * D) r)"

text \<open>
  The relevance score of one example as \<^verbatim>\<open>DinNet.Fwd\<close> computes it: the rectifier
  applied to the product of the concatenated features with both attention matrices.
\<close>

definition score :: "real list \<Rightarrow> tensor \<Rightarrow> tensor \<Rightarrow> real" where
  "score actConcat A0 A1 = max (hd (vecmat (vecmat actConcat A0) A1)) 0"

text \<open>
  The score as the specification words it, with the rectifier between the two matrix
  products. It is compared with \<open>score\<close> below.
\<close>

definition spec_score :: "real list \<Rightarrow> tensor \<Rightarrow> tensor \<Rightarrow> real" where
  "spec_score actConcat A0 A1 = hd (vecmat (map (\<lambda>x. max x 0) (vecmat actConcat A0)) A1)"

text \<open>
  A worked example with one example, one slot and dimension one: every feature is 1,
  the draws of the \<open>att1\<close> nodes are all \<open>-1\<close> and all other draws are \<open>1\<close>.
\<close>

definition att_draws :: "string \<Rightarrow> nat \<Rightarrow> real" where
  "att_draws nm k = (if take 4 nm = ''att1'' then - 1 else 1)"

definition din1 :: DinNet where
  "din1 = projr (NewDinNet att_draws 1 1 1 1 1)"

definition one_example :: tensor where
  "one_example = \<lparr>shape = [1, 1], data = [1]\<rparr>"

definition xub1 :: tensor where
  "xub1 = \<lparr>shape = [1, 1, 1], data = [1]\<rparr>"

text \<open>A behaviour matrix of two examples with two slots of dimension two.\<close>

definition ub_wide :: tensor where
  "ub_wide = \<lparr>shape = [2, 4], data = [1, 2, 3, 4, 5, 6, 7, 8]\<rparr>"

text \<open>The baseline model of the worked example, built by its constructor with all draws 1.\<close>

definition mlp_ex :: SimpleMLP where
  "mlp_ex = projr (NewSimpleMLP unit_draws 1 1 1 1 1)"

text \<open>The attention model of the worked example, built by its constructor with all draws 1.\<close>

definition din_ex :: DinNet where
  "din_ex = projr (NewDinNet unit_draws 1 1 1 1 1)"

section \<open>The training loop\<close>

text \<open>
  The interface \<^verbatim>\<open>model\<close> with its two implementations.
\<close>

datatype model = MSimpleMLP SimpleMLP | MDinNet DinNet

fun model_learnable :: "model \<Rightarrow> Node list" where
  "model_learnable (MSimpleMLP mlp) = SimpleMLP_learnable mlp"
| "model_learnable (MDinNet din) = DinNet_learnable din"

fun model_Out :: "model \<Rightarrow> tensor option" where
  "model_Out (MSimpleMLP mlp) = SimpleMLP_Out mlp"
| "model_Out (MDinNet din) = DinNet_Out din"

fun model_Fwd ::
  "model \<Rightarrow> mode \<Rightarrow> (nat \<Rightarrow> real) \<Rightarrow> (nat \<Rightarrow> real)
     \<Rightarrow> tensor \<Rightarrow> tensor \<Rightarrow> tensor \<Rightarrow> tensor
     \<Rightarrow> nat \<Rightarrow> nat \<Rightarrow> nat \<Rightarrow> (error option \<times> model) option" where
  "model_Fwd (MSimpleMLP mlp) md u0 u1 xUserProfile ubMatrix xItemFeature xCtxFeature
       batchSize uBehaviorSize' uBehaviorDim' =
     map_option (\<lambda>(err, mlp'). (err, MSimpleMLP mlp'))
       (SimpleMLP_Fwd mlp md u0 u1 xUserProfile ubMatrix xItemFeature xCtxFeature
          batchSize uBehaviorSize' uBehaviorDim')"
| "model_Fwd (MDinNet din) md u0 u1 xUserProfile ubMatrix xItemFeature xCtxFeature
       batchSize uBehaviorSize' uBehaviorDim' =
     map_option (\<lambda>(err, din'). (err, MDinNet din'))
       (DinNet_Fwd din md u0 u1 xUserProfile ubMatrix xItemFeature xCtxFeature
          batchSize uBehaviorSize' uBehaviorDim')"

text \<open>
  Modelled from the spec: the type \<^verbatim>\<open>rcmd.SampleInfo\<close> is declared in package
  \<^verbatim>\<open>recommend\<close>, which is not among the sources. \<^verbatim>\<open>Train\<close> reads four
  fields of it, the column ranges of the four feature groups inside the input tensor.
\<close>

record SampleInfo =
  UserProfileRange :: "nat \<times> nat"
  UserBehaviorRange :: "nat \<times> nat"
  ItemFeatureRange :: "nat \<times> nat"
  CtxFeatureRange :: "nat \<times> nat"

text \<open>
  The loss of \<^verbatim>\<open>Train\<close> is a graph node, built from the output node of the model
  and the label placeholder; \<^verbatim>\<open>Train\<close> hands it to \<^verbatim>\<open>G.Grad\<close> and reads its
  value for the report of each epoch. \<open>run_node c out y\<close> is the value of node
  \<open>c\<close> when the output node has value \<open>out\<close> and the label value \<open>y\<close>.
\<close>

datatype node = OutNode | LabelNode | G_Sub node node | G_Square node | G_Mean node

fun run_node :: "node \<Rightarrow> tensor \<Rightarrow> tensor \<Rightarrow> tensor option" where
  "run_node OutNode out' y = Some out'"
| "run_node LabelNode out' y = Some y"
| "run_node (G_Sub a b) out' y =
     do { x \<leftarrow> run_node a out' y; z \<leftarrow> run_node b out' y; Sub x z }"
| "run_node (G_Square a) out' y = do { x \<leftarrow> run_node a out' y; Square x }"
| "run_node (G_Mean a) out' y = do { x \<leftarrow> run_node a out' y; Mean x }"

text \<open>
  What the gradient computation, the compiled machine and the solver do to tensors is
  outside this program. \<^verbatim>\<open>Train\<close> is modelled by the sequence of the calls it makes
  to them, each with the arguments that identify it: the gradient request with the
  loss node and the names of the parameters it differentiates for, a slice with its row
  and column ranges, a binding with its placeholder, a solver step with the names of
  the parameters it updates, the report of an epoch with the node whose value it
  prints. A call whose error \<^verbatim>\<open>Train\<close>
  checks may fail; whether it does is decided by an oracle from the calls made so far
  and the call attempted. The progress bar and the creation of the machine and of the
  solver never fail and are left out.
\<close>

datatype placeholder = XUserProfile | XUserBehaviorMatrix | XItemFeature | XCtxFeature | YLabel

datatype event =
    Grad node "string list"
  | Compile
  | SliceInputs nat nat nat nat
  | SliceTargets nat nat
  | G_Let placeholder
  | RunAll
  | SolverStep "string list"
  | Reset
  | LogCost nat node
  | Close

text \<open>
  How a run ends: \<^verbatim>\<open>Train\<close> returns (with the calls made), the process exits through
  \<^verbatim>\<open>log.Fatal\<close> (with the calls made, the failed one last), or it panics.
\<close>

datatype outcome = Returned "event list" | Fatal "event list" | Panicked

text \<open>
  The calls whose error \<^verbatim>\<open>Train\<close> checks. \<^verbatim>\<open>vm.Reset\<close>, the report of an epoch
  and \<^verbatim>\<open>vm.Close\<close> return nothing that is checked.
\<close>

fun checked :: "event \<Rightarrow> bool" where
  "checked Reset = False"
| "checked (LogCost i c) = False"
| "checked Close = False"
| "checked e = True"

text \<open>A sequence of calls: the first failure of a checked call ends it.\<close>

fun calls :: "(event list \<Rightarrow> event \<Rightarrow> bool) \<Rightarrow> event list \<Rightarrow> event list
    \<Rightarrow> event list + event list" where
  "calls ok [] tr = Inr tr"
| "calls ok (e # es) tr =
     (if checked e \<and> \<not> ok tr e then Inl (tr @ [e]) else calls ok es (tr @ [e]))"

text \<open>The calls of one batch, rows \<open>start\<close> to \<open>end\<close>, in the order of the source.\<close>

definition batch_calls :: "SampleInfo \<Rightarrow> string list \<Rightarrow> nat \<Rightarrow> nat \<Rightarrow> event list" where
  "batch_calls si params start end' =
     [SliceInputs start end' (fst (UserProfileRange si)) (snd (UserProfileRange si)),
      G_Let XUserProfile,
      SliceInputs start end' (fst (UserBehaviorRange si)) (snd (UserBehaviorRange si)),
      G_Let XUserBehaviorMatrix,
      SliceInputs start end' (fst (ItemFeatureRange si)) (snd (ItemFeatureRange si)),
      G_Let XItemFeature,
      SliceInputs start end' (fst (CtxFeatureRange si)) (snd (CtxFeatureRange si)),
      G_Let XCtxFeature,
      SliceTargets start end',
      G_Let YLabel,
      RunAll,
      SolverStep params,
      Reset]"

text \<open>The inner loop, from batch \<open>b\<close> on; \<open>Inl\<close> is a fatal exit.\<close>

function batch_loop :: "(event list \<Rightarrow> event \<Rightarrow> bool) \<Rightarrow> SampleInfo \<Rightarrow> string list
    \<Rightarrow> nat \<Rightarrow> nat \<Rightarrow> nat \<Rightarrow> nat \<Rightarrow> event list \<Rightarrow> event list + event list" where
  "batch_loop ok si params numExamples batchSize batches b tr =
     (if b < batches then
        (let start = b * batchSize;
             end' = start + batchSize
         in if start \<ge> numExamples then Inr tr
            else
              let end' = (if end' > numExamples then numExamples else end')
              in case calls ok (batch_calls si params start end') tr of
                   Inl tr' \<Rightarrow> Inl tr'
                 | Inr tr' \<Rightarrow> batch_loop ok si params numExamples batchSize batches (b + 1) tr')
      else Inr tr)"
  by pat_completeness auto
termination
  by (relation "measure (\<lambda>(ok, si, params, numExamples, batchSize, batches, b, tr). batches - b)")
    auto

declare batch_loop.simps [simp del]

text \<open>The outer loop, from epoch \<open>i\<close> on, with the report that ends each epoch.\<close>

function epoch_loop :: "(event list \<Rightarrow> event \<Rightarrow> bool) \<Rightarrow> SampleInfo \<Rightarrow> string list
    \<Rightarrow> node \<Rightarrow> nat \<Rightarrow> nat \<Rightarrow> nat \<Rightarrow> nat \<Rightarrow> nat \<Rightarrow> event list
    \<Rightarrow> event list + event list" where
  "epoch_loop ok si params cost numExamples batchSize batches epochs i tr =
     (if i < epochs then
        (case batch_loop ok si params numExamples batchSize batches 0 tr of
           Inl tr' \<Rightarrow> Inl tr'
         | Inr tr' \<Rightarrow>
             epoch_loop ok si params cost numExamples batchSize batches epochs (i + 1)
               (tr' @ [LogCost i cost]))
      else Inr tr)"
  by pat_completeness auto
termination
  by (relation "measure (\<lambda>(ok, si, params, cost, numExamples, batchSize, batches, epochs, i, tr).
        epochs - i)") auto

declare epoch_loop.simps [simp del]

text \<open>
  \<^verbatim>\<open>Train\<close>. While the graph is built no value is bound to a placeholder: the
  forward pass and the loss node are run on all-zero tensors of the declared shapes (in
  training mode, with samples that keep every element), where only their shape checks
  matter: a failed check is the panic of \<^verbatim>\<open>G.Must\<close>. An error returned by the
  forward pass is fatal. The loss node itself goes to the gradient request and to the
  reports. Integer division by a zero batch size panics. The deferred
  \<^verbatim>\<open>vm.Close\<close> runs when \<^verbatim>\<open>Train\<close> returns.
\<close>

definition Train ::
  "(event list \<Rightarrow> event \<Rightarrow> bool) \<Rightarrow> nat \<Rightarrow> nat \<Rightarrow> nat \<Rightarrow> nat \<Rightarrow> nat \<Rightarrow> nat \<Rightarrow> nat \<Rightarrow> nat
     \<Rightarrow> SampleInfo \<Rightarrow> model \<Rightarrow> outcome" where
  "Train ok uBehaviorSize' uBehaviorDim' uProfileDim' iFeatureDim' cFeatureDim'
       numExamples batchSize epochs si m =
     (let xUserProfile = Zeroes [batchSize, uProfileDim'];
          xUserBehaviorMatrix = Zeroes [batchSize, uBehaviorSize' * uBehaviorDim'];
          xItemFeature = Zeroes [batchSize, iFeatureDim'];
          xCtxFeature = Zeroes [batchSize, cFeatureDim'];
          y = Zeroes [batchSize, 1]
      in case model_Fwd m Training keep_all keep_all xUserProfile xUserBehaviorMatrix
                xItemFeature xCtxFeature batchSize uBehaviorSize' uBehaviorDim' of
           None \<Rightarrow> Panicked
         | Some (Some err, m') \<Rightarrow> Fatal []
         | Some (None, m') \<Rightarrow>
             (let losses = G_Square (G_Sub OutNode LabelNode);
                  cost = G_Mean losses
              in case do { out' \<leftarrow> model_Out m'; run_node cost out' y } of
                   None \<Rightarrow> Panicked
                 | Some costVal \<Rightarrow>
                     (case calls ok [Grad cost (map nname (model_learnable m')), Compile] [] of
                        Inl tr \<Rightarrow> Fatal tr
                      | Inr tr \<Rightarrow>
                          if batchSize = 0 then Panicked
                          else
                            let batches = numExamples div batchSize
                            in case epoch_loop ok si (map nname (model_learnable m')) cost
                                      numExamples batchSize batches epochs 0 tr of
                                 Inl tr' \<Rightarrow> Fatal tr'
                               | Inr tr' \<Rightarrow> Returned (tr' @ [Close]))))"

text \<open>
  The calls of one batch as the specification lists them: the slice of each of the four
  feature ranges and of the label for the rows of the batch, each bound to its
  placeholder; one run of the machine; one solver step; one reset.
\<close>

definition spec_batch :: "SampleInfo \<Rightarrow> string list \<Rightarrow> nat \<Rightarrow> nat \<Rightarrow> event list" where
  "spec_batch si params batchSize b =
     [SliceInputs (b * batchSize) (b * batchSize + batchSize)
        (fst (UserProfileRange si)) (snd (UserProfileRange si)),
      G_Let XUserProfile,
      SliceInputs (b * batchSize) (b * batchSize + batchSize)
        (fst (UserBehaviorRange si)) (snd (UserBehaviorRange si)),
      G_Let XUserBehaviorMatrix,
      SliceInputs (b * batchSize) (b * batchSize + batchSize)
        (fst (ItemFeatureRange si)) (snd (ItemFeatureRange si)),
      G_Let XItemFeature,
      SliceInputs (b * batchSize) (b * batchSize + batchSize)
        (fst (CtxFeatureRange si)) (snd (CtxFeatureRange si)),
      G_Let XCtxFeature,
      SliceTargets (b * batchSize) (b * batchSize + batchSize),
      G_Let YLabel,
      RunAll,
      SolverStep params,
      Reset]"

text \<open>
  The calls of a whole run as the specification describes it, for the loss node
  \<open>cost\<close>: \<open>epochs\<close> epochs of \<open>numExamples div batchSize\<close> batches each, every
  epoch ended by its report.
\<close>

definition spec_epoch ::
  "SampleInfo \<Rightarrow> string list \<Rightarrow> node \<Rightarrow> nat \<Rightarrow> nat \<Rightarrow> nat \<Rightarrow> event list" where
  "spec_epoch si params cost numExamples batchSize i =
     concat (map (spec_batch si params batchSize) [0..<numExamples div batchSize])
     @ [LogCost i cost]"

definition spec_run ::
  "SampleInfo \<Rightarrow> string list \<Rightarrow> node \<Rightarrow> nat \<Rightarrow> nat \<Rightarrow> nat \<Rightarrow> event list" where
  "spec_run si params cost numExamples batchSize epochs =
     [Grad cost params, Compile]
     @ concat (map (spec_epoch si params cost numExamples batchSize) [0..<epochs])
     @ [Close]"

text \<open>The mean squared error of a prediction vector against a label vector.\<close>

definition mse :: "real list \<Rightarrow> real list \<Rightarrow> real" where
  "mse p y = sum_list (map (\<lambda>k. (p ! k - y ! k)\<^sup>2) [0..<length p]) / real (length p)"

text \<open>An oracle under which no call fails, and the column ranges of a worked example.\<close>

definition never_fails :: "event list \<Rightarrow> event \<Rightarrow> bool" where
  "never_fails tr e = True"

definition si_example :: SampleInfo where
  "si_example = \<lparr>UserProfileRange = (0, 1), UserBehaviorRange = (1, 2),
                  ItemFeatureRange = (2, 3), CtxFeatureRange = (3, 4)\<rparr>"

section \<open>The prediction layers and the user interest, for the statements\<close>

text \<open>
  The three layers that end both forward passes (lines 67 to 71 and 203 to 211 of the
  source), as a function of their input \<open>x\<close>, of the weights and of the two dropout
  probabilities. The forward passes are shown to run exactly these.
\<close>

definition mlp_layers ::
  "mode \<Rightarrow> (nat \<Rightarrow> real) \<Rightarrow> (nat \<Rightarrow> real) \<Rightarrow> real \<Rightarrow> real \<Rightarrow> tensor \<Rightarrow> tensor \<Rightarrow> tensor
     \<Rightarrow> tensor \<Rightarrow> tensor option" where
  "mlp_layers md u0 u1 p0 p1 W0 W1 W2 x =
     do {
       h0 \<leftarrow> Mul x W0;
       mlp0Out \<leftarrow> LeakyRelu h0 (1 / 10);
       mlp0Out \<leftarrow> Dropout mlp0Out p0 md u0;
       h1 \<leftarrow> Mul mlp0Out W1;
       mlp1Out \<leftarrow> LeakyRelu h1 (1 / 10);
       mlp1Out \<leftarrow> Dropout mlp1Out p1 md u1;
       h2 \<leftarrow> Mul mlp1Out W2;
       Sigmoid h2
     }"

text \<open>
  What \<^verbatim>\<open>DinNet.Fwd\<close> does after the pooling loop (lines 196 to 214), as a function
  of the pooled tensor.
\<close>

definition mlp_head ::
  "DinNet \<Rightarrow> mode \<Rightarrow> (nat \<Rightarrow> real) \<Rightarrow> (nat \<Rightarrow> real) \<Rightarrow> tensor \<Rightarrow> tensor \<Rightarrow> tensor \<Rightarrow> tensor
     \<Rightarrow> (error option \<times> DinNet) option" where
  "mlp_head din md u0 u1 xUserProfile actOuts xItemFeature xCtxFeature =
     do {
       concat' \<leftarrow> Concat 1 [xUserProfile, actOuts, xItemFeature, xCtxFeature];
       mlp2Out \<leftarrow> mlp_layers md u0 u1 (d0 din) (d1 din) (nvalue (mlp0 din))
                    (nvalue (mlp1 din)) (nvalue (mlp2 din)) concat';
       Some (None, din\<lparr>out := Some mlp2Out\<rparr>)
     }"

text \<open>
  The attention-gated behaviour vector of slot \<open>i\<close> for example \<open>b\<close>: the behaviour
  vector of the slot, every component multiplied by the score of the slot. The features
  the score is computed from are the behaviour vector of the slot, the flattened outer
  product of the whole behaviour row with the item row, and the item row.
\<close>

definition gated :: "DinNet \<Rightarrow> tensor \<Rightarrow> tensor \<Rightarrow> nat \<Rightarrow> nat \<Rightarrow> nat \<Rightarrow> real list" where
  "gated din ubMatrix xItemFeature D i b =
     map (\<lambda>x. x * score (slot (row ubMatrix b) D i
                            @ kron (row ubMatrix b) (row xItemFeature b)
                            @ row xItemFeature b)
                      (nvalue (att0 din ! i)) (nvalue (att1 din ! i)))
       (slot (row ubMatrix b) D i)"

text \<open>
  The user interest as the specification describes it: a tensor of shape \<open>[B, D]\<close>
  whose element \<open>d\<close> of example \<open>b\<close> is zero plus the sum, over the slots
  \<open>0, ..., S - 1\<close>, of element \<open>d\<close> of the gated behaviour vector of the slot.
\<close>

definition user_interest :: "DinNet \<Rightarrow> tensor \<Rightarrow> tensor \<Rightarrow> nat \<Rightarrow> nat \<Rightarrow> nat \<Rightarrow> tensor" where
  "user_interest din ubMatrix xItemFeature B S D =
     \<lparr>shape = [B, D],
      data = concat (map (\<lambda>b. map (\<lambda>d. 0 + sum_list (map (\<lambda>i.
                 gated din ubMatrix xItemFeature D i b ! d) [0..<S])) [0..<D]) [0..<B])\<rparr>"

text \<open>A user profile and a context of two examples with one feature each.\<close>

definition profile_example :: tensor where
  "profile_example = \<lparr>shape = [2, 1], data = [1, 2]\<rparr>"

definition ctx_example :: tensor where
  "ctx_example = \<lparr>shape = [2, 1], data = [3, 4]\<rparr>"

section \<open>Properties of the metric\<close>

lemma accuracy_loop_count:
  "i \<le> length p \<Longrightarrow> length p \<le> length y \<Longrightarrow>
   accuracy_loop p y i ok =
     Some (ok + real (length (filter (\<lambda>k. Round (p ! k - y ! k) = 0) [i..<length p])))"
proof (induction p y i ok rule: accuracy_loop.induct)
  case (1 prediction y i ok)
  show ?case
  proof (cases "i < length prediction")
    case True
    then have iy: "i < length y" using "1.prems" by simp
    have up: "[i..<length prediction] = i # [Suc i..<length prediction]"
      using True by (simp add: upt_conv_Cons)
    have step: "accuracy_loop prediction y i ok =
        accuracy_loop prediction y (i + 1)
          (if Round (prediction ! i - y ! i) = 0 then ok + 1 else ok)"
      using True iy by (subst accuracy_loop.simps) simp
    have ih: "accuracy_loop prediction y (i + 1)
          (if Round (prediction ! i - y ! i) = 0 then ok + 1 else ok) =
        Some ((if Round (prediction ! i - y ! i) = 0 then ok + 1 else ok) +
          real (length (filter (\<lambda>k. Round (prediction ! k - y ! k) = 0)
            [i + 1..<length prediction])))"
      using "1.IH"[OF True iy] True "1.prems" by simp
    show ?thesis
      unfolding step ih up by simp
  next
    case False
    then have "i = length prediction" using "1.prems" by simp
    then show ?thesis by (subst accuracy_loop.simps) simp
  qed
qed

text \<open>
  C8. On a prediction vector and a label vector of the same non-zero length,
  \<^verbatim>\<open>accuracy\<close> returns the number of indices \<open>i\<close> with
  \<open>Round (prediction[i] - y[i]) = 0\<close> divided by the number of indices; in
  particular it is \<open>1.0\<close> on \<open>[0.6, 0.4]\<close>, \<open>[1, 0]\<close> and \<open>0.5\<close> on
  \<open>[0.4, 0.4]\<close>, \<open>[1, 0]\<close>.
\<close>

theorem accuracy_fraction:
  "(length p = length y \<and> y \<noteq> [] \<longrightarrow>
      accuracy p y =
        Some (Val (real (length (filter (\<lambda>i. Round (p ! i - y ! i) = 0) [0..<length p]))
                    / real (length p))))
   \<and> accuracy [6 / 10, 4 / 10] [1, 0] = Some (Val 1)
   \<and> accuracy [4 / 10, 4 / 10] [1, 0] = Some (Val (1 / 2))"
proof (intro conjI impI)
  assume h: "length p = length y \<and> y \<noteq> []"
  then have "accuracy_loop p y 0 0 =
      Some (0 + real (length (filter (\<lambda>k. Round (p ! k - y ! k) = 0) [0..<length p])))"
    by (intro accuracy_loop_count) simp_all
  then show "accuracy p y =
      Some (Val (real (length (filter (\<lambda>i. Round (p ! i - y ! i) = 0) [0..<length p]))
                  / real (length p)))"
    using h by (simp add: accuracy_def)
next
  have "accuracy_loop [6 / 10, 4 / 10] [1, 0] 0 0 =
      Some (0 + real (length (filter (\<lambda>k. Round ([6 / 10, 4 / 10] ! k - [1, 0] ! k) = 0)
        [0..<length [6 / 10, 4 / 10 :: real]])))"
    by (intro accuracy_loop_count) simp_all
  also have "[0..<length [6 / 10, 4 / 10 :: real]] = [0, Suc 0]"
    by (simp add: upt_conv_Cons)
  finally show "accuracy [6 / 10, 4 / 10] [1, 0] = Some (Val 1)"
    by (simp add: accuracy_def Round_def)
next
  have "accuracy_loop [4 / 10, 4 / 10] [1, 0] 0 0 =
      Some (0 + real (length (filter (\<lambda>k. Round ([4 / 10, 4 / 10] ! k - [1, 0] ! k) = 0)
        [0..<length [4 / 10, 4 / 10 :: real]])))"
    by (intro accuracy_loop_count) simp_all
  also have "[0..<length [4 / 10, 4 / 10 :: real]] = [0, Suc 0]"
    by (simp add: upt_conv_Cons)
  finally show "accuracy [4 / 10, 4 / 10] [1, 0] = Some (Val (1 / 2))"
    by (simp add: accuracy_def Round_def)
qed

theorem accuracy_fraction_witness:
  "length [6 / 10, 4 / 10 :: real] = length [1, 0 :: real] \<and> [1, 0 :: real] \<noteq> []
   \<and> accuracy [6 / 10, 4 / 10] [1, 0] =
       Some (Val (real (length (filter (\<lambda>i. Round ([6 / 10, 4 / 10] ! i - [1, 0] ! i) = 0)
                    [0..<length [6 / 10, 4 / 10 :: real]]))
                  / real (length [6 / 10, 4 / 10 :: real])))"
  using accuracy_fraction [of "[6 / 10, 4 / 10]" "[1, 0]"] by simp

section \<open>Parameter names and the learnable lists\<close>

lemma length_itoa: "0 < length (itoa n)"
  by (induction n rule: itoa.induct) (subst itoa.simps, simp)

lemma digit_inj: "a < 10 \<Longrightarrow> b < 10 \<Longrightarrow> digit a = digit b \<Longrightarrow> a = b"
  by (simp add: digit_def char_of_eq_iff take_bit_eq_mod)

lemma itoa_inj: "itoa n = itoa m \<Longrightarrow> n = m"
proof (induction n arbitrary: m rule: itoa.induct)
  case (1 n)
  show ?case
  proof (cases "n < 10")
    case True
    note n = True
    have en: "itoa n = [digit n]" using n by (subst itoa.simps) simp
    show ?thesis
    proof (cases "m < 10")
      case True
      have "itoa m = [digit m]" using True by (subst itoa.simps) simp
      with en show ?thesis using n True "1.prems" by (simp add: digit_inj)
    next
      case False
      then have "itoa m = itoa (m div 10) @ [digit (m mod 10)]"
        by (subst itoa.simps) simp
      with en show ?thesis using "1.prems" length_itoa[of "m div 10"] by auto
    qed
  next
    case False
    note n = False
    then have en: "itoa n = itoa (n div 10) @ [digit (n mod 10)]"
      by (subst itoa.simps) simp
    show ?thesis
    proof (cases "m < 10")
      case True
      then have "itoa m = [digit m]" by (subst itoa.simps) simp
      then show ?thesis using "1.prems" en length_itoa[of "n div 10"] by auto
    next
      case False
      then have em: "itoa m = itoa (m div 10) @ [digit (m mod 10)]"
        by (subst itoa.simps) simp
      from "1.prems" en em have a: "itoa (n div 10) = itoa (m div 10)"
        and b: "digit (n mod 10) = digit (m mod 10)" by auto
      from "1.IH"[OF n a] have "n div 10 = m div 10" .
      moreover from b have "n mod 10 = m mod 10" by (intro digit_inj) auto
      ultimately show ?thesis by (metis div_mult_mod_eq)
    qed
  qed
qed

lemma att_names_distinct:
  "distinct ([''mlp0'', ''mlp1'', ''mlp2''] @ map (\<lambda>i. ''att0-'' @ itoa i) [0..<S]
             @ map (\<lambda>i. ''att1-'' @ itoa i) [0..<S])"
proof -
  have a: "distinct (map (\<lambda>i. ''att0-'' @ itoa i) [0..<S])"
    by (auto simp: distinct_map inj_on_def dest: itoa_inj)
  have b: "distinct (map (\<lambda>i. ''att1-'' @ itoa i) [0..<S])"
    by (auto simp: distinct_map inj_on_def dest: itoa_inj)
  show ?thesis using a b by auto
qed

lemma NewDinNet_names:
  "NewDinNet gaussian P S D I C = Inr din \<Longrightarrow>
   map nname (DinNet_learnable din) =
     [''mlp0'', ''mlp1'', ''mlp2''] @ map (\<lambda>i. ''att0-'' @ itoa i) [0..<S]
       @ map (\<lambda>i. ''att1-'' @ itoa i) [0..<S]"
  by (auto simp: NewDinNet_def DinNet_learnable_def NewNode_def Let_def comp_def split: if_splits)

lemma NewDinNet_Inr:
  "NewDinNet gaussian P S D D C = Inr (projr (NewDinNet gaussian P S D D C))"
  by (simp add: NewDinNet_def Let_def)

lemma NewSimpleMLP_Inr:
  "NewSimpleMLP gaussian P S D I C = Inr (projr (NewSimpleMLP gaussian P S D I C))"
  by (simp add: NewSimpleMLP_def Let_def)

text \<open>
  C10. For a model built by \<^verbatim>\<open>NewDinNet\<close> with behaviour size \<open>S\<close>,
  \<^verbatim>\<open>learnable\<close> returns \<open>mlp0\<close>, \<open>mlp1\<close>, \<open>mlp2\<close>, then the \<open>S\<close> nodes of \<open>att0\<close>,
  then the \<open>S\<close> nodes of \<open>att1\<close>: \<open>3 + 2 * S\<close> nodes named \<open>mlp0\<close>, \<open>mlp1\<close>, \<open>mlp2\<close>,
  \<open>att0-0\<close> ... \<open>att0-(S-1)\<close>, \<open>att1-0\<close> ... \<open>att1-(S-1)\<close>, no node twice. For a model
  built by \<^verbatim>\<open>NewSimpleMLP\<close> it returns exactly the three nodes \<open>mlp0\<close>, \<open>mlp1\<close>,
  \<open>mlp2\<close>.
\<close>

theorem learnable_order:
  "(NewDinNet gaussian P S D I C = Inr din \<longrightarrow>
      DinNet_learnable din = [mlp0 din, mlp1 din, mlp2 din] @ att0 din @ att1 din
      \<and> length (att0 din) = S \<and> length (att1 din) = S
      \<and> length (DinNet_learnable din) = 3 + 2 * S
      \<and> map nname (DinNet_learnable din) =
          [''mlp0'', ''mlp1'', ''mlp2''] @ map (\<lambda>i. ''att0-'' @ itoa i) [0..<S]
            @ map (\<lambda>i. ''att1-'' @ itoa i) [0..<S]
      \<and> distinct (DinNet_learnable din))
   \<and> (NewSimpleMLP gaussian P S D I C = Inr mlp \<longrightarrow>
      SimpleMLP_learnable mlp = [mlp0 mlp, mlp1 mlp, mlp2 mlp]
      \<and> length (SimpleMLP_learnable mlp) = 3
      \<and> map nname (SimpleMLP_learnable mlp) = [''mlp0'', ''mlp1'', ''mlp2'']
      \<and> distinct (SimpleMLP_learnable mlp))"
proof (intro conjI impI)
  assume h: "NewDinNet gaussian P S D I C = Inr din"
  show "DinNet_learnable din = [mlp0 din, mlp1 din, mlp2 din] @ att0 din @ att1 din"
    by (simp add: DinNet_learnable_def)
  show l0: "length (att0 din) = S" using h
    by (auto simp: NewDinNet_def Let_def split: if_splits)
  show l1: "length (att1 din) = S" using h
    by (auto simp: NewDinNet_def Let_def split: if_splits)
  show "length (DinNet_learnable din) = 3 + 2 * S" using l0 l1
    by (simp add: DinNet_learnable_def)
  show n: "map nname (DinNet_learnable din) =
      [''mlp0'', ''mlp1'', ''mlp2''] @ map (\<lambda>i. ''att0-'' @ itoa i) [0..<S]
        @ map (\<lambda>i. ''att1-'' @ itoa i) [0..<S]"
    using h by (rule NewDinNet_names)
  have "distinct (map nname (DinNet_learnable din))"
    unfolding n by (rule att_names_distinct)
  then show "distinct (DinNet_learnable din)"
    by (simp add: distinct_map)
next
  assume h: "NewSimpleMLP gaussian P S D I C = Inr mlp"
  show "SimpleMLP_learnable mlp = [mlp0 mlp, mlp1 mlp, mlp2 mlp]"
    by (simp add: SimpleMLP_learnable_def)
  show "length (SimpleMLP_learnable mlp) = 3"
    by (simp add: SimpleMLP_learnable_def)
  show n: "map nname (SimpleMLP_learnable mlp) = [''mlp0'', ''mlp1'', ''mlp2'']"
    using h by (auto simp: NewSimpleMLP_def SimpleMLP_learnable_def NewNode_def Let_def)
  have "distinct (map nname (SimpleMLP_learnable mlp))"
    unfolding n by simp
  then show "distinct (SimpleMLP_learnable mlp)"
    by (simp add: distinct_map)
qed

theorem learnable_order_witness:
  "NewDinNet unit_draws 1 2 1 1 1 = Inr (projr (NewDinNet unit_draws 1 2 1 1 1))
   \<and> length (DinNet_learnable (projr (NewDinNet unit_draws 1 2 1 1 1))) = 3 + 2 * 2
   \<and> distinct (DinNet_learnable (projr (NewDinNet unit_draws 1 2 1 1 1)))
   \<and> NewSimpleMLP unit_draws 1 2 1 1 1 = Inr (projr (NewSimpleMLP unit_draws 1 2 1 1 1))
   \<and> length (SimpleMLP_learnable (projr (NewSimpleMLP unit_draws 1 2 1 1 1))) = 3"
  using learnable_order [of unit_draws 1 2 1 1 1 "projr (NewDinNet unit_draws 1 2 1 1 1)"
      "projr (NewSimpleMLP unit_draws 1 2 1 1 1)"]
    NewDinNet_Inr [of unit_draws 1 2 1 1] NewSimpleMLP_Inr [of unit_draws 1 2 1 1 1]
  by blast

section \<open>The dimension check\<close>

text \<open>
  C3, as stated: whenever the behaviour dimension differs from the item dimension, the
  constructor of the baseline aborts. It does not: with dimensions 8 and 4
  \<^verbatim>\<open>NewSimpleMLP\<close> returns a model, whose first layer has \<open>2 + 3 * 8 + 4 + 1\<close> rows.
\<close>

theorem NewSimpleMLP_accepts_mismatch:
  "(8::nat) \<noteq> 4 \<and> \<not> isl (NewSimpleMLP unit_draws 2 3 8 4 1)
   \<and> shape (nvalue (mlp0 (projr (NewSimpleMLP unit_draws 2 3 8 4 1)))) = [2 + 3 * 8 + 4 + 1, 200]"
  by (simp add: NewSimpleMLP_def NewNode_def Let_def)

text \<open>
  C3, amended. \<^verbatim>\<open>NewDinNet\<close> exits through \<^verbatim>\<open>log.Fatalf\<close> exactly when the
  behaviour dimension differs from the item dimension. \<^verbatim>\<open>NewSimpleMLP\<close> makes no
  such check: it returns a model for every pair of dimensions, its first layer sized for
  the plain concatenation of all features, so no shape is coerced.
\<close>

theorem constructors_on_mismatch:
  "(D \<noteq> I \<longrightarrow> NewDinNet gaussian P S D I C = Inl (DimMismatch D I))
   \<and> (D = I \<longrightarrow> \<not> isl (NewDinNet gaussian P S D I C))
   \<and> \<not> isl (NewSimpleMLP gaussian P S D I C)
   \<and> shape (nvalue (mlp0 (projr (NewSimpleMLP gaussian P S D I C)))) = [P + S * D + I + C, 200]"
  by (simp add: NewDinNet_def NewSimpleMLP_def NewNode_def Let_def)

theorem constructors_on_mismatch_witness:
  "(8::nat) \<noteq> 4 \<and> NewDinNet unit_draws 2 3 8 4 1 = Inl (DimMismatch 8 4)
   \<and> (4::nat) = 4 \<and> \<not> isl (NewDinNet unit_draws 2 3 4 4 1)"
  using constructors_on_mismatch [of 8 4 unit_draws 2 3 1]
    constructors_on_mismatch [of 4 4 unit_draws 2 3 1]
  by simp

text \<open>
  C4. When the behaviour dimension passed to \<^verbatim>\<open>DinNet.Fwd\<close> differs from the second
  dimension of the item tensor, the call returns the error value, whatever the other
  arguments are (no tensor operation is reached, so none can panic), and the model is
  returned as it was: the output of a freshly constructed model is still unset.
\<close>

theorem Fwd_rejects_mismatch:
  "1 < length (shape xItemFeature) \<and> D \<noteq> shape xItemFeature ! 1 \<longrightarrow>
     DinNet_Fwd din md u0 u1 xUserProfile ubMatrix xItemFeature xCtxFeature B S D =
       Some (Some (DimMismatch D (shape xItemFeature ! 1)), din)
     \<and> (NewDinNet gaussian P' S' D' I' C' = Inr din \<longrightarrow>
          DinNet_Out (snd (the (DinNet_Fwd din md u0 u1 xUserProfile ubMatrix xItemFeature
                                  xCtxFeature B S D))) = None)"
  by (auto simp: DinNet_Fwd_def index_def DinNet_Out_def NewDinNet_def Let_def split: if_splits)

theorem Fwd_rejects_mismatch_witness:
  "1 < length (shape (Zeroes [2, 4])) \<and> (8::nat) \<noteq> shape (Zeroes [2, 4]) ! 1
   \<and> DinNet_Fwd (projr (NewDinNet unit_draws 1 3 8 8 1)) Training keep_all keep_all
        (Zeroes [2, 1]) (Zeroes [2, 24]) (Zeroes [2, 4]) (Zeroes [2, 1]) 2 3 8 =
      Some (Some (DimMismatch 8 4), projr (NewDinNet unit_draws 1 3 8 8 1))
   \<and> DinNet_Out (snd (the (DinNet_Fwd (projr (NewDinNet unit_draws 1 3 8 8 1)) Training keep_all keep_all
        (Zeroes [2, 1]) (Zeroes [2, 24]) (Zeroes [2, 4]) (Zeroes [2, 1]) 2 3 8))) = None"
proof -
  have s: "shape (Zeroes [2, 4]) = [2, 4]" by (simp add: Zeroes_def)
  have h: "1 < length (shape (Zeroes [2, 4])) \<and> (8::nat) \<noteq> shape (Zeroes [2, 4]) ! 1"
    by (simp add: s)
  have e: "shape (Zeroes [2, 4]) ! 1 = 4" by (simp add: s)
  show ?thesis
    using h e Fwd_rejects_mismatch [of "Zeroes [2, 4]" 8 "projr (NewDinNet unit_draws 1 3 8 8 1)"
        Training keep_all keep_all "Zeroes [2, 1]" "Zeroes [2, 24]" "Zeroes [2, 1]" 2 3 unit_draws 1 3 8 8 1]
      NewDinNet_Inr [of unit_draws 1 3 8 1]
    by metis
qed

section \<open>The interaction features\<close>

lemma length_concat_blocks:
  "(\<And>i. i < n \<Longrightarrow> length (f i) = m) \<Longrightarrow> length (concat (map f [0..<n])) = n * m"
  by (induction n) simp_all

lemma block_of_concat:
  "(\<And>i. i < n \<Longrightarrow> length (f i) = m) \<Longrightarrow> b < n \<Longrightarrow>
   take m (drop (b * m) (concat (map f [0..<n]))) = f b"
proof (induction n)
  case 0
  then show ?case by simp
next
  case (Suc n)
  have len: "length (concat (map f [0..<n])) = n * m"
    using Suc.prems(1) by (intro length_concat_blocks) simp
  show ?case
  proof (cases "b < n")
    case True
    then have "Suc b \<le> n" by simp
    then have "Suc b * m \<le> n * m" by (rule mult_le_mono1)
    then have "m \<le> n * m - b * m" by simp
    then show ?thesis
      using Suc.IH[OF Suc.prems(1) True] len by simp
  next
    case False
    then have "b = n" using Suc.prems(2) by simp
    then show ?thesis using len Suc.prems(1)[of n] by simp
  qed
qed

lemma length_kron: "length (kron u v) = length u * length v"
  by (induction u) (simp_all add: kron_def)

lemma length_row:
  "wf_tensor t \<Longrightarrow> shape t = [m, n] \<Longrightarrow> b < m \<Longrightarrow> length (row t b) = n"
proof -
  assume a: "wf_tensor t" "shape t = [m, n]" "b < m"
  then have "Suc b * n \<le> m * n" by (intro mult_le_mono1) simp
  then show ?thesis using a by (simp add: row_def wf_tensor_def)
qed

lemma those_map_Some:
  "(\<And>x. x \<in> set xs \<Longrightarrow> f x = Some (g x)) \<Longrightarrow> those (map f xs) = Some (map g xs)"
  by (induction xs) simp_all

lemma sum_list_const: "(\<And>x. x \<in> set xs \<Longrightarrow> f x = (c::nat)) \<Longrightarrow> sum_list (map f xs) = length xs * c"
  by (induction xs) simp_all

lemma outProdVec_value:
  assumes "shape ubMatrix = [B, S * D]" "shape xItemFeature = [B, I]" "b < B"
  shows "outProdVec ubMatrix xItemFeature S D I b =
           Some \<lparr>shape = [S * D * I], data = kron (row ubMatrix b) (row xItemFeature b)\<rparr>"
  using assms by (simp add: outProdVec_def OuterProd_def Reshape_def row_def kron_def)

lemma outProducts_value:
  assumes ub: "shape ubMatrix = [B, S * D]" and it: "shape xItemFeature = [B, I]"
    and B: "0 < B"
  shows "outProducts ubMatrix xItemFeature B S D I =
           Some \<lparr>shape = [B, S * D * I],
                 data = concat (map (\<lambda>b. kron (row ubMatrix b) (row xItemFeature b)) [0..<B])\<rparr>"
proof -
  let ?g = "\<lambda>b. \<lparr>shape = [S * D * I], data = kron (row ubMatrix b) (row xItemFeature b)\<rparr>"
  have th: "those (map (outProdVec ubMatrix xItemFeature S D I) [0..<B]) = Some (map ?g [0..<B])"
    by (rule those_map_Some) (simp add: outProdVec_value[OF ub it])
  obtain t0 ts where ne: "map ?g [0..<B] = t0 # ts"
    using B by (cases "map ?g [0..<B]") auto
  have t0: "shape t0 = [S * D * I]"
  proof -
    have "t0 \<in> set (map ?g [0..<B])" by (simp add: ne)
    then show ?thesis by auto
  qed
  have all: "list_all (\<lambda>t. shape t \<noteq> [] \<and> tl (shape t) = tl (shape t0)) (map ?g [0..<B])"
    by (simp add: list_all_iff t0)
  have sm: "sum_list (map (\<lambda>t. hd (shape t)) (map ?g [0..<B])) = B * (S * D * I)"
    by (subst sum_list_const[where c = "S * D * I"]) auto
  have dt: "concat (map data (map ?g [0..<B])) =
      concat (map (\<lambda>b. kron (row ubMatrix b) (row xItemFeature b)) [0..<B])"
    by (simp add: comp_def)
  have "Concat 0 (t0 # ts) =
      Some \<lparr>shape = [B * (S * D * I)],
            data = concat (map (\<lambda>b. kron (row ubMatrix b) (row xItemFeature b)) [0..<B])\<rparr>"
    using all[unfolded ne] sm[unfolded ne] dt[unfolded ne] t0
    by (simp add: Concat_def)
  then have cc: "Concat 0 (map ?g [0..<B]) =
      Some \<lparr>shape = [B * (S * D * I)],
            data = concat (map (\<lambda>b. kron (row ubMatrix b) (row xItemFeature b)) [0..<B])\<rparr>"
    by (simp only: ne)
  show ?thesis
    by (simp add: outProducts_def th cc Reshape_def)
qed

lemma row_blocks:
  "shape t = [B, n] \<Longrightarrow> data t = concat (map f [0..<B]) \<Longrightarrow>
   (\<And>i. i < B \<Longrightarrow> length (f i) = n) \<Longrightarrow> b < B \<Longrightarrow> row t b = f b"
  by (simp add: row_def block_of_concat)

lemma wf_blocks:
  "shape t = [B, n] \<Longrightarrow> data t = concat (map f [0..<B]) \<Longrightarrow>
   (\<And>i. i < B \<Longrightarrow> length (f i) = n) \<Longrightarrow> wf_tensor t"
  by (simp add: wf_tensor_def length_concat_blocks)

text \<open>
  C2. For every example \<open>b\<close> of a well-shaped batch, row \<open>b\<close> of the interaction
  tensor computed by the first loop of \<^verbatim>\<open>DinNet.Fwd\<close> is the flattened outer product
  of row \<open>b\<close> of the behaviour matrix (the full behaviour vector of length \<open>S * D\<close>)
  with row \<open>b\<close> of the item matrix: no other example enters it. For the behaviour
  vector \<open>[1, 2]\<close> and the item vector \<open>[3, 4]\<close> the result is \<open>[3, 4, 6, 8]\<close>.
\<close>

theorem outer_product_per_example:
  "(shape ubMatrix = [B, S * D] \<and> wf_tensor ubMatrix \<and> shape xItemFeature = [B, I] \<and> wf_tensor xItemFeature
      \<and> b < B \<longrightarrow>
      (\<exists>op. outProducts ubMatrix xItemFeature B S D I = Some op \<and> shape op = [B, S * D * I]
         \<and> row op b = kron (row ubMatrix b) (row xItemFeature b)))
   \<and> kron [1, 2] [3, 4] = [3, 4, 6, 8]
   \<and> outProducts \<lparr>shape = [1, 2], data = [1, 2]\<rparr> \<lparr>shape = [1, 2], data = [3, 4]\<rparr> 1 1 2 2 =
       Some \<lparr>shape = [1, 4], data = [3, 4, 6, 8]\<rparr>"
proof (intro conjI impI)
  assume h: "shape ubMatrix = [B, S * D] \<and> wf_tensor ubMatrix \<and> shape xItemFeature = [B, I]
      \<and> wf_tensor xItemFeature \<and> b < B"
  let ?f = "\<lambda>b. kron (row ubMatrix b) (row xItemFeature b)"
  let ?op = "\<lparr>shape = [B, S * D * I], data = concat (map ?f [0..<B])\<rparr>"
  have v: "outProducts ubMatrix xItemFeature B S D I = Some ?op"
    using h by (intro outProducts_value) auto
  have len: "\<And>i. i < B \<Longrightarrow> length (?f i) = S * D * I"
    using h by (simp add: length_kron length_row)
  have "row ?op b = ?f b"
    using len h by (intro row_blocks[where B = B and n = "S * D * I"]) auto
  with v show "\<exists>op. outProducts ubMatrix xItemFeature B S D I = Some op
      \<and> shape op = [B, S * D * I]
      \<and> row op b = kron (row ubMatrix b) (row xItemFeature b)"
    by simp
next
  show "kron [1, 2] [3, 4] = [3, 4, 6, 8]" by (simp add: kron_def)
next
  have "outProducts \<lparr>shape = [1, 2], data = [1, 2]\<rparr> \<lparr>shape = [1, 2], data = [3, 4]\<rparr> 1 1 2 2 =
      Some \<lparr>shape = [1, 1 * 2 * 2],
            data = concat (map (\<lambda>b. kron (row \<lparr>shape = [1, 2], data = [1, 2]\<rparr> b)
                     (row \<lparr>shape = [1, 2], data = [3, 4]\<rparr> b)) [0..<1])\<rparr>"
    using outProducts_value[of "\<lparr>shape = [1, 2], data = [1, 2]\<rparr>" 1 1 2
        "\<lparr>shape = [1, 2], data = [3, 4]\<rparr>" 2] by simp
  then show "outProducts \<lparr>shape = [1, 2], data = [1, 2]\<rparr> \<lparr>shape = [1, 2], data = [3, 4]\<rparr>
      1 1 2 2 = Some \<lparr>shape = [1, 4], data = [3, 4, 6, 8]\<rparr>"
    by (simp add: row_def kron_def)
qed

theorem outer_product_per_example_witness:
  "shape ub_example = [2, 1 * 2] \<and> wf_tensor ub_example \<and> shape item_example = [2, 2]
   \<and> wf_tensor item_example \<and> (1::nat) < 2
   \<and> (\<exists>op. outProducts ub_example item_example 2 1 2 2 = Some op \<and> shape op = [2, 1 * 2 * 2]
         \<and> row op 1 = [35, 40, 42, 48])"
proof -
  have h: "shape ub_example = [2, 1 * 2] \<and> wf_tensor ub_example \<and> shape item_example = [2, 2]
      \<and> wf_tensor item_example \<and> (1::nat) < 2"
    by (simp add: ub_example_def item_example_def wf_tensor_def)
  have k: "kron (row ub_example 1) (row item_example 1) = [35, 40, 42, 48]"
    by (simp add: ub_example_def item_example_def row_def kron_def)
  show ?thesis
    using h k outer_product_per_example [of ub_example 2 1 2 item_example 2 1]
    by simp
qed

section \<open>Closed forms of the backend operations on well-shaped matrices\<close>

lemma nth_concat_blocks:
  assumes "\<And>i. i < n \<Longrightarrow> length (f i) = m" "b < n" "j < m"
  shows "concat (map f [0..<n]) ! (b * m + j) = f b ! j"
proof -
  have len: "length (concat (map f [0..<n])) = n * m"
    using assms(1) by (rule length_concat_blocks)
  have "Suc b * m \<le> n * m" using assms(2) by (intro mult_le_mono1) simp
  then have le: "b * m + j < length (concat (map f [0..<n]))"
    using assms(3) len by simp
  have "f b ! j = take m (drop (b * m) (concat (map f [0..<n]))) ! j"
    using block_of_concat[of n f m b] assms by simp
  also have "\<dots> = concat (map f [0..<n]) ! (b * m + j)"
    using assms(3) le by simp
  finally show ?thesis by simp
qed

lemma nth_row:
  assumes "wf_tensor t" "shape t = [m, n]" "b < m" "j < n"
  shows "row t b ! j = data t ! (b * n + j)"
proof -
  have "Suc b * n \<le> m * n" using assms(3) by (intro mult_le_mono1) simp
  then show ?thesis using assms by (simp add: row_def wf_tensor_def)
qed

lemma Reshape3_value:
  "shape ubMatrix = [B, S * D] \<Longrightarrow>
   Reshape ubMatrix [B, S, D] = Some \<lparr>shape = [B, S, D], data = data ubMatrix\<rparr>"
  by (simp add: Reshape_def)

lemma slot_of_row:
  assumes "wf_tensor t" "shape t = [B, S * D]" "b < B" "i < S"
  shows "take D (drop ((b * S + i) * D) (data t)) = slot (row t b) D i"
    and "length (slot (row t b) D i) = D"
proof -
  have a: "Suc i * D \<le> S * D" using assms(4) by (intro mult_le_mono1) simp
  then have m: "min D (S * D - i * D) = D" by simp
  have e: "(b * S + i) * D = i * D + b * (S * D)" by (simp add: algebra_simps)
  show "take D (drop ((b * S + i) * D) (data t)) = slot (row t b) D i"
    using assms(2) by (simp add: slot_def row_def drop_take m e)
  have "length (row t b) = S * D" using assms by (intro length_row) auto
  then show "length (slot (row t b) D i) = D" using a by (simp add: slot_def)
qed

lemma Slice_slot_value:
  assumes "wf_tensor ubMatrix" "shape ubMatrix = [B, S * D]" "i < S"
  shows "Slice \<lparr>shape = [B, S, D], data = data ubMatrix\<rparr> [All, G_S i] =
           Some \<lparr>shape = [B, D], data = concat (map (\<lambda>b. slot (row ubMatrix b) D i) [0..<B])\<rparr>"
proof -
  have eq: "map (\<lambda>b. take D (drop ((b * S + i) * D) (data ubMatrix))) [0..<B] =
      map (\<lambda>b. slot (row ubMatrix b) D i) [0..<B]"
    using assms by (intro map_cong refl slot_of_row(1)) auto
  show ?thesis using assms(3) by (simp add: eq)
qed

lemma Concat3_value:
  assumes "shape a = [B, n1]" "shape b = [B, n2]" "shape c = [B, n3]"
  shows "Concat 1 [a, b, c] =
           Some \<lparr>shape = [B, n1 + n2 + n3],
                 data = concat (map (\<lambda>r. row a r @ row b r @ row c r) [0..<B])\<rparr>"
  using assms by (simp add: Concat_def row_def)

lemma Concat4_value:
  assumes "shape a = [B, n1]" "shape b = [B, n2]" "shape c = [B, n3]" "shape d = [B, n4]"
  shows "Concat 1 [a, b, c, d] =
           Some \<lparr>shape = [B, n1 + n2 + n3 + n4],
                 data = concat (map (\<lambda>r. row a r @ row b r @ row c r @ row d r) [0..<B])\<rparr>"
  using assms by (simp add: Concat_def row_def)

lemma Mul_value:
  assumes "wf_tensor a" "shape a = [m, k]" "shape w = [k, n]"
  shows "Mul a w = Some \<lparr>shape = [m, n], data = concat (map (\<lambda>i. vecmat (row a i) w) [0..<m])\<rparr>"
proof -
  have "map (\<lambda>i. map (\<lambda>j. sum_list (map (\<lambda>l. data a ! (i * k + l) * data w ! (l * n + j)) [0..<k]))
            [0..<n]) [0..<m] = map (\<lambda>i. vecmat (row a i) w) [0..<m]"
  proof (intro map_cong refl)
    fix i assume "i \<in> set [0..<m]"
    then have i: "i < m" by simp
    have len: "length (row a i) = k" using assms i by (intro length_row) auto
    have eq: "\<And>j. map (\<lambda>l. data a ! (i * k + l) * data w ! (l * n + j)) [0..<k] =
        map (\<lambda>l. row a i ! l * data w ! (l * n + j)) [0..<k]"
      using assms i by (intro map_cong refl) (simp add: nth_row)
    show "map (\<lambda>j. sum_list (map (\<lambda>l. data a ! (i * k + l) * data w ! (l * n + j)) [0..<k]))
        [0..<n] = vecmat (row a i) w"
      using assms(3) len by (simp add: vecmat_def eq)
  qed
  then have eq2: "concat (map (\<lambda>i. map (\<lambda>j. sum_list (map (\<lambda>l. data a ! (i * k + l) * data w ! (l * n + j)) [0..<k]))
            [0..<n]) [0..<m]) = concat (map (\<lambda>i. vecmat (row a i) w) [0..<m])"
    by (rule arg_cong)
  show ?thesis using assms by (simp add: Mul_def eq2)
qed

lemma length_vecmat: "shape w = [k, n] \<Longrightarrow> length (vecmat v w) = n"
  by (simp add: vecmat_def)

lemma Mul_rows:
  assumes "wf_tensor a" "shape a = [m, k]" "shape w = [k, n]"
  shows "\<exists>r. Mul a w = Some r \<and> shape r = [m, n] \<and> wf_tensor r \<and> (\<forall>i<m. row r i = vecmat (row a i) w)"
proof -
  let ?r = "\<lparr>shape = [m, n], data = concat (map (\<lambda>i. vecmat (row a i) w) [0..<m])\<rparr>"
  have len: "\<And>i. i < m \<Longrightarrow> length (vecmat (row a i) w) = n"
    by (rule length_vecmat[OF assms(3)])
  have "wf_tensor ?r" by (rule wf_blocks[where B = m and n = n and f = "\<lambda>i. vecmat (row a i) w"]) (simp_all add: len)
  moreover have "\<forall>i<m. row ?r i = vecmat (row a i) w"
    by (intro allI impI row_blocks[where B = m and n = n and f = "\<lambda>i. vecmat (row a i) w"])
      (simp_all add: len)
  ultimately show ?thesis using Mul_value[OF assms] by simp
qed

lemma Concat3_rows:
  assumes "wf_tensor a" "shape a = [B, n1]" "wf_tensor b" "shape b = [B, n2]" "wf_tensor c" "shape c = [B, n3]"
  shows "\<exists>r. Concat 1 [a, b, c] = Some r \<and> shape r = [B, n1 + n2 + n3] \<and> wf_tensor r
           \<and> (\<forall>i<B. row r i = row a i @ row b i @ row c i)"
proof -
  let ?f = "\<lambda>r. row a r @ row b r @ row c r"
  let ?r = "\<lparr>shape = [B, n1 + n2 + n3], data = concat (map ?f [0..<B])\<rparr>"
  have len: "\<And>i. i < B \<Longrightarrow> length (?f i) = n1 + n2 + n3"
    by (simp add: length_row[OF assms(1,2)] length_row[OF assms(3,4)] length_row[OF assms(5,6)])
  have "wf_tensor ?r"
    by (rule wf_blocks[where B = B and n = "n1 + n2 + n3" and f = ?f])
      (simp_all add: length_row[OF assms(1,2)] length_row[OF assms(3,4)] length_row[OF assms(5,6)])
  moreover have "\<forall>i<B. row ?r i = ?f i"
    by (intro allI impI row_blocks[where B = B and n = "n1 + n2 + n3" and f = ?f])
      (simp_all add: length_row[OF assms(1,2)] length_row[OF assms(3,4)] length_row[OF assms(5,6)])
  ultimately show ?thesis using Concat3_value[OF assms(2,4,6)] by simp
qed

lemma Concat4_rows:
  assumes "wf_tensor a" "shape a = [B, n1]" "wf_tensor b" "shape b = [B, n2]" "wf_tensor c" "shape c = [B, n3]"
    "wf_tensor d" "shape d = [B, n4]"
  shows "\<exists>r. Concat 1 [a, b, c, d] = Some r \<and> shape r = [B, n1 + n2 + n3 + n4] \<and> wf_tensor r
           \<and> (\<forall>i<B. row r i = row a i @ row b i @ row c i @ row d i)"
proof -
  let ?f = "\<lambda>r. row a r @ row b r @ row c r @ row d r"
  let ?r = "\<lparr>shape = [B, n1 + n2 + n3 + n4], data = concat (map ?f [0..<B])\<rparr>"
  have len: "\<And>i. i < B \<Longrightarrow> length (?f i) = n1 + n2 + n3 + n4"
    by (simp add: length_row[OF assms(1,2)] length_row[OF assms(3,4)] length_row[OF assms(5,6)]
        length_row[OF assms(7,8)])
  have "wf_tensor ?r"
    by (rule wf_blocks[where B = B and n = "n1 + n2 + n3 + n4" and f = ?f])
      (simp_all add: length_row[OF assms(1,2)] length_row[OF assms(3,4)] length_row[OF assms(5,6)]
        length_row[OF assms(7,8)])
  moreover have "\<forall>i<B. row ?r i = ?f i"
    by (intro allI impI row_blocks[where B = B and n = "n1 + n2 + n3 + n4" and f = ?f])
      (simp_all add: length_row[OF assms(1,2)] length_row[OF assms(3,4)] length_row[OF assms(5,6)]
        length_row[OF assms(7,8)])
  ultimately show ?thesis using Concat4_value[OF assms(2,4,6,8)] by simp
qed

lemma Slice_slot_rows:
  assumes "wf_tensor ubMatrix" "shape ubMatrix = [B, S * D]" "i < S"
  shows "\<exists>r. Slice \<lparr>shape = [B, S, D], data = data ubMatrix\<rparr> [All, G_S i] = Some r
           \<and> shape r = [B, D] \<and> wf_tensor r \<and> (\<forall>b<B. row r b = slot (row ubMatrix b) D i)"
proof -
  let ?f = "\<lambda>b. slot (row ubMatrix b) D i"
  let ?r = "\<lparr>shape = [B, D], data = concat (map ?f [0..<B])\<rparr>"
  have len: "\<And>b. b < B \<Longrightarrow> length (?f b) = D"
    by (rule slot_of_row(2)[OF assms(1) assms(2) _ assms(3)])
  have "wf_tensor ?r" by (rule wf_blocks[where B = B and n = D and f = ?f]) (simp_all add: len)
  moreover have "\<forall>b<B. row ?r b = ?f b"
    by (intro allI impI row_blocks[where B = B and n = D and f = ?f]) (simp_all add: len)
  ultimately show ?thesis using Slice_slot_value[OF assms] by simp
qed

lemma Rectify_rows:
  assumes "wf_tensor a" "shape a = [m, n]"
  shows "\<exists>r. Rectify a = Some r \<and> shape r = [m, n] \<and> wf_tensor r
           \<and> (\<forall>i<m. row r i = map (\<lambda>x. max x 0) (row a i))"
  using assms by (simp add: Rectify_def wf_tensor_def row_def take_map drop_map)

lemma BroadcastHadamardProd_rows:
  assumes "wf_tensor a" "shape a = [m, n]" "wf_tensor s" "shape s = [m, 1]"
  shows "\<exists>r. BroadcastHadamardProd a s [] [1] = Some r \<and> shape r = [m, n] \<and> wf_tensor r
           \<and> (\<forall>i<m. row r i = map (\<lambda>x. x * hd (row s i)) (row a i))"
proof -
  let ?g = "\<lambda>i. map (\<lambda>j. data a ! (i * n + j) * data s ! i) [0..<n]"
  let ?f = "\<lambda>i. map (\<lambda>x. x * hd (row s i)) (row a i)"
  let ?r = "\<lparr>shape = [m, n], data = concat (map ?f [0..<m])\<rparr>"
  have eq: "map ?g [0..<m] = map ?f [0..<m]"
  proof (intro map_cong refl)
    fix i assume "i \<in> set [0..<m]"
    then have i: "i < m" by simp
    have la: "length (row a i) = n" using assms i by (intro length_row) auto
    have ls: "length (row s i) = 1" using assms i by (intro length_row) auto
    have "hd (row s i) = row s i ! 0" using ls by (cases "row s i") auto
    also have "\<dots> = data s ! (i * 1 + 0)" using assms i by (intro nth_row) auto
    finally have h: "hd (row s i) = data s ! i" by simp
    show "?g i = ?f i"
      using la assms i by (intro nth_equalityI) (simp_all add: h nth_row)
  qed
  have len: "\<And>i. i < m \<Longrightarrow> length (?f i) = n"
    by (simp add: length_row[OF assms(1,2)])
  have "wf_tensor ?r"
    by (rule wf_blocks[where B = m and n = n and f = ?f]) (simp_all add: length_row[OF assms(1,2)])
  moreover have "\<forall>i<m. row ?r i = ?f i"
    by (intro allI impI row_blocks[where B = m and n = n and f = ?f])
      (simp_all add: length_row[OF assms(1,2)])
  moreover have "BroadcastHadamardProd a s [] [1] = Some ?r"
    using assms by (simp add: BroadcastHadamardProd_def eq)
  ultimately show ?thesis by simp
qed

section \<open>The activation unit\<close>

lemma hd_vecmat_one:
  "shape w = [k, 1] \<Longrightarrow> hd (map f (vecmat v w)) = f (hd (vecmat v w))"
  by (simp add: vecmat_def)

lemma actOut_rows:
  assumes ub: "wf_tensor ubMatrix" "shape ubMatrix = [B, S * D]"
    and op: "wf_tensor op" "shape op = [B, M]"
    and it: "wf_tensor xItemFeature" "shape xItemFeature = [B, D]"
    and i: "i < S" "i < length (att0 din)" "i < length (att1 din)"
    and a0: "shape (nvalue (att0 din ! i)) = [D + M + D, H]"
    and a1: "shape (nvalue (att1 din ! i)) = [H, 1]"
  shows "\<exists>t. actOut din \<lparr>shape = [B, S, D], data = data ubMatrix\<rparr> op xItemFeature i = Some t
           \<and> shape t = [B, D] \<and> wf_tensor t
           \<and> (\<forall>b<B. row t b =
                 map (\<lambda>x. x * score (slot (row ubMatrix b) D i @ row op b @ row xItemFeature b)
                                  (nvalue (att0 din ! i)) (nvalue (att1 din ! i)))
                   (slot (row ubMatrix b) D i))"
proof -
  obtain u where u: "Slice \<lparr>shape = [B, S, D], data = data ubMatrix\<rparr> [All, G_S i] = Some u"
      "shape u = [B, D]" "wf_tensor u" "\<forall>b<B. row u b = slot (row ubMatrix b) D i"
    using Slice_slot_rows[OF ub i(1)] by blast
  obtain c where c: "Concat 1 [u, op, xItemFeature] = Some c" "shape c = [B, D + M + D]"
      "wf_tensor c" "\<forall>b<B. row c b = row u b @ row op b @ row xItemFeature b"
    using Concat3_rows[OF u(3) u(2) op it] by blast
  obtain h where h: "Mul c (nvalue (att0 din ! i)) = Some h" "shape h = [B, H]" "wf_tensor h"
      "\<forall>b<B. row h b = vecmat (row c b) (nvalue (att0 din ! i))"
    using Mul_rows[OF c(3) c(2) a0] by blast
  obtain s where s: "Mul h (nvalue (att1 din ! i)) = Some s" "shape s = [B, 1]" "wf_tensor s"
      "\<forall>b<B. row s b = vecmat (row h b) (nvalue (att1 din ! i))"
    using Mul_rows[OF h(3) h(2) a1] by blast
  obtain r where r: "Rectify s = Some r" "shape r = [B, 1]" "wf_tensor r"
      "\<forall>b<B. row r b = map (\<lambda>x. max x 0) (row s b)"
    using Rectify_rows[OF s(3) s(2)] by blast
  obtain t where t: "BroadcastHadamardProd u r [] [1] = Some t" "shape t = [B, D]" "wf_tensor t"
      "\<forall>b<B. row t b = map (\<lambda>x. x * hd (row r b)) (row u b)"
    using BroadcastHadamardProd_rows[OF u(3) u(2) r(3) r(2)] by blast
  have run: "actOut din \<lparr>shape = [B, S, D], data = data ubMatrix\<rparr> op xItemFeature i = Some t"
    by (simp only: actOut_def u(1) c(1) h(1) s(1) r(1) t(1) index_def i if_True
        Option.bind.simps)
  have rows: "\<forall>b<B. row t b =
      map (\<lambda>x. x * score (slot (row ubMatrix b) D i @ row op b @ row xItemFeature b)
                       (nvalue (att0 din ! i)) (nvalue (att1 din ! i)))
        (slot (row ubMatrix b) D i)"
  proof (intro allI impI)
    fix b assume b: "b < B"
    have "hd (row r b) = hd (map (\<lambda>x. max x 0)
        (vecmat (row h b) (nvalue (att1 din ! i))))"
      using r(4) s(4) b by simp
    also have "\<dots> = max (hd (vecmat (row h b) (nvalue (att1 din ! i)))) 0"
      by (rule hd_vecmat_one[OF a1])
    also have "\<dots> = score (row c b) (nvalue (att0 din ! i)) (nvalue (att1 din ! i))"
      using h(4) b by (simp add: score_def)
    finally show "row t b =
      map (\<lambda>x. x * score (slot (row ubMatrix b) D i @ row op b @ row xItemFeature b)
                       (nvalue (att0 din ! i)) (nvalue (att1 din ! i)))
        (slot (row ubMatrix b) D i)"
      using t(4) c(4) u(4) b by simp
  qed
  show ?thesis using run t(2) t(3) rows by blast
qed

section \<open>Sum pooling\<close>

lemma Add_value:
  assumes "shape a = [B, D]" "wf_tensor a" "shape t = [B, D]" "wf_tensor t"
  shows "\<exists>r. Add a t = Some r \<and> shape r = [B, D] \<and> wf_tensor r
           \<and> (\<forall>k<B * D. data r ! k = data a ! k + data t ! k)"
  using assms by (simp add: Add_def wf_tensor_def)

lemma sumPooling_sum:
  assumes "\<forall>i\<in>set slots. \<exists>t. actOut din xub op item i = Some t \<and> shape t = [B, D] \<and> wf_tensor t"
    and "shape acc = [B, D]" "wf_tensor acc"
  shows "\<exists>r. sumPooling din xub op item slots acc = Some r \<and> shape r = [B, D] \<and> wf_tensor r
           \<and> (\<forall>k<B * D. data r ! k =
                 data acc ! k + (\<Sum>i\<leftarrow>slots. data (the (actOut din xub op item i)) ! k))"
  using assms
proof (induction slots arbitrary: acc)
  case Nil
  then show ?case by simp
next
  case (Cons i slots)
  obtain t where t: "actOut din xub op item i = Some t" "shape t = [B, D]" "wf_tensor t"
    using Cons.prems(1) by auto
  obtain acc' where acc': "Add acc t = Some acc'" "shape acc' = [B, D]" "wf_tensor acc'"
      "\<forall>k<B * D. data acc' ! k = data acc ! k + data t ! k"
    using Add_value[OF Cons.prems(2,3) t(2,3)] by blast
  have rest: "\<forall>i\<in>set slots. \<exists>t. actOut din xub op item i = Some t \<and> shape t = [B, D]
      \<and> wf_tensor t"
    using Cons.prems(1) by simp
  obtain r where r: "sumPooling din xub op item slots acc' = Some r" "shape r = [B, D]"
      "wf_tensor r"
      "\<forall>k<B * D. data r ! k =
         data acc' ! k + (\<Sum>i\<leftarrow>slots. data (the (actOut din xub op item i)) ! k)"
    using Cons.IH[OF rest acc'(2,3)] by blast
  have "sumPooling din xub op item (i # slots) acc = Some r"
    by (simp add: t(1) acc'(1) r(1))
  moreover have "\<forall>k<B * D. data r ! k =
      data acc ! k + (\<Sum>j\<leftarrow>i # slots. data (the (actOut din xub op item j)) ! k)"
    using r(4) acc'(4) t(1) by simp
  ultimately show ?case using r(2,3) by blast
qed

lemma Zeroes_shape: "shape (Zeroes [B, D]) = [B, D]" "wf_tensor (Zeroes [B, D])"
  by (simp_all add: Zeroes_def wf_tensor_def)

lemma Zeroes_nth: "k < B * D \<Longrightarrow> data (Zeroes [B, D]) ! k = 0"
  by (simp add: Zeroes_def)

lemma NewDinNet_fields:
  assumes "NewDinNet gaussian P S D D C = Inr din"
  shows "length (att0 din) = S" "length (att1 din) = S"
    "\<And>i. i < S \<Longrightarrow> shape (nvalue (att0 din ! i)) = [D + S * D * D + D, 36]"
    "\<And>i. i < S \<Longrightarrow> shape (nvalue (att1 din ! i)) = [36, 1]"
    "shape (nvalue (mlp0 din)) = [P + D + D + C, 200]"
    "shape (nvalue (mlp1 din)) = [200, 80]"
    "shape (nvalue (mlp2 din)) = [80, 1]"
    "d0 din = 1 / 1000" "d1 din = 1 / 1000" "out din = None"
  using assms by (auto simp: NewDinNet_def NewNode_def Let_def)

lemma outProducts_wf:
  assumes "wf_tensor ubMatrix" "shape ubMatrix = [B, S * D]"
    "wf_tensor xItemFeature" "shape xItemFeature = [B, I]" "0 < B"
  shows "\<exists>op. outProducts ubMatrix xItemFeature B S D I = Some op \<and> shape op = [B, S * D * I]
           \<and> wf_tensor op
           \<and> (\<forall>b<B. row op b = kron (row ubMatrix b) (row xItemFeature b))"
proof -
  let ?f = "\<lambda>b. kron (row ubMatrix b) (row xItemFeature b)"
  let ?op = "\<lparr>shape = [B, S * D * I], data = concat (map ?f [0..<B])\<rparr>"
  have len: "\<And>i. i < B \<Longrightarrow> length (?f i) = S * D * I"
    by (simp add: length_kron length_row[OF assms(1,2)] length_row[OF assms(3,4)])
  have "wf_tensor ?op"
    by (rule wf_blocks[where B = B and n = "S * D * I" and f = ?f]) (simp_all add: len)
  moreover have "\<forall>b<B. row ?op b = ?f b"
    by (intro allI impI row_blocks[where B = B and n = "S * D * I" and f = ?f])
      (simp_all add: len)
  ultimately show ?thesis
    using outProducts_value[OF assms(2) assms(4) assms(5)] by simp
qed

lemma actOut_constructed:
  assumes din: "NewDinNet gaussian P S D D C = Inr din"
    and ub: "wf_tensor ubMatrix" "shape ubMatrix = [B, S * D]"
    and op: "wf_tensor op" "shape op = [B, S * D * D]"
    and it: "wf_tensor xItemFeature" "shape xItemFeature = [B, D]"
    and i: "i < S"
  shows "\<exists>t. actOut din \<lparr>shape = [B, S, D], data = data ubMatrix\<rparr> op xItemFeature i = Some t
           \<and> shape t = [B, D] \<and> wf_tensor t
           \<and> (\<forall>b<B. row t b =
                 map (\<lambda>x. x * score (slot (row ubMatrix b) D i @ row op b @ row xItemFeature b)
                                  (nvalue (att0 din ! i)) (nvalue (att1 din ! i)))
                   (slot (row ubMatrix b) D i))"
proof -
  have i0: "i < length (att0 din)" and i1: "i < length (att1 din)"
    using NewDinNet_fields(1,2)[OF din] i by simp_all
  show ?thesis
    by (rule actOut_rows[OF ub op it i i0 i1 NewDinNet_fields(3)[OF din i]
          NewDinNet_fields(4)[OF din i]])
qed

section \<open>The score of the activation unit\<close>

lemma vecmat_const:
  assumes "length v = k" "shape W = [k, n]" "data W = replicate (k * n) c"
  shows "vecmat v W = replicate n (sum_list v * c)"
proof -
  have inner: "\<And>j. j < n \<Longrightarrow>
      sum_list (map (\<lambda>l. v ! l * data W ! (l * n + j)) [0..<k]) = sum_list v * c"
  proof -
    fix j assume j: "j < n"
    have "map (\<lambda>l. v ! l * data W ! (l * n + j)) [0..<k] = map (\<lambda>l. v ! l * c) [0..<k]"
    proof (intro map_cong refl)
      fix l assume "l \<in> set [0..<k]"
      then have "Suc l * n \<le> k * n" by (intro mult_le_mono1) simp
      then have "l * n + j < k * n" using j by simp
      then show "v ! l * data W ! (l * n + j) = v ! l * c" by (simp add: assms(3))
    qed
    also have "\<dots> = map (\<lambda>x. x * c) (map (\<lambda>l. v ! l) [0..<length v])"
      by (simp add: assms(1))
    also have "\<dots> = map (\<lambda>x. x * c) v" by (simp only: map_nth)
    finally show "sum_list (map (\<lambda>l. v ! l * data W ! (l * n + j)) [0..<k]) = sum_list v * c"
      by (simp add: sum_list_mult_const)
  qed
  have "vecmat v W = map (\<lambda>j. sum_list v * c) [0..<n]"
    unfolding vecmat_def using assms(1,2) by (auto intro!: map_cong simp: inner)
  then show ?thesis by (simp add: map_replicate_const)
qed

lemma NewDinNet_att_data:
  assumes "NewDinNet gaussian P S D D C = Inr din" "i < S"
  shows "data (nvalue (att0 din ! i)) =
           map (gaussian (''att0-'' @ itoa i)) [0..<(D + S * D * D + D) * 36]"
    and "data (nvalue (att1 din ! i)) = map (gaussian (''att1-'' @ itoa i)) [0..<36]"
  using assms by (auto simp: NewDinNet_def NewNode_def Let_def algebra_simps)

lemma att_draws_names:
  "att_draws (''att0-'' @ s) = (\<lambda>k. 1)" "att_draws (''att1-'' @ s) = (\<lambda>k. - 1)"
  by (rule ext, simp add: att_draws_def)+

text \<open>
  C1. The claim has the rectifier between the two matrix products of the activation
  unit: the score is the rectified product of the features with \<open>att0[i]\<close>, multiplied
  with \<open>att1[i]\<close>. \<^verbatim>\<open>DinNet.Fwd\<close> applies the rectifier after both products (line 187),
  so that the two attention matrices of a slot act as one linear map. In the worked
  example (one example, one slot, dimension one, every feature 1, the entries of
  \<open>att0[0]\<close> all 1 and those of \<open>att1[0]\<close> all \<open>-1\<close>) the activation unit of the source
  returns 0 for the only element of the only slot, while the behaviour value times the
  score of the claim is \<open>-108\<close>.
\<close>

theorem activation_score_counterexample:
  "NewDinNet att_draws 1 1 1 1 1 = Inr din1
   \<and> Reshape one_example [1, 1, 1] = Some xub1
   \<and> outProducts one_example one_example 1 1 1 1 = Some one_example
   \<and> row (the (actOut din1 xub1 one_example one_example 0)) 0 ! 0 = 0
   \<and> slot (row one_example 0) 1 0 ! 0
       * spec_score (slot (row one_example 0) 1 0 @ row one_example 0 @ row one_example 0)
           (nvalue (att0 din1 ! 0)) (nvalue (att1 din1 ! 0)) = - 108"
proof -
  have din: "NewDinNet att_draws 1 1 1 1 1 = Inr din1"
    unfolding din1_def by (rule NewDinNet_Inr)
  have one: "wf_tensor one_example" "shape one_example = [1, 1 * 1]"
      "shape one_example = [1, 1 * 1 * 1]" "shape one_example = [1, 1]"
    by (simp_all add: one_example_def wf_tensor_def)
  have xub: "Reshape one_example [1, 1, 1] = Some xub1"
    by (simp add: Reshape_def one_example_def xub1_def)
  have xub': "xub1 = \<lparr>shape = [1, 1, 1], data = data one_example\<rparr>"
    by (simp add: one_example_def xub1_def)
  have op: "outProducts one_example one_example 1 1 1 1 = Some one_example"
    using outProducts_value[OF one(2) one(4)]
    by (simp add: one_example_def row_def kron_def)
  have sl: "slot (row one_example 0) 1 0 = [1]" "row one_example 0 = [1]"
    by (simp_all add: slot_def row_def one_example_def)
  have s0: "shape (nvalue (att0 din1 ! 0)) = [3, 36]"
    using NewDinNet_fields(3)[OF din, of 0] by simp
  have s1: "shape (nvalue (att1 din1 ! 0)) = [36, 1]"
    using NewDinNet_fields(4)[OF din, of 0] by simp
  have d0: "data (nvalue (att0 din1 ! 0)) = replicate (3 * 36) 1"
    using NewDinNet_att_data(1)[OF din, of 0]
    by (simp only: att_draws_names map_replicate_const) simp
  have d1: "data (nvalue (att1 din1 ! 0)) = replicate (36 * 1) (- 1)"
    using NewDinNet_att_data(2)[OF din, of 0]
    by (simp only: att_draws_names map_replicate_const) simp
  have v0: "vecmat [1, 1, 1] (nvalue (att0 din1 ! 0)) = replicate 36 3"
    using vecmat_const[OF _ s0 d0, of "[1, 1, 1]"] by simp
  have v1: "vecmat (replicate 36 3) (nvalue (att1 din1 ! 0)) = [- 108]"
    using vecmat_const[OF _ s1 d1, of "replicate 36 3"] by (simp add: sum_list_replicate)
  have sc: "score [1, 1, 1] (nvalue (att0 din1 ! 0)) (nvalue (att1 din1 ! 0)) = 0"
    by (simp add: score_def v0 v1)
  have cl: "spec_score [1, 1, 1] (nvalue (att0 din1 ! 0)) (nvalue (att1 din1 ! 0)) = - 108"
    by (simp add: spec_score_def v0 v1)
  obtain t where t: "actOut din1 xub1 one_example one_example 0 = Some t"
      "\<forall>b<1. row t b =
         map (\<lambda>x. x * score (slot (row one_example b) 1 0 @ row one_example b @ row one_example b)
                          (nvalue (att0 din1 ! 0)) (nvalue (att1 din1 ! 0)))
           (slot (row one_example b) 1 0)"
    using actOut_constructed[OF din one(1) one(2) one(1) one(3) one(1) one(4), of 0]
    unfolding xub' by auto
  have "row t 0 = [0]" using t(2) by (simp add: sl(2) slot_def sc)
  then have r: "row (the (actOut din1 xub1 one_example one_example 0)) 0 ! 0 = 0"
    by (simp add: t(1))
  show ?thesis using din xub op r by (simp add: sl(2) slot_def cl)
qed

text \<open>
  What the activation unit of the source computes for a model built by \<^verbatim>\<open>NewDinNet\<close>
  and a well-shaped batch, for every slot \<open>i < S\<close> and every example \<open>b\<close>: the
  concatenated features are the behaviour vector of the slot, then the row of the
  interaction tensor, then the item vector; the rectifier is applied to the product of
  these features with \<open>att0[i]\<close> and then with \<open>att1[i]\<close>; and the output of the slot is
  the behaviour vector with every component multiplied by that one number.
\<close>

lemma actOut_score_rows:
  "NewDinNet gaussian P S D D C = Inr din \<and> wf_tensor ubMatrix \<and> shape ubMatrix = [B, S * D]
     \<and> wf_tensor xItemFeature \<and> shape xItemFeature = [B, D] \<and> i < S \<and> b < B \<longrightarrow>
   (\<exists>xub op t.
       Reshape ubMatrix [B, S, D] = Some xub
     \<and> outProducts ubMatrix xItemFeature B S D D = Some op
     \<and> actOut din xub op xItemFeature i = Some t
     \<and> shape t = [B, D]
     \<and> row op b = kron (row ubMatrix b) (row xItemFeature b)
     \<and> row t b =
         map (\<lambda>x. x * max (hd (vecmat (vecmat
                               (slot (row ubMatrix b) D i @ row op b @ row xItemFeature b)
                               (nvalue (att0 din ! i))) (nvalue (att1 din ! i)))) 0)
           (slot (row ubMatrix b) D i))"
proof (intro impI)
  assume h: "NewDinNet gaussian P S D D C = Inr din \<and> wf_tensor ubMatrix
      \<and> shape ubMatrix = [B, S * D] \<and> wf_tensor xItemFeature \<and> shape xItemFeature = [B, D]
      \<and> i < S \<and> b < B"
  then have din: "NewDinNet gaussian P S D D C = Inr din"
    and ub: "wf_tensor ubMatrix" "shape ubMatrix = [B, S * D]"
    and it: "wf_tensor xItemFeature" "shape xItemFeature = [B, D]"
    and i: "i < S" and b: "b < B"
    by simp_all
  have B: "0 < B" using b by simp
  let ?xub = "\<lparr>shape = [B, S, D], data = data ubMatrix\<rparr>"
  have xub: "Reshape ubMatrix [B, S, D] = Some ?xub"
    by (rule Reshape3_value[OF ub(2)])
  obtain op where op: "outProducts ubMatrix xItemFeature B S D D = Some op"
      "shape op = [B, S * D * D]" "wf_tensor op"
      "\<forall>b<B. row op b = kron (row ubMatrix b) (row xItemFeature b)"
    using outProducts_wf[OF ub it B] by blast
  obtain t where t: "actOut din ?xub op xItemFeature i = Some t" "shape t = [B, D]"
      "\<forall>b<B. row t b =
         map (\<lambda>x. x * score (slot (row ubMatrix b) D i @ row op b @ row xItemFeature b)
                          (nvalue (att0 din ! i)) (nvalue (att1 din ! i)))
           (slot (row ubMatrix b) D i)"
    using actOut_constructed[OF din ub op(3) op(2) it i] by blast
  have "row t b =
      map (\<lambda>x. x * max (hd (vecmat (vecmat
                            (slot (row ubMatrix b) D i @ row op b @ row xItemFeature b)
                            (nvalue (att0 din ! i))) (nvalue (att1 din ! i)))) 0)
        (slot (row ubMatrix b) D i)"
    using t(3) b by (simp add: score_def)
  then show "\<exists>xub op t.
       Reshape ubMatrix [B, S, D] = Some xub
     \<and> outProducts ubMatrix xItemFeature B S D D = Some op
     \<and> actOut din xub op xItemFeature i = Some t
     \<and> shape t = [B, D]
     \<and> row op b = kron (row ubMatrix b) (row xItemFeature b)
     \<and> row t b =
         map (\<lambda>x. x * max (hd (vecmat (vecmat
                               (slot (row ubMatrix b) D i @ row op b @ row xItemFeature b)
                               (nvalue (att0 din ! i))) (nvalue (att1 din ! i)))) 0)
           (slot (row ubMatrix b) D i)"
    using xub op(1) op(4) t(1,2) b by blast
qed

section \<open>The prediction layers\<close>

lemma SimpleMLP_Fwd_layers:
  "SimpleMLP_Fwd mlp md u0 u1 xUserProfile ubMatrix xItemFeature xCtxFeature B S D =
     do {
       ub \<leftarrow> Reshape ubMatrix [B, S * D];
       x \<leftarrow> Concat 1 [xUserProfile, ub, xItemFeature, xCtxFeature];
       o' \<leftarrow> mlp_layers md u0 u1 (d0 mlp) (d1 mlp) (nvalue (mlp0 mlp)) (nvalue (mlp1 mlp))
               (nvalue (mlp2 mlp)) x;
       Some (None, mlp\<lparr>out := Some o'\<rparr>)
     }"
  by (simp add: SimpleMLP_Fwd_def mlp_layers_def)

lemma mlp_head_unfold:
  "mlp_head din md u0 u1 xUserProfile actOuts xItemFeature xCtxFeature =
     do {
       concat' \<leftarrow> Concat 1 [xUserProfile, actOuts, xItemFeature, xCtxFeature];
       h0 \<leftarrow> Mul concat' (nvalue (mlp0 din));
       mlp0Out \<leftarrow> LeakyRelu h0 (1 / 10);
       mlp0Out \<leftarrow> Dropout mlp0Out (d0 din) md u0;
       h1 \<leftarrow> Mul mlp0Out (nvalue (mlp1 din));
       mlp1Out \<leftarrow> LeakyRelu h1 (1 / 10);
       mlp1Out \<leftarrow> Dropout mlp1Out (d1 din) md u1;
       h2 \<leftarrow> Mul mlp1Out (nvalue (mlp2 din));
       mlp2Out \<leftarrow> Sigmoid h2;
       Some (None, din\<lparr>out := Some mlp2Out\<rparr>)
     }"
  by (simp add: mlp_head_def mlp_layers_def)

lemma LeakyRelu_wf:
  assumes "wf_tensor a" "shape a = sh"
  shows "\<exists>r. LeakyRelu a alpha = Some r \<and> shape r = sh \<and> wf_tensor r"
  using assms by (simp add: LeakyRelu_def wf_tensor_def)

lemma Dropout_wf:
  assumes "wf_tensor a" "shape a = sh"
  shows "\<exists>r. Dropout a p md u = Some r \<and> shape r = sh \<and> wf_tensor r"
  using assms by (cases md) (simp_all add: Dropout_def wf_tensor_def)

lemma Sigmoid_range:
  "Sigmoid t = Some r \<Longrightarrow> x \<in> set (data r) \<Longrightarrow> 0 < x \<and> x < 1"
proof -
  assume a: "Sigmoid t = Some r" "x \<in> set (data r)"
  then obtain z where x: "x = 1 / (1 + exp (- z))"
    by (auto simp: Sigmoid_def)
  have "0 < exp (- z)" by simp
  then show ?thesis unfolding x by (simp add: field_simps add_pos_pos)
qed

lemma Sigmoid_wf:
  assumes "wf_tensor a" "shape a = sh"
  shows "\<exists>r. Sigmoid a = Some r \<and> shape r = sh \<and> wf_tensor r
           \<and> (\<forall>x\<in>set (data r). 0 < x \<and> x < 1)"
proof -
  obtain r where r: "Sigmoid a = Some r" "shape r = sh" "wf_tensor r"
    using assms by (simp add: Sigmoid_def wf_tensor_def)
  then show ?thesis using Sigmoid_range[OF r(1)] by blast
qed

lemma mlp_layers_succeeds:
  assumes x: "wf_tensor x" "shape x = [B, K]"
    and W: "shape W0 = [K, 200]" "shape W1 = [200, 80]" "shape W2 = [80, 1]"
  shows "\<exists>o'. mlp_layers md u0 u1 p0 p1 W0 W1 W2 x = Some o' \<and> shape o' = [B, 1]
           \<and> wf_tensor o' \<and> (\<forall>v\<in>set (data o'). 0 < v \<and> v < 1)"
proof -
  obtain h0 where h0: "Mul x W0 = Some h0" "shape h0 = [B, 200]" "wf_tensor h0"
    using Mul_rows[OF x W(1)] by blast
  obtain l0 where l0: "LeakyRelu h0 (1 / 10) = Some l0" "shape l0 = [B, 200]" "wf_tensor l0"
    using LeakyRelu_wf[OF h0(3) h0(2)] by blast
  obtain r0 where r0: "Dropout l0 p0 md u0 = Some r0" "shape r0 = [B, 200]" "wf_tensor r0"
    using Dropout_wf[OF l0(3) l0(2)] by blast
  obtain h1 where h1: "Mul r0 W1 = Some h1" "shape h1 = [B, 80]" "wf_tensor h1"
    using Mul_rows[OF r0(3) r0(2) W(2)] by blast
  obtain l1 where l1: "LeakyRelu h1 (1 / 10) = Some l1" "shape l1 = [B, 80]" "wf_tensor l1"
    using LeakyRelu_wf[OF h1(3) h1(2)] by blast
  obtain r1 where r1: "Dropout l1 p1 md u1 = Some r1" "shape r1 = [B, 80]" "wf_tensor r1"
    using Dropout_wf[OF l1(3) l1(2)] by blast
  obtain h2 where h2: "Mul r1 W2 = Some h2" "shape h2 = [B, 1]" "wf_tensor h2"
    using Mul_rows[OF r1(3) r1(2) W(3)] by blast
  obtain o' where o': "Sigmoid h2 = Some o'" "shape o' = [B, 1]" "wf_tensor o'"
      "\<forall>v\<in>set (data o'). 0 < v \<and> v < 1"
    using Sigmoid_wf[OF h2(3) h2(2)] by blast
  have "mlp_layers md u0 u1 p0 p1 W0 W1 W2 x = Some o'"
    unfolding mlp_layers_def
    by (simp only: h0(1) l0(1) r0(1) h1(1) l1(1) r1(1) h2(1) o'(1) Option.bind.simps)
  then show ?thesis using o'(2,3,4) by blast
qed

lemma mlp_layers_evaluation:
  "mlp_layers Evaluation u0 u1 p0 p1 W0 W1 W2 x = mlp_layers Evaluation u0' u1' p0 p1 W0 W1 W2 x"
  by (simp add: mlp_layers_def Dropout_def)

section \<open>The user interest inside the forward pass\<close>

lemma gated_is_actOut_row:
  assumes din: "NewDinNet gaussian P S D D C = Inr din"
    and ub: "wf_tensor ubMatrix" "shape ubMatrix = [B, S * D]"
    and it: "wf_tensor xItemFeature" "shape xItemFeature = [B, D]"
    and op: "outProducts ubMatrix xItemFeature B S D D = Some op"
    and i: "i < S" and b: "b < B"
  shows "\<exists>t. actOut din \<lparr>shape = [B, S, D], data = data ubMatrix\<rparr> op xItemFeature i = Some t
           \<and> shape t = [B, D] \<and> wf_tensor t
           \<and> row t b = gated din ubMatrix xItemFeature D i b"
proof -
  have B: "0 < B" using b by simp
  obtain op' where op': "outProducts ubMatrix xItemFeature B S D D = Some op'"
      "shape op' = [B, S * D * D]" "wf_tensor op'"
      "\<forall>b<B. row op' b = kron (row ubMatrix b) (row xItemFeature b)"
    using outProducts_wf[OF ub it B] by blast
  have e: "op' = op" using op op'(1) by simp
  obtain t where t: "actOut din \<lparr>shape = [B, S, D], data = data ubMatrix\<rparr> op xItemFeature i = Some t"
      "shape t = [B, D]" "wf_tensor t"
      "\<forall>b<B. row t b =
         map (\<lambda>x. x * score (slot (row ubMatrix b) D i @ row op b @ row xItemFeature b)
                          (nvalue (att0 din ! i)) (nvalue (att1 din ! i)))
           (slot (row ubMatrix b) D i)"
    using actOut_constructed[OF din ub op'(3)[unfolded e] op'(2)[unfolded e] it i] by blast
  have "row t b = gated din ubMatrix xItemFeature D i b"
    using t(4) op'(4) b by (simp add: gated_def e)
  then show ?thesis using t(1,2,3) by blast
qed

lemma user_interest_shape:
  "shape (user_interest din ubMatrix xItemFeature B S D) = [B, D]"
  "length (data (user_interest din ubMatrix xItemFeature B S D)) = B * D"
  by (simp_all add: user_interest_def length_concat_blocks)

lemma user_interest_nth:
  assumes "b < B" "d < D"
  shows "data (user_interest din ubMatrix xItemFeature B S D) ! (b * D + d) =
           (\<Sum>i\<leftarrow>[0..<S]. gated din ubMatrix xItemFeature D i b ! d)"
proof -
  let ?f = "\<lambda>b. map (\<lambda>d. 0 + sum_list (map (\<lambda>i.
                 gated din ubMatrix xItemFeature D i b ! d) [0..<S])) [0..<D]"
  have "concat (map ?f [0..<B]) ! (b * D + d) = ?f b ! d"
    by (rule nth_concat_blocks) (simp_all add: assms)
  then show ?thesis using assms(2) by (simp add: user_interest_def)
qed

lemma sumPooling_is_user_interest:
  assumes din: "NewDinNet gaussian P S D D C = Inr din"
    and ub: "wf_tensor ubMatrix" "shape ubMatrix = [B, S * D]"
    and it: "wf_tensor xItemFeature" "shape xItemFeature = [B, D]"
    and op: "outProducts ubMatrix xItemFeature B S D D = Some op"
    and B: "0 < B"
  shows "sumPooling din \<lparr>shape = [B, S, D], data = data ubMatrix\<rparr> op xItemFeature [0..<S]
           (Zeroes [B, D]) = Some (user_interest din ubMatrix xItemFeature B S D)"
proof -
  let ?xub = "\<lparr>shape = [B, S, D], data = data ubMatrix\<rparr>"
  let ?ui = "user_interest din ubMatrix xItemFeature B S D"
  have acts: "\<forall>i\<in>set [0..<S]. \<exists>t. actOut din ?xub op xItemFeature i = Some t
      \<and> shape t = [B, D] \<and> wf_tensor t"
  proof
    fix i assume "i \<in> set [0..<S]"
    then have "i < S" by simp
    from gated_is_actOut_row[OF din ub it op this B]
    show "\<exists>t. actOut din ?xub op xItemFeature i = Some t \<and> shape t = [B, D] \<and> wf_tensor t"
      by blast
  qed
  obtain r where r: "sumPooling din ?xub op xItemFeature [0..<S] (Zeroes [B, D]) = Some r"
      "shape r = [B, D]" "wf_tensor r"
      "\<forall>k<B * D. data r ! k = data (Zeroes [B, D]) ! k
          + (\<Sum>i\<leftarrow>[0..<S]. data (the (actOut din ?xub op xItemFeature i)) ! k)"
    using sumPooling_sum[OF acts Zeroes_shape] by blast
  have len: "length (data r) = B * D" using r(2,3) by (simp add: wf_tensor_def)
  have "data r = data ?ui"
  proof (rule nth_equalityI)
    show "length (data r) = length (data ?ui)" by (simp add: len user_interest_shape)
  next
    fix k assume "k < length (data r)"
    then have k: "k < B * D" by (simp add: len)
    then have D: "0 < D" by (cases D) simp_all
    define b where "b = k div D"
    define d where "d = k mod D"
    have kd: "k = b * D + d" by (simp add: b_def d_def)
    have d: "d < D" using D by (simp add: d_def)
    have b: "b < B" using k D by (simp add: b_def less_mult_imp_div_less)
    have "map (\<lambda>i. data (the (actOut din ?xub op xItemFeature i)) ! (b * D + d)) [0..<S] =
        map (\<lambda>i. gated din ubMatrix xItemFeature D i b ! d) [0..<S]"
    proof (intro map_cong refl)
      fix i assume "i \<in> set [0..<S]"
      then have i: "i < S" by simp
      obtain t where t: "actOut din ?xub op xItemFeature i = Some t" "shape t = [B, D]"
          "wf_tensor t" "row t b = gated din ubMatrix xItemFeature D i b"
        using gated_is_actOut_row[OF din ub it op i b] by blast
      have "data t ! (b * D + d) = row t b ! d"
        by (rule nth_row[OF t(3) t(2) b d, symmetric])
      then show "data (the (actOut din ?xub op xItemFeature i)) ! (b * D + d) =
          gated din ubMatrix xItemFeature D i b ! d"
        by (simp add: t(1) t(4))
    qed
    then have "(\<Sum>i\<leftarrow>[0..<S]. data (the (actOut din ?xub op xItemFeature i)) ! (b * D + d)) =
        (\<Sum>i\<leftarrow>[0..<S]. gated din ubMatrix xItemFeature D i b ! d)"
      by (rule arg_cong)
    then have "data r ! (b * D + d) = (\<Sum>i\<leftarrow>[0..<S]. gated din ubMatrix xItemFeature D i b ! d)"
      using r(4) k kd by (simp add: Zeroes_nth)
    then show "data r ! k = data ?ui ! k"
      unfolding kd by (simp only: user_interest_nth[OF b d])
  qed
  then have "r = ?ui" using r(2) by (simp add: user_interest_shape)
  then show ?thesis using r(1) by simp
qed

lemma DinNet_Fwd_head:
  assumes din: "NewDinNet gaussian P S D D C = Inr din"
    and ub: "wf_tensor ubMatrix" "shape ubMatrix = [B, S * D]"
    and it: "wf_tensor xItemFeature" "shape xItemFeature = [B, D]"
    and B: "0 < B"
  shows "DinNet_Fwd din md u0 u1 xUserProfile ubMatrix xItemFeature xCtxFeature B S D =
      mlp_head din md u0 u1 xUserProfile (user_interest din ubMatrix xItemFeature B S D)
        xItemFeature xCtxFeature"
proof -
  let ?xub = "\<lparr>shape = [B, S, D], data = data ubMatrix\<rparr>"
  let ?ui = "user_interest din ubMatrix xItemFeature B S D"
  have ix: "index (shape xItemFeature) 1 = Some D"
    by (simp add: index_def it(2))
  have xub: "Reshape ubMatrix [B, S, D] = Some ?xub"
    by (rule Reshape3_value[OF ub(2)])
  obtain op where op: "outProducts ubMatrix xItemFeature B S D D = Some op"
    using outProducts_wf[OF ub it B] by blast
  have sp: "sumPooling din ?xub op xItemFeature [0..<S] (Zeroes [B, D]) = Some ?ui"
    by (rule sumPooling_is_user_interest[OF din ub it op B])
  show ?thesis
    unfolding DinNet_Fwd_def mlp_head_unfold
    by (simp only: ix xub op sp Option.bind.simps) simp
qed

lemma user_interest_wf:
  "wf_tensor (user_interest din ubMatrix xItemFeature B S D)"
  by (simp add: wf_tensor_def user_interest_shape)

text \<open>
  C5. For a model built by \<^verbatim>\<open>NewDinNet\<close> and a well-shaped batch, for every
  behaviour size \<open>S\<close> and dimension \<open>D\<close>: \<^verbatim>\<open>DinNet.Fwd\<close> is its last part (the
  concatenation and the prediction layers) applied to the user interest, a tensor of
  shape \<open>[B, D]\<close> whatever \<open>S\<close> is, whose every element is the sum over the slots
  \<open>0, ..., S - 1\<close> of that element of the gated behaviour vector of the slot; with no
  slot it is all zero, the value the accumulator starts from. The gated behaviour
  vector of slot \<open>i\<close> is row by row the result of the activation unit of the source for
  that slot.
\<close>

theorem user_interest_in_Fwd:
  "NewDinNet gaussian P S D D C = Inr din \<and> wf_tensor ubMatrix \<and> shape ubMatrix = [B, S * D]
     \<and> wf_tensor xItemFeature \<and> shape xItemFeature = [B, D] \<and> 0 < B \<longrightarrow>
   DinNet_Fwd din md u0 u1 xUserProfile ubMatrix xItemFeature xCtxFeature B S D =
     mlp_head din md u0 u1 xUserProfile (user_interest din ubMatrix xItemFeature B S D)
       xItemFeature xCtxFeature
   \<and> shape (user_interest din ubMatrix xItemFeature B S D) = [B, D]
   \<and> length (data (user_interest din ubMatrix xItemFeature B S D)) = B * D
   \<and> (\<forall>b<B. \<forall>d<D. data (user_interest din ubMatrix xItemFeature B S D) ! (b * D + d) =
          (\<Sum>i\<leftarrow>[0..<S]. gated din ubMatrix xItemFeature D i b ! d))
   \<and> (S = 0 \<longrightarrow> user_interest din ubMatrix xItemFeature B S D = Zeroes [B, D])
   \<and> (\<forall>i<S. \<forall>b<B. \<exists>xub op t.
          Reshape ubMatrix [B, S, D] = Some xub
        \<and> outProducts ubMatrix xItemFeature B S D D = Some op
        \<and> actOut din xub op xItemFeature i = Some t
        \<and> row t b = gated din ubMatrix xItemFeature D i b)"
proof (intro impI)
  assume h: "NewDinNet gaussian P S D D C = Inr din \<and> wf_tensor ubMatrix
      \<and> shape ubMatrix = [B, S * D] \<and> wf_tensor xItemFeature \<and> shape xItemFeature = [B, D]
      \<and> 0 < B"
  then have din: "NewDinNet gaussian P S D D C = Inr din"
    and ub: "wf_tensor ubMatrix" "shape ubMatrix = [B, S * D]"
    and it: "wf_tensor xItemFeature" "shape xItemFeature = [B, D]" and B: "0 < B"
    by simp_all
  let ?xub = "\<lparr>shape = [B, S, D], data = data ubMatrix\<rparr>"
  let ?ui = "user_interest din ubMatrix xItemFeature B S D"
  have ix: "index (shape xItemFeature) 1 = Some D"
    by (simp add: index_def it(2))
  have xub: "Reshape ubMatrix [B, S, D] = Some ?xub"
    by (rule Reshape3_value[OF ub(2)])
  obtain op where op: "outProducts ubMatrix xItemFeature B S D D = Some op"
    using outProducts_wf[OF ub it B] by blast
  have run: "DinNet_Fwd din md u0 u1 xUserProfile ubMatrix xItemFeature xCtxFeature B S D =
      mlp_head din md u0 u1 xUserProfile ?ui xItemFeature xCtxFeature"
    by (rule DinNet_Fwd_head[OF din ub it B])
  have nth: "\<forall>b<B. \<forall>d<D. data ?ui ! (b * D + d) =
      (\<Sum>i\<leftarrow>[0..<S]. gated din ubMatrix xItemFeature D i b ! d)"
    by (simp add: user_interest_nth)
  have zero: "S = 0 \<longrightarrow> ?ui = Zeroes [B, D]"
  proof
    assume "S = 0"
    then have "data ?ui = concat (map (\<lambda>b. replicate D 0) [0..<B])"
      by (simp add: user_interest_def map_replicate_const)
    also have "\<dots> = replicate (B * D) 0"
      by (induction B) (simp_all add: replicate_add[symmetric] add.commute)
    finally show "?ui = Zeroes [B, D]"
      by (simp add: Zeroes_def user_interest_shape)
  qed
  have slots: "\<forall>i<S. \<forall>b<B. \<exists>xub op t.
          Reshape ubMatrix [B, S, D] = Some xub
        \<and> outProducts ubMatrix xItemFeature B S D D = Some op
        \<and> actOut din xub op xItemFeature i = Some t
        \<and> row t b = gated din ubMatrix xItemFeature D i b"
  proof (intro allI impI)
    fix i b assume i: "i < S" and b: "b < B"
    from gated_is_actOut_row[OF din ub it op i b] xub op
    show "\<exists>xub op t.
          Reshape ubMatrix [B, S, D] = Some xub
        \<and> outProducts ubMatrix xItemFeature B S D D = Some op
        \<and> actOut din xub op xItemFeature i = Some t
        \<and> row t b = gated din ubMatrix xItemFeature D i b"
      by blast
  qed
  show "DinNet_Fwd din md u0 u1 xUserProfile ubMatrix xItemFeature xCtxFeature B S D =
     mlp_head din md u0 u1 xUserProfile (user_interest din ubMatrix xItemFeature B S D)
       xItemFeature xCtxFeature
   \<and> shape (user_interest din ubMatrix xItemFeature B S D) = [B, D]
   \<and> length (data (user_interest din ubMatrix xItemFeature B S D)) = B * D
   \<and> (\<forall>b<B. \<forall>d<D. data (user_interest din ubMatrix xItemFeature B S D) ! (b * D + d) =
          (\<Sum>i\<leftarrow>[0..<S]. gated din ubMatrix xItemFeature D i b ! d))
   \<and> (S = 0 \<longrightarrow> user_interest din ubMatrix xItemFeature B S D = Zeroes [B, D])
   \<and> (\<forall>i<S. \<forall>b<B. \<exists>xub op t.
          Reshape ubMatrix [B, S, D] = Some xub
        \<and> outProducts ubMatrix xItemFeature B S D D = Some op
        \<and> actOut din xub op xItemFeature i = Some t
        \<and> row t b = gated din ubMatrix xItemFeature D i b)"
    using run nth zero slots by (simp add: user_interest_shape)
qed

theorem user_interest_in_Fwd_witness:
  "NewDinNet unit_draws 1 2 2 2 1 = Inr (projr (NewDinNet unit_draws 1 2 2 2 1))
   \<and> wf_tensor ub_wide \<and> shape ub_wide = [2, 2 * 2]
   \<and> wf_tensor item_example \<and> shape item_example = [2, 2] \<and> (0::nat) < 2
   \<and> DinNet_Fwd (projr (NewDinNet unit_draws 1 2 2 2 1)) Training keep_all keep_all
        profile_example ub_wide item_example ctx_example 2 2 2 =
      mlp_head (projr (NewDinNet unit_draws 1 2 2 2 1)) Training keep_all keep_all
        profile_example
        (user_interest (projr (NewDinNet unit_draws 1 2 2 2 1)) ub_wide item_example 2 2 2)
        item_example ctx_example
   \<and> shape (user_interest (projr (NewDinNet unit_draws 1 2 2 2 1)) ub_wide item_example 2 2 2)
        = [2, 2]
   \<and> data (user_interest (projr (NewDinNet unit_draws 1 2 2 2 1)) ub_wide item_example 2 2 2)
          ! (1 * 2 + 1) =
        (\<Sum>i\<leftarrow>[0..<2]. gated (projr (NewDinNet unit_draws 1 2 2 2 1)) ub_wide item_example
            2 i 1 ! 1)"
proof -
  have h: "NewDinNet unit_draws 1 2 2 2 1 = Inr (projr (NewDinNet unit_draws 1 2 2 2 1))
      \<and> wf_tensor ub_wide \<and> shape ub_wide = [2, 2 * 2]
      \<and> wf_tensor item_example \<and> shape item_example = [2, 2] \<and> (0::nat) < 2"
    using NewDinNet_Inr[of unit_draws 1 2 2 1]
    by (simp add: ub_wide_def item_example_def wf_tensor_def)
  have l: "(1::nat) < 2" by simp
  show ?thesis
    using h l user_interest_in_Fwd [of unit_draws 1 2 2 1
        "projr (NewDinNet unit_draws 1 2 2 2 1)" ub_wide 2 item_example
        Training keep_all keep_all profile_example ctx_example]
    by blast
qed

section \<open>The forward passes succeed on well-shaped batches\<close>

lemma NewSimpleMLP_fields:
  assumes "NewSimpleMLP gaussian P S D I C = Inr mlp"
  shows "shape (nvalue (mlp0 mlp)) = [P + S * D + I + C, 200]"
    "shape (nvalue (mlp1 mlp)) = [200, 80]"
    "shape (nvalue (mlp2 mlp)) = [80, 1]"
    "data (nvalue (mlp0 mlp)) = map (gaussian ''mlp0'') [0..<(P + S * D + I + C) * 200]"
    "data (nvalue (mlp1 mlp)) = map (gaussian ''mlp1'') [0..<200 * 80]"
    "data (nvalue (mlp2 mlp)) = map (gaussian ''mlp2'') [0..<80 * 1]"
    "d0 mlp = 1 / 100" "d1 mlp = 1 / 100" "out mlp = None"
  using assms by (auto simp: NewSimpleMLP_def NewNode_def Let_def)

lemma Reshape_same:
  "shape t = sh \<Longrightarrow> Reshape t sh = Some t"
  by (simp add: Reshape_def)

lemma in_range_nth:
  assumes "\<forall>v\<in>set xs. 0 < v \<and> v < (1::real)" "length xs = n"
  shows "\<forall>b<n. 0 < xs ! b \<and> xs ! b < 1"
  using assms by auto

lemma SimpleMLP_Fwd_succeeds:
  assumes mk: "NewSimpleMLP gaussian P S D I C = Inr mlp"
    and xp: "wf_tensor xUserProfile" "shape xUserProfile = [B, P]"
    and ub: "wf_tensor ubMatrix" "shape ubMatrix = [B, S * D]"
    and it: "wf_tensor xItemFeature" "shape xItemFeature = [B, I]"
    and cx: "wf_tensor xCtxFeature" "shape xCtxFeature = [B, C]"
  shows "\<exists>o'. SimpleMLP_Fwd mlp md u0 u1 xUserProfile ubMatrix xItemFeature xCtxFeature B S D =
            Some (None, mlp\<lparr>out := Some o'\<rparr>) \<and> shape o' = [B, 1] \<and> length (data o') = B
          \<and> (\<forall>b<B. 0 < data o' ! b \<and> data o' ! b < 1)"
proof -
  note f = NewSimpleMLP_fields[OF mk]
  have a: "Reshape ubMatrix [B, S * D] = Some ubMatrix"
    by (rule Reshape_same[OF ub(2)])
  obtain x where x: "Concat 1 [xUserProfile, ubMatrix, xItemFeature, xCtxFeature] = Some x"
      "shape x = [B, P + S * D + I + C]" "wf_tensor x"
    using Concat4_rows[OF xp ub it cx] by blast
  obtain o' where o': "mlp_layers md u0 u1 (d0 mlp) (d1 mlp) (nvalue (mlp0 mlp))
        (nvalue (mlp1 mlp)) (nvalue (mlp2 mlp)) x = Some o'" "shape o' = [B, 1]" "wf_tensor o'"
      "\<forall>v\<in>set (data o'). 0 < v \<and> v < 1"
    using mlp_layers_succeeds[OF x(3) x(2) f(1) f(2) f(3)] by blast
  have len: "length (data o') = B" using o'(2,3) by (simp add: wf_tensor_def)
  have "SimpleMLP_Fwd mlp md u0 u1 xUserProfile ubMatrix xItemFeature xCtxFeature B S D =
      Some (None, mlp\<lparr>out := Some o'\<rparr>)"
    unfolding SimpleMLP_Fwd_layers
    by (simp only: a x(1) o'(1) Option.bind.simps)
  then show ?thesis using o'(2) len in_range_nth[OF o'(4) len] by blast
qed

lemma DinNet_Fwd_succeeds:
  assumes mk: "NewDinNet gaussian P S D D C = Inr din"
    and xp: "wf_tensor xUserProfile" "shape xUserProfile = [B, P]"
    and ub: "wf_tensor ubMatrix" "shape ubMatrix = [B, S * D]"
    and it: "wf_tensor xItemFeature" "shape xItemFeature = [B, D]"
    and cx: "wf_tensor xCtxFeature" "shape xCtxFeature = [B, C]"
    and B: "0 < B"
  shows "\<exists>o'. DinNet_Fwd din md u0 u1 xUserProfile ubMatrix xItemFeature xCtxFeature B S D =
            Some (None, din\<lparr>out := Some o'\<rparr>) \<and> shape o' = [B, 1] \<and> length (data o') = B
          \<and> (\<forall>b<B. 0 < data o' ! b \<and> data o' ! b < 1)"
proof -
  note f = NewDinNet_fields[OF mk]
  let ?ui = "user_interest din ubMatrix xItemFeature B S D"
  obtain x where x: "Concat 1 [xUserProfile, ?ui, xItemFeature, xCtxFeature] = Some x"
      "shape x = [B, P + D + D + C]" "wf_tensor x"
    using Concat4_rows[OF xp user_interest_wf user_interest_shape(1) it cx] by blast
  obtain o' where o': "mlp_layers md u0 u1 (d0 din) (d1 din) (nvalue (mlp0 din))
        (nvalue (mlp1 din)) (nvalue (mlp2 din)) x = Some o'" "shape o' = [B, 1]" "wf_tensor o'"
      "\<forall>v\<in>set (data o'). 0 < v \<and> v < 1"
    using mlp_layers_succeeds[OF x(3) x(2) f(5) f(6) f(7)] by blast
  have len: "length (data o') = B" using o'(2,3) by (simp add: wf_tensor_def)
  have "DinNet_Fwd din md u0 u1 xUserProfile ubMatrix xItemFeature xCtxFeature B S D =
      Some (None, din\<lparr>out := Some o'\<rparr>)"
    unfolding DinNet_Fwd_head[OF mk ub it B] mlp_head_def
    by (simp only: x(1) o'(1) Option.bind.simps)
  then show ?thesis using o'(2) len in_range_nth[OF o'(4) len] by blast
qed

lemma mlp_layers_range:
  "mlp_layers md u0 u1 p0 p1 W0 W1 W2 x = Some o' \<Longrightarrow> v \<in> set (data o') \<Longrightarrow> 0 < v \<and> v < 1"
  by (auto simp: mlp_layers_def split: bind_splits dest: Sigmoid_range)

lemma SimpleMLP_Fwd_range:
  assumes "SimpleMLP_Fwd mlp md u0 u1 xUserProfile ubMatrix xItemFeature xCtxFeature B S D =
      Some (e, mlp')"
  shows "e = None \<and> (\<exists>o'. SimpleMLP_Out mlp' = Some o' \<and> (\<forall>v\<in>set (data o'). 0 < v \<and> v < 1))"
  using assms unfolding SimpleMLP_Fwd_layers
  by (auto simp: SimpleMLP_Out_def split: bind_splits dest: mlp_layers_range)

lemma DinNet_Fwd_range:
  assumes "DinNet_Fwd din md u0 u1 xUserProfile ubMatrix xItemFeature xCtxFeature B S D =
      Some (None, din')"
  shows "\<exists>o'. DinNet_Out din' = Some o' \<and> (\<forall>v\<in>set (data o'). 0 < v \<and> v < 1)"
  using assms unfolding DinNet_Fwd_def
  by (auto simp: DinNet_Out_def split: bind_splits if_splits dest: Sigmoid_range)

text \<open>
  C7. The values are real numbers, so every input is finite-valued. For either model as
  its constructor builds it and a batch of the shapes the model was built for, the
  forward pass returns, in either mode and for all dropout samples; its output has one
  value for each of the \<open>B\<close> examples and every one of them lies strictly between 0 and
  1. And whenever a forward pass of either variant returns without an error, on any
  model and any input, every value of the output it stores lies strictly between 0
  and 1. (Rounding of 64-bit floating point numbers is not part of the model of the
  backend; there the sigmoid of a large argument rounds to 1.)
\<close>

theorem forward_output_in_open_interval:
  "(NewSimpleMLP gaussian P S D I C = Inr mlp
      \<and> wf_tensor xUserProfile \<and> shape xUserProfile = [B, P]
      \<and> wf_tensor ubMatrix \<and> shape ubMatrix = [B, S * D]
      \<and> wf_tensor xItemFeature \<and> shape xItemFeature = [B, I]
      \<and> wf_tensor xCtxFeature \<and> shape xCtxFeature = [B, C] \<longrightarrow>
    (\<exists>o'. SimpleMLP_Fwd mlp md u0 u1 xUserProfile ubMatrix xItemFeature xCtxFeature B S D =
             Some (None, mlp\<lparr>out := Some o'\<rparr>)
         \<and> SimpleMLP_Out (mlp\<lparr>out := Some o'\<rparr>) = Some o'
         \<and> shape o' = [B, 1] \<and> length (data o') = B
         \<and> (\<forall>b<B. 0 < data o' ! b \<and> data o' ! b < 1)))
   \<and> (NewDinNet gaussian P S D D C = Inr din
      \<and> wf_tensor xUserProfile \<and> shape xUserProfile = [B, P]
      \<and> wf_tensor ubMatrix \<and> shape ubMatrix = [B, S * D]
      \<and> wf_tensor xItemFeature \<and> shape xItemFeature = [B, D]
      \<and> wf_tensor xCtxFeature \<and> shape xCtxFeature = [B, C] \<and> 0 < B \<longrightarrow>
    (\<exists>o'. DinNet_Fwd din md u0 u1 xUserProfile ubMatrix xItemFeature xCtxFeature B S D =
             Some (None, din\<lparr>out := Some o'\<rparr>)
         \<and> DinNet_Out (din\<lparr>out := Some o'\<rparr>) = Some o'
         \<and> shape o' = [B, 1] \<and> length (data o') = B
         \<and> (\<forall>b<B. 0 < data o' ! b \<and> data o' ! b < 1)))
   \<and> (SimpleMLP_Fwd mlpA md u0 u1 t1 t2 t3 t4 B2 S2 D2 = Some (e, mlpB) \<longrightarrow>
        e = None \<and> (\<exists>o'. SimpleMLP_Out mlpB = Some o' \<and> (\<forall>v\<in>set (data o'). 0 < v \<and> v < 1)))
   \<and> (DinNet_Fwd dinA md u0 u1 t1 t2 t3 t4 B2 S2 D2 = Some (None, dinB) \<longrightarrow>
        (\<exists>o'. DinNet_Out dinB = Some o' \<and> (\<forall>v\<in>set (data o'). 0 < v \<and> v < 1)))"
proof (intro conjI impI)
  assume h: "NewSimpleMLP gaussian P S D I C = Inr mlp
      \<and> wf_tensor xUserProfile \<and> shape xUserProfile = [B, P]
      \<and> wf_tensor ubMatrix \<and> shape ubMatrix = [B, S * D]
      \<and> wf_tensor xItemFeature \<and> shape xItemFeature = [B, I]
      \<and> wf_tensor xCtxFeature \<and> shape xCtxFeature = [B, C]"
  then have mk: "NewSimpleMLP gaussian P S D I C = Inr mlp"
    and xp: "wf_tensor xUserProfile" "shape xUserProfile = [B, P]"
    and ub: "wf_tensor ubMatrix" "shape ubMatrix = [B, S * D]"
    and it: "wf_tensor xItemFeature" "shape xItemFeature = [B, I]"
    and cx: "wf_tensor xCtxFeature" "shape xCtxFeature = [B, C]"
    by simp_all
  from SimpleMLP_Fwd_succeeds[OF mk xp ub it cx, of md u0 u1]
  show "\<exists>o'. SimpleMLP_Fwd mlp md u0 u1 xUserProfile ubMatrix xItemFeature xCtxFeature B S D =
             Some (None, mlp\<lparr>out := Some o'\<rparr>)
         \<and> SimpleMLP_Out (mlp\<lparr>out := Some o'\<rparr>) = Some o'
         \<and> shape o' = [B, 1] \<and> length (data o') = B
         \<and> (\<forall>b<B. 0 < data o' ! b \<and> data o' ! b < 1)"
    by (simp add: SimpleMLP_Out_def)
next
  assume h: "NewDinNet gaussian P S D D C = Inr din
      \<and> wf_tensor xUserProfile \<and> shape xUserProfile = [B, P]
      \<and> wf_tensor ubMatrix \<and> shape ubMatrix = [B, S * D]
      \<and> wf_tensor xItemFeature \<and> shape xItemFeature = [B, D]
      \<and> wf_tensor xCtxFeature \<and> shape xCtxFeature = [B, C] \<and> 0 < B"
  then have mk: "NewDinNet gaussian P S D D C = Inr din"
    and xp: "wf_tensor xUserProfile" "shape xUserProfile = [B, P]"
    and ub: "wf_tensor ubMatrix" "shape ubMatrix = [B, S * D]"
    and it: "wf_tensor xItemFeature" "shape xItemFeature = [B, D]"
    and cx: "wf_tensor xCtxFeature" "shape xCtxFeature = [B, C]" and B: "0 < B"
    by simp_all
  from DinNet_Fwd_succeeds[OF mk xp ub it cx B, of md u0 u1]
  show "\<exists>o'. DinNet_Fwd din md u0 u1 xUserProfile ubMatrix xItemFeature xCtxFeature B S D =
             Some (None, din\<lparr>out := Some o'\<rparr>)
         \<and> DinNet_Out (din\<lparr>out := Some o'\<rparr>) = Some o'
         \<and> shape o' = [B, 1] \<and> length (data o') = B
         \<and> (\<forall>b<B. 0 < data o' ! b \<and> data o' ! b < 1)"
    by (simp add: DinNet_Out_def)
next
  assume "SimpleMLP_Fwd mlpA md u0 u1 t1 t2 t3 t4 B2 S2 D2 = Some (e, mlpB)"
  from SimpleMLP_Fwd_range[OF this]
  show "e = None" "\<exists>o'. SimpleMLP_Out mlpB = Some o' \<and> (\<forall>v\<in>set (data o'). 0 < v \<and> v < 1)"
    by simp_all
next
  assume "DinNet_Fwd dinA md u0 u1 t1 t2 t3 t4 B2 S2 D2 = Some (None, dinB)"
  from DinNet_Fwd_range[OF this]
  show "\<exists>o'. DinNet_Out dinB = Some o' \<and> (\<forall>v\<in>set (data o'). 0 < v \<and> v < 1)" .
qed

theorem forward_output_in_open_interval_witness:
  "NewSimpleMLP unit_draws 1 2 2 2 1 = Inr (projr (NewSimpleMLP unit_draws 1 2 2 2 1))
   \<and> NewDinNet unit_draws 1 2 2 2 1 = Inr (projr (NewDinNet unit_draws 1 2 2 2 1))
   \<and> wf_tensor profile_example \<and> shape profile_example = [2, 1]
   \<and> wf_tensor ub_wide \<and> shape ub_wide = [2, 2 * 2]
   \<and> wf_tensor item_example \<and> shape item_example = [2, 2]
   \<and> wf_tensor ctx_example \<and> shape ctx_example = [2, 1] \<and> (0::nat) < 2
   \<and> (\<exists>o'. SimpleMLP_Fwd (projr (NewSimpleMLP unit_draws 1 2 2 2 1)) Training keep_all drop_all
             profile_example ub_wide item_example ctx_example 2 2 2 =
             Some (None, (projr (NewSimpleMLP unit_draws 1 2 2 2 1))\<lparr>out := Some o'\<rparr>)
         \<and> shape o' = [2, 1] \<and> length (data o') = 2
         \<and> 0 < data o' ! 0 \<and> data o' ! 0 < 1 \<and> 0 < data o' ! 1 \<and> data o' ! 1 < 1)
   \<and> (\<exists>o'. DinNet_Fwd (projr (NewDinNet unit_draws 1 2 2 2 1)) Training keep_all drop_all
             profile_example ub_wide item_example ctx_example 2 2 2 =
             Some (None, (projr (NewDinNet unit_draws 1 2 2 2 1))\<lparr>out := Some o'\<rparr>)
         \<and> shape o' = [2, 1] \<and> length (data o') = 2
         \<and> 0 < data o' ! 0 \<and> data o' ! 0 < 1 \<and> 0 < data o' ! 1 \<and> data o' ! 1 < 1)
   \<and> (\<exists>o'. SimpleMLP_Out (snd (the (SimpleMLP_Fwd (projr (NewSimpleMLP unit_draws 1 2 2 2 1))
             Training keep_all drop_all profile_example ub_wide item_example ctx_example 2 2 2)))
             = Some o'
         \<and> length (data o') = 2 \<and> 0 < last (data o') \<and> last (data o') < 1)
   \<and> (\<exists>o'. DinNet_Out (snd (the (DinNet_Fwd (projr (NewDinNet unit_draws 1 2 2 2 1))
             Training keep_all drop_all profile_example ub_wide item_example ctx_example 2 2 2)))
             = Some o'
         \<and> length (data o') = 2 \<and> 0 < last (data o') \<and> last (data o') < 1)"
proof -
  let ?mlp = "projr (NewSimpleMLP unit_draws 1 2 2 2 1)"
  let ?din = "projr (NewDinNet unit_draws 1 2 2 2 1)"
  let ?F = "SimpleMLP_Fwd ?mlp Training keep_all drop_all
      profile_example ub_wide item_example ctx_example 2 2 2"
  let ?G = "DinNet_Fwd ?din Training keep_all drop_all
      profile_example ub_wide item_example ctx_example 2 2 2"
  have sh: "wf_tensor profile_example \<and> shape profile_example = [2, 1]
      \<and> wf_tensor ub_wide \<and> shape ub_wide = [2, 2 * 2]
      \<and> wf_tensor item_example \<and> shape item_example = [2, 2]
      \<and> wf_tensor ctx_example \<and> shape ctx_example = [2, 1] \<and> (0::nat) < 2"
    by (simp add: profile_example_def ub_wide_def item_example_def ctx_example_def
        wf_tensor_def)
  have m: "NewSimpleMLP unit_draws 1 2 2 2 1 = Inr ?mlp"
    by (rule NewSimpleMLP_Inr)
  have d: "NewDinNet unit_draws 1 2 2 2 1 = Inr ?din"
    by (rule NewDinNet_Inr)
  have l: "(0::nat) < 2" "(1::nat) < 2" by simp_all
  note t = forward_output_in_open_interval [where gaussian = unit_draws and P = 1 and S = 2
      and D = 2 and I = 2 and C = 1 and B = 2 and mlp = ?mlp and din = ?din
      and xUserProfile = profile_example and ubMatrix = ub_wide
      and xItemFeature = item_example and xCtxFeature = ctx_example
      and md = Training and ?u0.0 = keep_all and ?u1.0 = drop_all
      and mlpA = ?mlp and dinA = ?din and ?t1.0 = profile_example and ?t2.0 = ub_wide
      and ?t3.0 = item_example and ?t4.0 = ctx_example and ?B2.0 = 2 and ?S2.0 = 2
      and ?D2.0 = 2 and e = "fst (the ?F)" and mlpB = "snd (the ?F)"
      and dinB = "snd (the ?G)"]
  obtain o1 where o1: "?F = Some (None, ?mlp\<lparr>out := Some o1\<rparr>)"
      "shape o1 = [2, 1]" "length (data o1) = 2"
      "\<forall>b<2. 0 < data o1 ! b \<and> data o1 ! b < 1"
    using t sh m by blast
  obtain o2 where o2: "?G = Some (None, ?din\<lparr>out := Some o2\<rparr>)"
      "shape o2 = [2, 1]" "length (data o2) = 2"
      "\<forall>b<2. 0 < data o2 ! b \<and> data o2 ! b < 1"
    using t sh d by blast
  have a: "\<exists>o'. ?F = Some (None, ?mlp\<lparr>out := Some o'\<rparr>)
         \<and> shape o' = [2, 1] \<and> length (data o') = 2
         \<and> 0 < data o' ! 0 \<and> data o' ! 0 < 1 \<and> 0 < data o' ! 1 \<and> data o' ! 1 < 1"
    using o1 l by blast
  have b: "\<exists>o'. ?G = Some (None, ?din\<lparr>out := Some o'\<rparr>)
         \<and> shape o' = [2, 1] \<and> length (data o') = 2
         \<and> 0 < data o' ! 0 \<and> data o' ! 0 < 1 \<and> 0 < data o' ! 1 \<and> data o' ! 1 < 1"
    using o2 l by blast
  have ne1: "data o1 \<noteq> []" using o1(3) by auto
  have ne2: "data o2 \<noteq> []" using o2(3) by auto
  have "?F = Some (fst (the ?F), snd (the ?F))" unfolding o1(1) by simp
  then obtain p1 where p1: "SimpleMLP_Out (snd (the ?F)) = Some p1"
      "\<forall>v\<in>set (data p1). 0 < v \<and> v < 1"
    using t by blast
  have "p1 = o1" using p1(1) unfolding o1(1) by (simp add: SimpleMLP_Out_def)
  then have c: "\<exists>o'. SimpleMLP_Out (snd (the ?F)) = Some o'
      \<and> length (data o') = 2 \<and> 0 < last (data o') \<and> last (data o') < 1"
    using p1 o1(3) last_in_set[OF ne1] by blast
  have "?G = Some (None, snd (the ?G))" unfolding o2(1) by simp
  then obtain p2 where p2: "DinNet_Out (snd (the ?G)) = Some p2"
      "\<forall>v\<in>set (data p2). 0 < v \<and> v < 1"
    using t by blast
  have "p2 = o2" using p2(1) unfolding o2(1) by (simp add: DinNet_Out_def)
  then have e: "\<exists>o'. DinNet_Out (snd (the ?G)) = Some o'
      \<and> length (data o') = 2 \<and> 0 < last (data o') \<and> last (data o') < 1"
    using p2 o2(3) last_in_set[OF ne2] by blast
  show ?thesis using sh m d a b c e by blast
qed

section \<open>Dropout and the mode of a pass\<close>

lemma Mul_row_const:
  assumes "shape a = [1, k]" "length (data a) = k" "shape W = [k, n]"
    "data W = replicate (k * n) c"
  shows "Mul a W = Some \<lparr>shape = [1, n], data = replicate n (sum_list (data a) * c)\<rparr>"
proof -
  have w: "wf_tensor a" using assms(1,2) by (simp add: wf_tensor_def)
  have r: "row a 0 = data a" using assms(1,2) by (simp add: row_def)
  have "Mul a W = Some \<lparr>shape = [1, n], data = concat (map (\<lambda>i. vecmat (row a i) W) [0..<1])\<rparr>"
    by (rule Mul_value[OF w assms(1) assms(3)])
  then show ?thesis
    by (simp add: r vecmat_const[OF assms(2) assms(3) assms(4)])
qed

lemma LeakyRelu_const:
  "LeakyRelu \<lparr>shape = sh, data = replicate n c\<rparr> alpha =
     Some \<lparr>shape = sh, data = replicate n (if 0 < c then c else alpha * c)\<rparr>"
  by (simp add: LeakyRelu_def)

lemma Dropout_const:
  assumes "\<And>k. u k = s"
  shows "Dropout \<lparr>shape = sh, data = replicate n c\<rparr> p Training u =
     Some \<lparr>shape = sh, data = replicate n (c * (if s < 1 - p then 1 else 0) / (1 - p))\<rparr>"
proof -
  have "map (\<lambda>k. replicate n c ! k * (if u k < 1 - p then 1 else 0) / (1 - p)) [0..<n] =
      map (\<lambda>k. c * (if s < 1 - p then 1 else 0) / (1 - p)) [0..<n]"
    by (intro map_cong refl) (simp add: assms)
  then have "map (\<lambda>k. replicate n c ! k * (if u k < 1 - p then 1 else 0) / (1 - p)) [0..<n] =
      replicate n (c * (if s < 1 - p then 1 else 0) / (1 - p))"
    by (simp add: map_replicate_const)
  then show ?thesis by (simp add: Dropout_def)
qed

lemma Sigmoid_const:
  "Sigmoid \<lparr>shape = sh, data = replicate n c\<rparr> =
     Some \<lparr>shape = sh, data = replicate n (1 / (1 + exp (- c)))\<rparr>"
  by (simp add: Sigmoid_def)

lemma unit_draws_const: "unit_draws nm = (\<lambda>k. 1)"
  by (rule ext) (simp add: unit_draws_def)

lemma NewDinNet_mlp_data:
  assumes "NewDinNet gaussian P S D D C = Inr din"
  shows "data (nvalue (mlp0 din)) = map (gaussian ''mlp0'') [0..<(P + D + D + C) * 200]"
    "data (nvalue (mlp1 din)) = map (gaussian ''mlp1'') [0..<200 * 80]"
    "data (nvalue (mlp2 din)) = map (gaussian ''mlp2'') [0..<80 * 1]"
  using assms by (auto simp: NewDinNet_def NewNode_def Let_def)

lemma leaky_nonneg: "0 \<le> c \<Longrightarrow> (if 0 < c then c else a * c) = (c::real)"
  by (cases "c = 0") auto

text \<open>
  The prediction layers in training mode on one example, when every weight is 1, the
  features have a positive sum, every sample of the first dropout is \<open>s\<close> and every
  sample of the second one is 0.
\<close>

lemma mlp_layers_unit:
  assumes W0: "shape W0 = [K, 200]" "data W0 = replicate (K * 200) 1"
    and W1: "shape W1 = [200, 80]" "data W1 = replicate (200 * 80) 1"
    and W2: "shape W2 = [80, 1]" "data W2 = replicate (80 * 1) 1"
    and xs: "length xs = K" "0 < sum_list xs"
    and u: "\<And>k. u k = s"
    and p: "0 < p0" "p0 < 1" "0 < p1" "p1 < 1"
  shows "mlp_layers Training u keep_all p0 p1 W0 W1 W2 \<lparr>shape = [1, K], data = xs\<rparr> =
    Some \<lparr>shape = [1, 1], data = [1 / (1 + exp (- (80 *
      ((200 * (sum_list xs * (if s < 1 - p0 then 1 else 0) / (1 - p0))) / (1 - p1)))))]\<rparr>"
proof -
  let ?x = "\<lparr>shape = [1, K], data = xs\<rparr>"
  let ?c0 = "sum_list xs * (if s < 1 - p0 then 1 else 0) / (1 - p0)"
  have c0: "0 \<le> ?c0" using xs(2) p by simp
  have k: "\<And>k. keep_all k = 0" by (simp add: keep_all_def)
  have c: "Mul ?x W0 = Some \<lparr>shape = [1, 200], data = replicate 200 (sum_list xs)\<rparr>"
    using Mul_row_const[OF _ _ W0, of ?x] xs(1) by simp
  have d: "LeakyRelu \<lparr>shape = [1, 200], data = replicate 200 (sum_list xs)\<rparr> (1 / 10) =
      Some \<lparr>shape = [1, 200], data = replicate 200 (sum_list xs)\<rparr>"
    using xs(2) by (simp add: LeakyRelu_const)
  have e: "Dropout \<lparr>shape = [1, 200], data = replicate 200 (sum_list xs)\<rparr> p0 Training u =
      Some \<lparr>shape = [1, 200], data = replicate 200 ?c0\<rparr>"
    by (rule Dropout_const[OF u])
  have g: "Mul \<lparr>shape = [1, 200], data = replicate 200 ?c0\<rparr> W1 =
      Some \<lparr>shape = [1, 80], data = replicate 80 (200 * ?c0)\<rparr>"
    using Mul_row_const[OF _ _ W1, of "\<lparr>shape = [1, 200], data = replicate 200 ?c0\<rparr>"]
    by (simp add: sum_list_replicate)
  have "0 \<le> 200 * ?c0" using c0 by simp
  then have "(if 0 < 200 * ?c0 then 200 * ?c0 else 1 / 10 * (200 * ?c0)) = 200 * ?c0"
    by (rule leaky_nonneg)
  then have h: "LeakyRelu \<lparr>shape = [1, 80], data = replicate 80 (200 * ?c0)\<rparr> (1 / 10) =
      Some \<lparr>shape = [1, 80], data = replicate 80 (200 * ?c0)\<rparr>"
    by (simp only: LeakyRelu_const)
  have "200 * ?c0 * (if (0::real) < 1 - p1 then 1 else 0) / (1 - p1) = 200 * ?c0 / (1 - p1)"
    using p by simp
  then have i: "Dropout \<lparr>shape = [1, 80], data = replicate 80 (200 * ?c0)\<rparr> p1 Training
        keep_all =
      Some \<lparr>shape = [1, 80], data = replicate 80 ((200 * ?c0) / (1 - p1))\<rparr>"
    by (simp only: Dropout_const[OF k])
  have j: "Mul \<lparr>shape = [1, 80], data = replicate 80 ((200 * ?c0) / (1 - p1))\<rparr> W2 =
      Some \<lparr>shape = [1, 1], data = replicate 1 (80 * ((200 * ?c0) / (1 - p1)))\<rparr>"
    using Mul_row_const[OF _ _ W2,
        of "\<lparr>shape = [1, 80], data = replicate 80 ((200 * ?c0) / (1 - p1))\<rparr>"]
    by (simp add: sum_list_replicate)
  have l: "Sigmoid \<lparr>shape = [1, 1], data = replicate 1 (80 * ((200 * ?c0) / (1 - p1)))\<rparr> =
      Some \<lparr>shape = [1, 1], data = replicate 1
        (1 / (1 + exp (- (80 * ((200 * ?c0) / (1 - p1))))))\<rparr>"
    by (rule Sigmoid_const)
  show ?thesis
    unfolding mlp_layers_def
    by (simp only: c d e g h i j l Option.bind.simps) simp
qed

lemma sigmoid_half: "(1::real) / (1 + exp (- x)) = 1 / 2 \<longleftrightarrow> x = 0"
proof
  assume "(1::real) / (1 + exp (- x)) = 1 / 2"
  then have "exp (- x) = 1" by (simp add: field_simps)
  then show "x = 0" by simp
qed simp

lemma mlp_layers_unit_dropped:
  assumes W0: "shape W0 = [K, 200]" "data W0 = replicate (K * 200) 1"
    and W1: "shape W1 = [200, 80]" "data W1 = replicate (200 * 80) 1"
    and W2: "shape W2 = [80, 1]" "data W2 = replicate (80 * 1) 1"
    and xs: "length xs = K" "0 < sum_list xs"
    and p: "5 / 10000 < p0" "p0 < 1" "0 < p1" "p1 < 1"
  shows "mlp_layers Training drop_all keep_all p0 p1 W0 W1 W2 \<lparr>shape = [1, K], data = xs\<rparr> =
      Some \<lparr>shape = [1, 1], data = [1 / 2]\<rparr>"
    and "mlp_layers Training keep_all keep_all p0 p1 W0 W1 W2 \<lparr>shape = [1, K], data = xs\<rparr> \<noteq>
      Some \<lparr>shape = [1, 1], data = [1 / 2]\<rparr>"
proof -
  have dr: "\<And>k. drop_all k = 9995 / 10000" by (simp add: drop_all_def)
  have ke: "\<And>k. keep_all k = 0" by (simp add: keep_all_def)
  have p0: "0 < p0" using p(1) by simp
  have nd: "\<not> (9995 / 10000 < 1 - p0)" using p(1) by simp
  show "mlp_layers Training drop_all keep_all p0 p1 W0 W1 W2 \<lparr>shape = [1, K], data = xs\<rparr> =
      Some \<lparr>shape = [1, 1], data = [1 / 2]\<rparr>"
    by (simp only: mlp_layers_unit[OF W0 W1 W2 xs dr p0 p(2,3,4)] nd if_False, simp?)
  have pos: "0 < 80 * ((200 * (sum_list xs * 1 / (1 - p0))) / (1 - p1))"
    using xs(2) p by simp
  have kp: "(0::real) < 1 - p0" using p(2) by simp
  have "1 / (1 + exp (- (80 * ((200 * (sum_list xs * 1 / (1 - p0))) / (1 - p1))))) \<noteq> 1 / 2"
    using pos by (simp only: sigmoid_half, simp?)
  then show "mlp_layers Training keep_all keep_all p0 p1 W0 W1 W2
      \<lparr>shape = [1, K], data = xs\<rparr> \<noteq> Some \<lparr>shape = [1, 1], data = [1 / 2]\<rparr>"
    by (simp only: mlp_layers_unit[OF W0 W1 W2 xs ke p0 p(2,3,4)] kp if_True, simp?)
qed
lemma mlp_ex_weights:
  "NewSimpleMLP unit_draws 1 1 1 1 1 = Inr mlp_ex"
  "shape (nvalue (mlp0 mlp_ex)) = [4, 200]"
  "data (nvalue (mlp0 mlp_ex)) = replicate (4 * 200) 1"
  "shape (nvalue (mlp1 mlp_ex)) = [200, 80]"
  "data (nvalue (mlp1 mlp_ex)) = replicate (200 * 80) 1"
  "shape (nvalue (mlp2 mlp_ex)) = [80, 1]"
  "data (nvalue (mlp2 mlp_ex)) = replicate (80 * 1) 1"
  "d0 mlp_ex = 1 / 100" "d1 mlp_ex = 1 / 100"
proof -
  show mk: "NewSimpleMLP unit_draws 1 1 1 1 1 = Inr mlp_ex"
    unfolding mlp_ex_def by (rule NewSimpleMLP_Inr)
  note f = NewSimpleMLP_fields[OF mk]
  show "shape (nvalue (mlp0 mlp_ex)) = [4, 200]" using f(1) by simp
  show "data (nvalue (mlp0 mlp_ex)) = replicate (4 * 200) 1"
    using f(4) by (simp only: unit_draws_const map_replicate_const) simp
  show "shape (nvalue (mlp1 mlp_ex)) = [200, 80]" by (rule f(2))
  show "data (nvalue (mlp1 mlp_ex)) = replicate (200 * 80) 1"
    using f(5) by (simp only: unit_draws_const map_replicate_const) simp
  show "shape (nvalue (mlp2 mlp_ex)) = [80, 1]" by (rule f(3))
  show "data (nvalue (mlp2 mlp_ex)) = replicate (80 * 1) 1"
    using f(6) by (simp only: unit_draws_const map_replicate_const) simp
  show "d0 mlp_ex = 1 / 100" "d1 mlp_ex = 1 / 100" by (rule f(7), rule f(8))
qed

lemma din_ex_weights:
  "NewDinNet unit_draws 1 1 1 1 1 = Inr din_ex"
  "shape (nvalue (mlp0 din_ex)) = [4, 200]"
  "data (nvalue (mlp0 din_ex)) = replicate (4 * 200) 1"
  "shape (nvalue (mlp1 din_ex)) = [200, 80]"
  "data (nvalue (mlp1 din_ex)) = replicate (200 * 80) 1"
  "shape (nvalue (mlp2 din_ex)) = [80, 1]"
  "data (nvalue (mlp2 din_ex)) = replicate (80 * 1) 1"
  "d0 din_ex = 1 / 1000" "d1 din_ex = 1 / 1000"
proof -
  show mk: "NewDinNet unit_draws 1 1 1 1 1 = Inr din_ex"
    unfolding din_ex_def by (rule NewDinNet_Inr)
  note f = NewDinNet_fields[OF mk]
  note g = NewDinNet_mlp_data[OF mk]
  show "shape (nvalue (mlp0 din_ex)) = [4, 200]" using f(5) by simp
  show "data (nvalue (mlp0 din_ex)) = replicate (4 * 200) 1"
    using g(1) by (simp only: unit_draws_const map_replicate_const) simp
  show "shape (nvalue (mlp1 din_ex)) = [200, 80]" by (rule f(6))
  show "data (nvalue (mlp1 din_ex)) = replicate (200 * 80) 1"
    using g(2) by (simp only: unit_draws_const map_replicate_const) simp
  show "shape (nvalue (mlp2 din_ex)) = [80, 1]" by (rule f(7))
  show "data (nvalue (mlp2 din_ex)) = replicate (80 * 1) 1"
    using g(3) by (simp only: unit_draws_const map_replicate_const) simp
  show "d0 din_ex = 1 / 1000" "d1 din_ex = 1 / 1000" by (rule f(8), rule f(9))
qed

lemma din_ex_user_interest:
  "user_interest din_ex one_example one_example 1 1 1 = \<lparr>shape = [1, 1], data = [108]\<rparr>"
proof -
  note mk = din_ex_weights(1)
  have s0: "shape (nvalue (att0 din_ex ! 0)) = [3, 36]"
    using NewDinNet_fields(3)[OF mk, of 0] by simp
  have s1: "shape (nvalue (att1 din_ex ! 0)) = [36, 1]"
    using NewDinNet_fields(4)[OF mk, of 0] by simp
  have a0: "data (nvalue (att0 din_ex ! 0)) = replicate (3 * 36) 1"
    using NewDinNet_att_data(1)[OF mk, of 0]
    by (simp only: unit_draws_const map_replicate_const) simp
  have a1: "data (nvalue (att1 din_ex ! 0)) = replicate (36 * 1) 1"
    using NewDinNet_att_data(2)[OF mk, of 0]
    by (simp only: unit_draws_const map_replicate_const) simp
  have v0: "vecmat [1, 1, 1] (nvalue (att0 din_ex ! 0)) = replicate 36 3"
    using vecmat_const[OF _ s0 a0, of "[1, 1, 1]"] by simp
  have v1: "vecmat (replicate 36 3) (nvalue (att1 din_ex ! 0)) = [108]"
    using vecmat_const[OF _ s1 a1, of "replicate 36 3"] by (simp add: sum_list_replicate)
  have sc: "score [1, 1, 1] (nvalue (att0 din_ex ! 0)) (nvalue (att1 din_ex ! 0)) = 108"
    by (simp add: score_def v0 v1)
  have sl: "slot (row one_example 0) 1 0 = [1]" "row one_example 0 = [1]"
      "kron [1] [1] = [1::real]"
    by (simp_all add: slot_def row_def one_example_def kron_def)
  have s1': "slot [1::real] 1 0 = [1]" by (simp add: slot_def)
  have "gated din_ex one_example one_example 1 0 0 = [108]"
    unfolding gated_def by (simp only: sl(2,3) s1' append.simps list.map sc) simp
  then show ?thesis by (simp add: user_interest_def)
qed

lemma one_example_shapes:
  "wf_tensor one_example" "shape one_example = [1, 1 * 1]" "shape one_example = [1, 1]"
  by (simp_all add: one_example_def wf_tensor_def)

lemma mlp_ex_training:
  "SimpleMLP_Fwd mlp_ex Training u0 keep_all one_example one_example one_example one_example
     1 1 1 =
   do {
     o' \<leftarrow> mlp_layers Training u0 keep_all (1 / 100) (1 / 100) (nvalue (mlp0 mlp_ex))
             (nvalue (mlp1 mlp_ex)) (nvalue (mlp2 mlp_ex)) \<lparr>shape = [1, 4], data = [1, 1, 1, 1]\<rparr>;
     Some (None, mlp_ex\<lparr>out := Some o'\<rparr>)
   }"
proof -
  have a: "Reshape one_example [1, 1 * 1] = Some one_example"
    by (simp add: Reshape_def one_example_def)
  have b: "Concat 1 [one_example, one_example, one_example, one_example] =
      Some \<lparr>shape = [1, 4], data = [1, 1, 1, 1]\<rparr>"
    by (simp add: Concat_def one_example_def)
  show ?thesis
    unfolding SimpleMLP_Fwd_layers
    by (simp only: a b mlp_ex_weights(8,9) Option.bind.simps)
qed

lemma din_ex_training:
  "DinNet_Fwd din_ex Training u0 keep_all one_example one_example one_example one_example
     1 1 1 =
   do {
     o' \<leftarrow> mlp_layers Training u0 keep_all (1 / 1000) (1 / 1000) (nvalue (mlp0 din_ex))
             (nvalue (mlp1 din_ex)) (nvalue (mlp2 din_ex))
             \<lparr>shape = [1, 4], data = [1, 108, 1, 1]\<rparr>;
     Some (None, din_ex\<lparr>out := Some o'\<rparr>)
   }"
proof -
  have b: "Concat 1 [one_example, \<lparr>shape = [1, 1], data = [108]\<rparr>, one_example, one_example] =
      Some \<lparr>shape = [1, 4], data = [1, 108, 1, 1]\<rparr>"
    by (simp add: Concat_def one_example_def)
  have "0 < (1::nat)" by simp
  note h = DinNet_Fwd_head[OF din_ex_weights(1) one_example_shapes(1,2)
      one_example_shapes(1,3) this]
  show ?thesis
    unfolding h mlp_head_def din_ex_user_interest
    by (simp only: b din_ex_weights(8,9) Option.bind.simps)
qed

lemma mlp_ex_dropout:
  "SimpleMLP_Fwd mlp_ex Training drop_all keep_all one_example one_example one_example
      one_example 1 1 1 = Some (None, mlp_ex\<lparr>out := Some \<lparr>shape = [1, 1], data = [1 / 2]\<rparr>\<rparr>)"
  "SimpleMLP_Fwd mlp_ex Training keep_all keep_all one_example one_example one_example
      one_example 1 1 1 \<noteq> Some (None, mlp_ex\<lparr>out := Some \<lparr>shape = [1, 1], data = [1 / 2]\<rparr>\<rparr>)"
  "SimpleMLP_Fwd mlp_ex Training keep_all keep_all one_example one_example one_example
      one_example 1 1 1 \<noteq> None"
proof -
  let ?x = "\<lparr>shape = [1, 4], data = [1, 1, 1, 1 :: real]\<rparr>"
  have xw: "wf_tensor ?x" by (simp add: wf_tensor_def)
  have xsh: "shape ?x = [1, 4]" by simp
  have xs: "length [1, 1, 1, 1 :: real] = 4" "0 < sum_list [1, 1, 1, 1 :: real]"
    by simp_all
  have p: "(5::real) / 10000 < 1 / 100" "(1::real) / 100 < 1" "(0::real) < 1 / 100"
    by simp_all
  note w = mlp_ex_weights
  note r = mlp_layers_unit_dropped[OF w(2,3,4,5,6,7) xs p(1,2,3,2)]
  show "SimpleMLP_Fwd mlp_ex Training drop_all keep_all one_example one_example one_example
      one_example 1 1 1 = Some (None, mlp_ex\<lparr>out := Some \<lparr>shape = [1, 1], data = [1 / 2]\<rparr>\<rparr>)"
    unfolding mlp_ex_training by (simp only: r(1) Option.bind.simps)
  obtain o' where o': "mlp_layers Training keep_all keep_all (1 / 100) (1 / 100)
      (nvalue (mlp0 mlp_ex)) (nvalue (mlp1 mlp_ex)) (nvalue (mlp2 mlp_ex)) ?x = Some o'"
    using mlp_layers_succeeds[OF xw xsh w(2,4,6)] by blast
  have ne: "o' \<noteq> \<lparr>shape = [1, 1], data = [1 / 2]\<rparr>" using r(2) o' by simp
  have "mlp_ex\<lparr>out := Some o'\<rparr> \<noteq> mlp_ex\<lparr>out := Some \<lparr>shape = [1, 1], data = [1 / 2]\<rparr>\<rparr>"
  proof
    assume "mlp_ex\<lparr>out := Some o'\<rparr> = mlp_ex\<lparr>out := Some \<lparr>shape = [1, 1], data = [1 / 2]\<rparr>\<rparr>"
    then have "out (mlp_ex\<lparr>out := Some o'\<rparr>) =
        out (mlp_ex\<lparr>out := Some \<lparr>shape = [1, 1], data = [1 / 2]\<rparr>\<rparr>)"
      by (rule arg_cong)
    then show False using ne by simp
  qed
  then show "SimpleMLP_Fwd mlp_ex Training keep_all keep_all one_example one_example one_example
      one_example 1 1 1 \<noteq> Some (None, mlp_ex\<lparr>out := Some \<lparr>shape = [1, 1], data = [1 / 2]\<rparr>\<rparr>)"
    unfolding mlp_ex_training by (simp only: o' Option.bind.simps) simp
  show "SimpleMLP_Fwd mlp_ex Training keep_all keep_all one_example one_example one_example
      one_example 1 1 1 \<noteq> None"
    unfolding mlp_ex_training by (simp only: o' Option.bind.simps) simp
qed

lemma din_ex_dropout:
  "DinNet_Fwd din_ex Training drop_all keep_all one_example one_example one_example
      one_example 1 1 1 = Some (None, din_ex\<lparr>out := Some \<lparr>shape = [1, 1], data = [1 / 2]\<rparr>\<rparr>)"
  "DinNet_Fwd din_ex Training keep_all keep_all one_example one_example one_example
      one_example 1 1 1 \<noteq> Some (None, din_ex\<lparr>out := Some \<lparr>shape = [1, 1], data = [1 / 2]\<rparr>\<rparr>)"
  "DinNet_Fwd din_ex Training keep_all keep_all one_example one_example one_example
      one_example 1 1 1 \<noteq> None"
proof -
  let ?x = "\<lparr>shape = [1, 4], data = [1, 108, 1, 1 :: real]\<rparr>"
  have xw: "wf_tensor ?x" by (simp add: wf_tensor_def)
  have xsh: "shape ?x = [1, 4]" by simp
  have xs: "length [1, 108, 1, 1 :: real] = 4" "0 < sum_list [1, 108, 1, 1 :: real]"
    by simp_all
  have p: "(5::real) / 10000 < 1 / 1000" "(1::real) / 1000 < 1" "(0::real) < 1 / 1000"
    by simp_all
  note w = din_ex_weights
  note r = mlp_layers_unit_dropped[OF w(2,3,4,5,6,7) xs p(1,2,3,2)]
  show "DinNet_Fwd din_ex Training drop_all keep_all one_example one_example one_example
      one_example 1 1 1 = Some (None, din_ex\<lparr>out := Some \<lparr>shape = [1, 1], data = [1 / 2]\<rparr>\<rparr>)"
    unfolding din_ex_training by (simp only: r(1) Option.bind.simps)
  obtain o' where o': "mlp_layers Training keep_all keep_all (1 / 1000) (1 / 1000)
      (nvalue (mlp0 din_ex)) (nvalue (mlp1 din_ex)) (nvalue (mlp2 din_ex)) ?x = Some o'"
    using mlp_layers_succeeds[OF xw xsh w(2,4,6)] by blast
  have ne: "o' \<noteq> \<lparr>shape = [1, 1], data = [1 / 2]\<rparr>" using r(2) o' by simp
  have "din_ex\<lparr>out := Some o'\<rparr> \<noteq> din_ex\<lparr>out := Some \<lparr>shape = [1, 1], data = [1 / 2]\<rparr>\<rparr>"
  proof
    assume "din_ex\<lparr>out := Some o'\<rparr> = din_ex\<lparr>out := Some \<lparr>shape = [1, 1], data = [1 / 2]\<rparr>\<rparr>"
    then have "out (din_ex\<lparr>out := Some o'\<rparr>) =
        out (din_ex\<lparr>out := Some \<lparr>shape = [1, 1], data = [1 / 2]\<rparr>\<rparr>)"
      by (rule arg_cong)
    then show False using ne by simp
  qed
  then show "DinNet_Fwd din_ex Training keep_all keep_all one_example one_example one_example
      one_example 1 1 1 \<noteq> Some (None, din_ex\<lparr>out := Some \<lparr>shape = [1, 1], data = [1 / 2]\<rparr>\<rparr>)"
    unfolding din_ex_training by (simp only: o' Option.bind.simps) simp
  show "DinNet_Fwd din_ex Training keep_all keep_all one_example one_example one_example
      one_example 1 1 1 \<noteq> None"
    unfolding din_ex_training by (simp only: o' Option.bind.simps) simp
qed

lemma Dropout_evaluation: "Dropout x p Evaluation u = Some x"
  by (simp add: Dropout_def)

lemma SimpleMLP_Fwd_evaluation:
  "SimpleMLP_Fwd mlp Evaluation u0 u1 xUserProfile ubMatrix xItemFeature xCtxFeature B S D =
   SimpleMLP_Fwd mlp Evaluation u0' u1' xUserProfile ubMatrix xItemFeature xCtxFeature B S D"
  unfolding SimpleMLP_Fwd_def Dropout_evaluation by (rule refl)

lemma DinNet_Fwd_evaluation:
  "DinNet_Fwd din Evaluation u0 u1 xUserProfile ubMatrix xItemFeature xCtxFeature B S D =
   DinNet_Fwd din Evaluation u0' u1' xUserProfile ubMatrix xItemFeature xCtxFeature B S D"
  unfolding DinNet_Fwd_def Dropout_evaluation by (rule refl)

lemma mlp_layers_evaluation_probs:
  "mlp_layers Evaluation u0 u1 p0 p1 W0 W1 W2 x = mlp_layers Evaluation u0' u1' q0 q1 W0 W1 W2 x"
  unfolding mlp_layers_def Dropout_evaluation by (rule refl)

lemma SimpleMLP_Fwd_evaluation_probs:
  "map_option (\<lambda>r. (fst r, SimpleMLP_Out (snd r)))
     (SimpleMLP_Fwd (mlp\<lparr>d0 := p0, d1 := p1\<rparr>) Evaluation u0 u1
        xUserProfile ubMatrix xItemFeature xCtxFeature B S D) =
   map_option (\<lambda>r. (fst r, SimpleMLP_Out (snd r)))
     (SimpleMLP_Fwd mlp Evaluation u0' u1' xUserProfile ubMatrix xItemFeature xCtxFeature B S D)"
proof -
  have e: "\<And>x. mlp_layers Evaluation u0 u1 p0 p1 (nvalue (mlp0 mlp)) (nvalue (mlp1 mlp))
        (nvalue (mlp2 mlp)) x =
      mlp_layers Evaluation u0' u1' (d0 mlp) (d1 mlp) (nvalue (mlp0 mlp)) (nvalue (mlp1 mlp))
        (nvalue (mlp2 mlp)) x"
    by (rule mlp_layers_evaluation_probs)
  show ?thesis
    unfolding SimpleMLP_Fwd_layers
    by (auto simp: e SimpleMLP_Out_def split: bind_splits)
qed

lemma actOut_probs:
  "actOut (din\<lparr>d0 := p0, d1 := p1\<rparr>) xub op it i = actOut din xub op it i"
  by (simp add: actOut_def)

lemma sumPooling_probs_fun:
  "sumPooling (din\<lparr>d0 := p0, d1 := p1\<rparr>) xub op it slots = sumPooling din xub op it slots"
proof (induction slots)
  case Nil
  show ?case by (rule ext) simp
next
  case (Cons i slots)
  show ?case by (rule ext) (simp add: actOut_probs Cons.IH)
qed

lemma sumPooling_probs:
  "sumPooling (din\<lparr>d0 := p0, d1 := p1\<rparr>) xub op it slots acc =
   sumPooling din xub op it slots acc"
  by (simp add: sumPooling_probs_fun)

lemma DinNet_Fwd_evaluation_probs:
  "map_option (\<lambda>r. (fst r, DinNet_Out (snd r)))
     (DinNet_Fwd (din\<lparr>d0 := p0, d1 := p1\<rparr>) Evaluation u0 u1
        xUserProfile ubMatrix xItemFeature xCtxFeature B S D) =
   map_option (\<lambda>r. (fst r, DinNet_Out (snd r)))
     (DinNet_Fwd din Evaluation u0' u1' xUserProfile ubMatrix xItemFeature xCtxFeature B S D)"
  unfolding DinNet_Fwd_def Dropout_evaluation sumPooling_probs
  by (auto simp: DinNet_Out_def split: bind_splits)

text \<open>
  C9. Dropout is an operation of the backend; with the mode of a pass and the samples
  made explicit, for both model variants: in evaluation mode the forward pass does not
  depend on the dropout samples, so two passes on identical inputs and identical
  parameters give identical results, for every model and every input, and its error and
  output do not depend on the dropout probabilities either; and on the two
  models of the worked example, built by the constructors (dropout probabilities
  \<open>1/100\<close> for the baseline and \<open>1/1000\<close> for the attention model), the evaluation
  pass returns an output, while in training mode the pass whose first dropout drops
  every element returns the output \<open>1/2\<close> and the pass that keeps every element
  returns a different output: the dropout of \<^verbatim>\<open>Fwd\<close> acts in training mode.
\<close>

theorem dropout_only_in_training:
  "SimpleMLP_Fwd mlp Evaluation u0 u1 xUserProfile ubMatrix xItemFeature xCtxFeature B S D =
     SimpleMLP_Fwd mlp Evaluation u0' u1' xUserProfile ubMatrix xItemFeature xCtxFeature B S D
   \<and> DinNet_Fwd din Evaluation u0 u1 xUserProfile ubMatrix xItemFeature xCtxFeature B S D =
     DinNet_Fwd din Evaluation u0' u1' xUserProfile ubMatrix xItemFeature xCtxFeature B S D
   \<and> map_option (\<lambda>r. (fst r, SimpleMLP_Out (snd r)))
       (SimpleMLP_Fwd (mlp\<lparr>d0 := p0, d1 := p1\<rparr>) Evaluation u0 u1
          xUserProfile ubMatrix xItemFeature xCtxFeature B S D) =
     map_option (\<lambda>r. (fst r, SimpleMLP_Out (snd r)))
       (SimpleMLP_Fwd mlp Evaluation u0' u1' xUserProfile ubMatrix xItemFeature xCtxFeature
          B S D)
   \<and> map_option (\<lambda>r. (fst r, DinNet_Out (snd r)))
       (DinNet_Fwd (din\<lparr>d0 := p0, d1 := p1\<rparr>) Evaluation u0 u1
          xUserProfile ubMatrix xItemFeature xCtxFeature B S D) =
     map_option (\<lambda>r. (fst r, DinNet_Out (snd r)))
       (DinNet_Fwd din Evaluation u0' u1' xUserProfile ubMatrix xItemFeature xCtxFeature
          B S D)
   \<and> NewSimpleMLP unit_draws 1 1 1 1 1 = Inr mlp_ex
   \<and> d0 mlp_ex = 1 / 100 \<and> d1 mlp_ex = 1 / 100
   \<and> NewDinNet unit_draws 1 1 1 1 1 = Inr din_ex
   \<and> d0 din_ex = 1 / 1000 \<and> d1 din_ex = 1 / 1000
   \<and> (\<exists>o'. SimpleMLP_Fwd mlp_ex Evaluation drop_all keep_all one_example one_example
               one_example one_example 1 1 1 = Some (None, mlp_ex\<lparr>out := Some o'\<rparr>)
           \<and> SimpleMLP_Fwd mlp_ex Evaluation keep_all keep_all one_example one_example
               one_example one_example 1 1 1 = Some (None, mlp_ex\<lparr>out := Some o'\<rparr>))
   \<and> (\<exists>o'. DinNet_Fwd din_ex Evaluation drop_all keep_all one_example one_example
               one_example one_example 1 1 1 = Some (None, din_ex\<lparr>out := Some o'\<rparr>)
           \<and> DinNet_Fwd din_ex Evaluation keep_all keep_all one_example one_example
               one_example one_example 1 1 1 = Some (None, din_ex\<lparr>out := Some o'\<rparr>))
   \<and> SimpleMLP_Fwd mlp_ex Training drop_all keep_all one_example one_example one_example
        one_example 1 1 1 = Some (None, mlp_ex\<lparr>out := Some \<lparr>shape = [1, 1], data = [1 / 2]\<rparr>\<rparr>)
   \<and> SimpleMLP_Fwd mlp_ex Training keep_all keep_all one_example one_example one_example
        one_example 1 1 1 \<noteq> Some (None, mlp_ex\<lparr>out := Some \<lparr>shape = [1, 1], data = [1 / 2]\<rparr>\<rparr>)
   \<and> SimpleMLP_Fwd mlp_ex Training keep_all keep_all one_example one_example one_example
        one_example 1 1 1 \<noteq> None
   \<and> DinNet_Fwd din_ex Training drop_all keep_all one_example one_example one_example
        one_example 1 1 1 = Some (None, din_ex\<lparr>out := Some \<lparr>shape = [1, 1], data = [1 / 2]\<rparr>\<rparr>)
   \<and> DinNet_Fwd din_ex Training keep_all keep_all one_example one_example one_example
        one_example 1 1 1 \<noteq> Some (None, din_ex\<lparr>out := Some \<lparr>shape = [1, 1], data = [1 / 2]\<rparr>\<rparr>)
   \<and> DinNet_Fwd din_ex Training keep_all keep_all one_example one_example one_example
        one_example 1 1 1 \<noteq> None"
proof -
  note o = one_example_shapes
  have pos: "0 < (1::nat)" by simp
  obtain a where a: "SimpleMLP_Fwd mlp_ex Evaluation drop_all keep_all one_example one_example
      one_example one_example 1 1 1 = Some (None, mlp_ex\<lparr>out := Some a\<rparr>)"
    using SimpleMLP_Fwd_succeeds[OF mlp_ex_weights(1) o(1,3) o(1,2) o(1,3) o(1,3)] by blast
  have a': "SimpleMLP_Fwd mlp_ex Evaluation keep_all keep_all one_example one_example
      one_example one_example 1 1 1 = Some (None, mlp_ex\<lparr>out := Some a\<rparr>)"
    unfolding SimpleMLP_Fwd_evaluation[where ?u0.0 = keep_all and ?u1.0 = keep_all
        and u0' = drop_all and u1' = keep_all]
    by (rule a)
  obtain b where b: "DinNet_Fwd din_ex Evaluation drop_all keep_all one_example one_example
      one_example one_example 1 1 1 = Some (None, din_ex\<lparr>out := Some b\<rparr>)"
    using DinNet_Fwd_succeeds[OF din_ex_weights(1) o(1,3) o(1,2) o(1,3) o(1,3) pos] by blast
  have b': "DinNet_Fwd din_ex Evaluation keep_all keep_all one_example one_example
      one_example one_example 1 1 1 = Some (None, din_ex\<lparr>out := Some b\<rparr>)"
    unfolding DinNet_Fwd_evaluation[where ?u0.0 = keep_all and ?u1.0 = keep_all
        and u0' = drop_all and u1' = keep_all]
    by (rule b)
  show ?thesis
    using SimpleMLP_Fwd_evaluation[of mlp u0 u1 xUserProfile ubMatrix xItemFeature xCtxFeature
        B S D u0' u1']
      DinNet_Fwd_evaluation[of din u0 u1 xUserProfile ubMatrix xItemFeature xCtxFeature
        B S D u0' u1']
      SimpleMLP_Fwd_evaluation_probs[where mlp = mlp and ?p0.0 = p0 and ?p1.0 = p1
        and ?u0.0 = u0 and ?u1.0 = u1 and xUserProfile = xUserProfile and ubMatrix = ubMatrix
        and xItemFeature = xItemFeature and xCtxFeature = xCtxFeature and B = B and S = S
        and D = D and u0' = u0' and u1' = u1']
      DinNet_Fwd_evaluation_probs[where din = din and ?p0.0 = p0 and ?p1.0 = p1
        and ?u0.0 = u0 and ?u1.0 = u1 and xUserProfile = xUserProfile and ubMatrix = ubMatrix
        and xItemFeature = xItemFeature and xCtxFeature = xCtxFeature and B = B and S = S
        and D = D and u0' = u0' and u1' = u1']
      mlp_ex_weights(1,8,9) din_ex_weights(1,8,9) a a' b b' mlp_ex_dropout din_ex_dropout
    by blast
qed

section \<open>The training loop\<close>

lemma calls_ok:
  assumes "\<And>tr e. ok tr e"
  shows "calls ok es tr = Inr (tr @ es)"
  by (induction es arbitrary: tr) (simp_all add: assms)

lemma batch_in_range:
  assumes "b < N div B"
  shows "b * B + B \<le> (N::nat)"
proof -
  have "Suc b \<le> N div B" using assms by simp
  then have "Suc b * B \<le> (N div B) * B" by (rule mult_le_mono1)
  also have "\<dots> \<le> N" by simp
  finally show ?thesis by (simp add: add.commute)
qed

lemma batch_calls_spec:
  "batch_calls si ps (b * B) (b * B + B) = spec_batch si ps B b"
  by (simp add: batch_calls_def spec_batch_def)

lemma batch_loop_ok:
  assumes ok: "\<And>tr e. ok tr e" and B: "0 < B"
  shows "b \<le> N div B \<Longrightarrow>
     batch_loop ok si ps N B (N div B) b tr =
       Inr (tr @ concat (map (spec_batch si ps B) [b..<N div B]))"
proof (induction "N div B - b" arbitrary: b tr)
  case 0
  then have "b = N div B" by simp
  then show ?case by (subst batch_loop.simps) simp
next
  case (Suc n)
  then have b: "b < N div B" by simp
  have le: "b * B + B \<le> N" by (rule batch_in_range[OF b])
  then have lt: "b * B < N" using B by simp
  have n: "n = N div B - (b + 1)" using Suc.hyps(2) by simp
  have up: "[b..<N div B] = b # [b + 1..<N div B]"
    using b by (simp add: upt_conv_Cons)
  have "batch_loop ok si ps N B (N div B) b tr =
      batch_loop ok si ps N B (N div B) (b + 1) (tr @ batch_calls si ps (b * B) (b * B + B))"
    using b le lt by (subst batch_loop.simps) (simp add: Let_def calls_ok[OF ok])
  also have "\<dots> = Inr ((tr @ batch_calls si ps (b * B) (b * B + B))
      @ concat (map (spec_batch si ps B) [b + 1..<N div B]))"
    using b by (intro Suc.hyps(1)[OF n]) simp
  finally show ?case by (simp add: up batch_calls_spec)
qed

lemma epoch_loop_ok:
  assumes ok: "\<And>tr e. ok tr e" and B: "0 < B"
  shows "i \<le> E \<Longrightarrow>
     epoch_loop ok si ps cost N B (N div B) E i tr =
       Inr (tr @ concat (map (spec_epoch si ps cost N B) [i..<E]))"
proof (induction "E - i" arbitrary: i tr)
  case 0
  then have "i = E" by simp
  then show ?case by (subst epoch_loop.simps) simp
next
  case (Suc n)
  then have i: "i < E" by simp
  have n: "n = E - (i + 1)" using Suc.hyps(2) by simp
  have up: "[i..<E] = i # [i + 1..<E]"
    using i by (simp add: upt_conv_Cons)
  have "epoch_loop ok si ps cost N B (N div B) E i tr =
      epoch_loop ok si ps cost N B (N div B) E (i + 1) (tr @ spec_epoch si ps cost N B i)"
    using i by (subst epoch_loop.simps)
      (simp add: batch_loop_ok[OF ok B] spec_epoch_def)
  also have "\<dots> = Inr ((tr @ spec_epoch si ps cost N B i)
      @ concat (map (spec_epoch si ps cost N B) [i + 1..<E]))"
    using i by (intro Suc.hyps(1)[OF n]) simp
  finally show ?case by (simp add: up)
qed

lemma run_node_mse:
  assumes "shape out' = shape y" "data out' \<noteq> []"
  shows "run_node (G_Mean (G_Square (G_Sub OutNode LabelNode))) out' y =
      Some \<lparr>shape = [], data = [mse (data out') (data y)]\<rparr>"
  using assms
  by (simp add: Sub_def Square_def Mean_def mse_def comp_def power2_eq_square)

lemma count_list_concat:
  "count_list (concat (map f xs)) x = sum_list (map (\<lambda>a. count_list (f a) x) xs)"
  by (induction xs) simp_all

lemma sum_list_ones: "sum_list (map (\<lambda>a. c) xs) = length xs * (c::nat)"
  by (induction xs) simp_all

lemma sum_list_indicator:
  "sum_list (map (\<lambda>j. if i = j then 1 else 0) [0..<E]) = (if i < E then 1 else (0::nat))"
  by (induction E) auto

lemma count_spec_epoch:
  "count_list (spec_epoch si ps cost N B i) RunAll = N div B"
  "count_list (spec_epoch si ps cost N B i) (SolverStep ps) = N div B"
  "count_list (spec_epoch si ps cost N B i) Reset = N div B"
  "count_list (spec_epoch si ps cost N B i) (LogCost j cost) = (if j = i then 1 else 0)"
  "length (spec_epoch si ps cost N B i) = 13 * (N div B) + 1"
  by (simp_all add: spec_epoch_def count_list_concat spec_batch_def sum_list_ones
      length_concat comp_def)

lemma count_spec_run:
  "count_list (spec_run si ps cost N B E) RunAll = E * (N div B)"
  "count_list (spec_run si ps cost N B E) (SolverStep ps) = E * (N div B)"
  "count_list (spec_run si ps cost N B E) Reset = E * (N div B)"
  "count_list (spec_run si ps cost N B E) (LogCost j cost) = (if j < E then 1 else 0)"
  "length (spec_run si ps cost N B E) = 3 + E * (13 * (N div B) + 1)"
  by (simp_all add: spec_run_def count_list_concat count_spec_epoch sum_list_ones
      sum_list_indicator length_concat comp_def)

lemma spec_run_explicit:
  "spec_run si ps cost N B E =
     [Grad cost ps, Compile]
     @ concat (map (\<lambda>i.
         concat (map (\<lambda>b.
           [SliceInputs (b * B) (b * B + B)
              (fst (UserProfileRange si)) (snd (UserProfileRange si)),
            G_Let XUserProfile,
            SliceInputs (b * B) (b * B + B)
              (fst (UserBehaviorRange si)) (snd (UserBehaviorRange si)),
            G_Let XUserBehaviorMatrix,
            SliceInputs (b * B) (b * B + B)
              (fst (ItemFeatureRange si)) (snd (ItemFeatureRange si)),
            G_Let XItemFeature,
            SliceInputs (b * B) (b * B + B)
              (fst (CtxFeatureRange si)) (snd (CtxFeatureRange si)),
            G_Let XCtxFeature,
            SliceTargets (b * B) (b * B + B),
            G_Let YLabel,
            RunAll,
            SolverStep ps,
            Reset]) [0..<N div B])
         @ [LogCost i cost]) [0..<E])
     @ [Close]"
  unfolding spec_run_def spec_epoch_def[abs_def] spec_batch_def[abs_def] by (rule refl)

lemma Train_run:
  assumes ok: "\<And>tr e. ok tr e" and B: "0 < B"
    and fwd: "model_Fwd m Training keep_all keep_all (Zeroes [B, P]) (Zeroes [B, S * D])
                (Zeroes [B, I]) (Zeroes [B, C]) B S D = Some (None, m')"
    and out: "model_Out m' = Some o'" "shape o' = [B, 1]" "length (data o') = B"
    and ps: "map nname (model_learnable m') = ps"
  shows "Train ok S D P I C N B E si m =
      Returned (spec_run si ps (G_Mean (G_Square (G_Sub OutNode LabelNode))) N B E)"
proof -
  let ?cost = "G_Mean (G_Square (G_Sub OutNode LabelNode))"
  have ne: "data o' \<noteq> []" using out(3) B by auto
  have cost: "run_node ?cost o' (Zeroes [B, 1]) =
      Some \<lparr>shape = [], data = [mse (data o') (data (Zeroes [B, 1]))]\<rparr>"
    by (rule run_node_mse) (simp_all add: out(2) Zeroes_shape ne)
  have c: "calls ok [Grad ?cost ps, Compile] [] = Inr [Grad ?cost ps, Compile]"
    using calls_ok[where ok = ok and es = "[Grad ?cost ps, Compile]" and tr = "[]"] ok by simp
  have e: "epoch_loop ok si ps ?cost N B (N div B) E 0 [Grad ?cost ps, Compile] =
      Inr ([Grad ?cost ps, Compile] @ concat (map (spec_epoch si ps ?cost N B) [0..<E]))"
    by (rule epoch_loop_ok[OF ok B]) simp
  have nz: "(B = 0) = False" using B by simp
  show ?thesis
    unfolding Train_def Let_def
    by (simp only: fwd out(1) Option.bind.simps cost ps c e nz if_False option.case prod.case
        sum.case spec_run_def append_assoc)
qed

lemma Train_simple:
  assumes ok: "\<And>tr e. ok tr e" and B: "0 < B"
    and mk: "NewSimpleMLP gaussian P S D I C = Inr mlp"
  shows "Train ok S D P I C N B E si (MSimpleMLP mlp) =
           Returned (spec_run si (map nname (model_learnable (MSimpleMLP mlp)))
             (G_Mean (G_Square (G_Sub OutNode LabelNode))) N B E)"
proof -
  obtain o' where o': "SimpleMLP_Fwd mlp Training keep_all keep_all (Zeroes [B, P])
        (Zeroes [B, S * D]) (Zeroes [B, I]) (Zeroes [B, C]) B S D =
        Some (None, mlp\<lparr>out := Some o'\<rparr>)"
      "shape o' = [B, 1]" "length (data o') = B"
    using SimpleMLP_Fwd_succeeds[OF mk Zeroes_shape(2,1) Zeroes_shape(2,1) Zeroes_shape(2,1)
        Zeroes_shape(2,1)] by blast
  show ?thesis
    by (rule Train_run[OF ok B _ _ o'(2,3), where m' = "MSimpleMLP (mlp\<lparr>out := Some o'\<rparr>)"])
      (simp_all add: o'(1) SimpleMLP_Out_def SimpleMLP_learnable_def)
qed

lemma Train_din:
  assumes ok: "\<And>tr e. ok tr e" and B: "0 < B"
    and mk: "NewDinNet gaussian P S D I C = Inr din"
  shows "Train ok S D P I C N B E si (MDinNet din) =
           Returned (spec_run si (map nname (model_learnable (MDinNet din)))
             (G_Mean (G_Square (G_Sub OutNode LabelNode))) N B E)"
proof -
  have I: "I = D" using mk by (auto simp: NewDinNet_def split: if_splits)
  obtain o' where o': "DinNet_Fwd din Training keep_all keep_all (Zeroes [B, P])
        (Zeroes [B, S * D]) (Zeroes [B, D]) (Zeroes [B, C]) B S D =
        Some (None, din\<lparr>out := Some o'\<rparr>)"
      "shape o' = [B, 1]" "length (data o') = B"
    using DinNet_Fwd_succeeds[OF mk[unfolded I] Zeroes_shape(2,1) Zeroes_shape(2,1)
        Zeroes_shape(2,1) Zeroes_shape(2,1) B] by blast
  show ?thesis
    unfolding I
    by (rule Train_run[OF ok B _ _ o'(2,3), where m' = "MDinNet (din\<lparr>out := Some o'\<rparr>)"])
      (simp_all add: o'(1) DinNet_Out_def DinNet_learnable_def)
qed

text \<open>
  C6. A run of \<^verbatim>\<open>Train\<close> with \<open>N\<close> examples, a positive batch size \<open>B\<close> and \<open>E\<close>
  epochs, on a model built by either constructor for the same dimensions, in which no
  call to the backend fails, returns after exactly these calls, in this order: the
  gradient request for the loss node with respect to the learnable parameters, and the
  compilation; then for each of the \<open>E\<close> epochs, for each of the \<open>N div B\<close> batches, the
  slice of the rows of the batch in each of the four feature ranges, each bound to its
  placeholder, the slice of the labels of these rows bound to the label placeholder,
  one run of the machine, one solver step over the learnable parameters and one reset,
  and after the batches of an epoch its report of the loss node; then the closing of the
  machine. Nothing else is called: there is no early stop, validation or checkpoint.
  The loss node is the mean of the square of the difference of the output node and the
  label, and its value is the mean squared error of prediction and label.
\<close>

theorem training_loop_trace:
  "(\<forall>tr e. ok tr e) \<and> 0 < B
   \<and> (NewSimpleMLP gaussian P S D I C = Inr mlp \<and> m = MSimpleMLP mlp
      \<or> NewDinNet gaussian P S D I C = Inr din \<and> m = MDinNet din) \<longrightarrow>
   (\<exists>tr. Train ok S D P I C N B E si m = Returned tr
      \<and> tr =
          [Grad (G_Mean (G_Square (G_Sub OutNode LabelNode))) (map nname (model_learnable m)), Compile]
          @ concat (map (\<lambda>i.
              concat (map (\<lambda>b.
                [SliceInputs (b * B) (b * B + B)
                   (fst (UserProfileRange si)) (snd (UserProfileRange si)),
                 G_Let XUserProfile,
                 SliceInputs (b * B) (b * B + B)
                   (fst (UserBehaviorRange si)) (snd (UserBehaviorRange si)),
                 G_Let XUserBehaviorMatrix,
                 SliceInputs (b * B) (b * B + B)
                   (fst (ItemFeatureRange si)) (snd (ItemFeatureRange si)),
                 G_Let XItemFeature,
                 SliceInputs (b * B) (b * B + B)
                   (fst (CtxFeatureRange si)) (snd (CtxFeatureRange si)),
                 G_Let XCtxFeature,
                 SliceTargets (b * B) (b * B + B),
                 G_Let YLabel,
                 RunAll,
                 SolverStep (map nname (model_learnable m)),
                 Reset]) [0..<N div B])
              @ [LogCost i (G_Mean (G_Square (G_Sub OutNode LabelNode)))]) [0..<E])
          @ [Close]
      \<and> count_list tr RunAll = E * (N div B)
      \<and> count_list tr (SolverStep (map nname (model_learnable m))) = E * (N div B)
      \<and> count_list tr Reset = E * (N div B)
      \<and> (\<forall>j. count_list tr (LogCost j (G_Mean (G_Square (G_Sub OutNode LabelNode)))) =
             (if j < E then 1 else 0))
      \<and> length tr = 3 + E * (13 * (N div B) + 1))
   \<and> (shape out' = shape y \<and> data out' \<noteq> [] \<longrightarrow>
        run_node (G_Mean (G_Square (G_Sub OutNode LabelNode))) out' y =
          Some \<lparr>shape = [], data = [mse (data out') (data y)]\<rparr>)"
proof (intro impI)
  assume h: "(\<forall>tr e. ok tr e) \<and> 0 < B
   \<and> (NewSimpleMLP gaussian P S D I C = Inr mlp \<and> m = MSimpleMLP mlp
      \<or> NewDinNet gaussian P S D I C = Inr din \<and> m = MDinNet din)"
  then have ok: "\<And>tr e. ok tr e" and B: "0 < B" by simp_all
  let ?cost = "G_Mean (G_Square (G_Sub OutNode LabelNode))"
  let ?ps = "map nname (model_learnable m)"
  have run: "Train ok S D P I C N B E si m = Returned (spec_run si ?ps ?cost N B E)"
    using h Train_simple[where ok = ok and B = B and gaussian = gaussian and P = P and S = S
        and D = D and I = I and C = C and mlp = mlp and N = N and E = E and si = si]
      Train_din[where ok = ok and B = B and gaussian = gaussian and P = P and S = S
        and D = D and I = I and C = C and din = din and N = N and E = E and si = si]
    by blast
  note ex = spec_run_explicit[of si ?ps ?cost N B E]
  note cn = count_spec_run[of si ?ps ?cost N B E]
  have a: "\<exists>tr. Train ok S D P I C N B E si m = Returned tr
      \<and> tr =
          [Grad (G_Mean (G_Square (G_Sub OutNode LabelNode))) ?ps, Compile]
          @ concat (map (\<lambda>i.
              concat (map (\<lambda>b.
                [SliceInputs (b * B) (b * B + B)
                   (fst (UserProfileRange si)) (snd (UserProfileRange si)),
                 G_Let XUserProfile,
                 SliceInputs (b * B) (b * B + B)
                   (fst (UserBehaviorRange si)) (snd (UserBehaviorRange si)),
                 G_Let XUserBehaviorMatrix,
                 SliceInputs (b * B) (b * B + B)
                   (fst (ItemFeatureRange si)) (snd (ItemFeatureRange si)),
                 G_Let XItemFeature,
                 SliceInputs (b * B) (b * B + B)
                   (fst (CtxFeatureRange si)) (snd (CtxFeatureRange si)),
                 G_Let XCtxFeature,
                 SliceTargets (b * B) (b * B + B),
                 G_Let YLabel,
                 RunAll,
                 SolverStep ?ps,
                 Reset]) [0..<N div B])
              @ [LogCost i (G_Mean (G_Square (G_Sub OutNode LabelNode)))]) [0..<E])
          @ [Close]
      \<and> count_list tr RunAll = E * (N div B)
      \<and> count_list tr (SolverStep ?ps) = E * (N div B)
      \<and> count_list tr Reset = E * (N div B)
      \<and> (\<forall>j. count_list tr (LogCost j ?cost) = (if j < E then 1 else 0))
      \<and> length tr = 3 + E * (13 * (N div B) + 1)"
    using run ex cn by (intro exI[of _ "spec_run si ?ps ?cost N B E"] conjI allI) simp_all
  have b: "shape out' = shape y \<and> data out' \<noteq> [] \<longrightarrow>
        run_node ?cost out' y = Some \<lparr>shape = [], data = [mse (data out') (data y)]\<rparr>"
    using run_node_mse by blast
  show "(\<exists>tr. Train ok S D P I C N B E si m = Returned tr
      \<and> tr =
          [Grad (G_Mean (G_Square (G_Sub OutNode LabelNode))) (map nname (model_learnable m)), Compile]
          @ concat (map (\<lambda>i.
              concat (map (\<lambda>b.
                [SliceInputs (b * B) (b * B + B)
                   (fst (UserProfileRange si)) (snd (UserProfileRange si)),
                 G_Let XUserProfile,
                 SliceInputs (b * B) (b * B + B)
                   (fst (UserBehaviorRange si)) (snd (UserBehaviorRange si)),
                 G_Let XUserBehaviorMatrix,
                 SliceInputs (b * B) (b * B + B)
                   (fst (ItemFeatureRange si)) (snd (ItemFeatureRange si)),
                 G_Let XItemFeature,
                 SliceInputs (b * B) (b * B + B)
                   (fst (CtxFeatureRange si)) (snd (CtxFeatureRange si)),
                 G_Let XCtxFeature,
                 SliceTargets (b * B) (b * B + B),
                 G_Let YLabel,
                 RunAll,
                 SolverStep (map nname (model_learnable m)),
                 Reset]) [0..<N div B])
              @ [LogCost i (G_Mean (G_Square (G_Sub OutNode LabelNode)))]) [0..<E])
          @ [Close]
      \<and> count_list tr RunAll = E * (N div B)
      \<and> count_list tr (SolverStep (map nname (model_learnable m))) = E * (N div B)
      \<and> count_list tr Reset = E * (N div B)
      \<and> (\<forall>j. count_list tr (LogCost j (G_Mean (G_Square (G_Sub OutNode LabelNode)))) =
             (if j < E then 1 else 0))
      \<and> length tr = 3 + E * (13 * (N div B) + 1))
   \<and> (shape out' = shape y \<and> data out' \<noteq> [] \<longrightarrow>
        run_node (G_Mean (G_Square (G_Sub OutNode LabelNode))) out' y =
          Some \<lparr>shape = [], data = [mse (data out') (data y)]\<rparr>)"
    using a b by blast
qed

theorem training_loop_trace_witness:
  "(\<forall>tr e. never_fails tr e) \<and> (0::nat) < 2
   \<and> NewDinNet att_draws 1 1 1 1 1 = Inr din1
   \<and> shape one_example = shape one_example \<and> data one_example \<noteq> []
   \<and> (\<exists>tr. Train never_fails 1 1 1 1 1 5 2 3 si_example (MDinNet din1) = Returned tr
      \<and> tr =
          [Grad (G_Mean (G_Square (G_Sub OutNode LabelNode))) (map nname (model_learnable (MDinNet din1))), Compile]
          @ concat (map (\<lambda>i.
              concat (map (\<lambda>b.
                [SliceInputs (b * 2) (b * 2 + 2)
                   (fst (UserProfileRange si_example)) (snd (UserProfileRange si_example)),
                 G_Let XUserProfile,
                 SliceInputs (b * 2) (b * 2 + 2)
                   (fst (UserBehaviorRange si_example)) (snd (UserBehaviorRange si_example)),
                 G_Let XUserBehaviorMatrix,
                 SliceInputs (b * 2) (b * 2 + 2)
                   (fst (ItemFeatureRange si_example)) (snd (ItemFeatureRange si_example)),
                 G_Let XItemFeature,
                 SliceInputs (b * 2) (b * 2 + 2)
                   (fst (CtxFeatureRange si_example)) (snd (CtxFeatureRange si_example)),
                 G_Let XCtxFeature,
                 SliceTargets (b * 2) (b * 2 + 2),
                 G_Let YLabel,
                 RunAll,
                 SolverStep (map nname (model_learnable (MDinNet din1))),
                 Reset]) [0..<5 div 2])
              @ [LogCost i (G_Mean (G_Square (G_Sub OutNode LabelNode)))]) [0..<3])
          @ [Close]
      \<and> count_list tr RunAll = 3 * (5 div 2)
      \<and> length tr = 3 + 3 * (13 * (5 div 2) + 1))
   \<and> run_node (G_Mean (G_Square (G_Sub OutNode LabelNode))) one_example one_example =
        Some \<lparr>shape = [], data = [mse (data one_example) (data one_example)]\<rparr>"
proof -
  have h: "(\<forall>tr e. never_fails tr e) \<and> (0::nat) < 2
      \<and> NewDinNet att_draws 1 1 1 1 1 = Inr din1"
    using NewDinNet_Inr[of att_draws 1 1 1 1] by (simp add: never_fails_def din1_def)
  have g: "shape one_example = shape one_example \<and> data one_example \<noteq> []"
    by (simp add: one_example_def)
  show ?thesis
    using h g training_loop_trace [where ok = never_fails and B = 2 and gaussian = att_draws
        and P = 1 and S = 1 and D = 1 and I = 1 and C = 1 and mlp = mlp_ex
        and m = "MDinNet din1" and din = din1 and N = 5 and E = 3 and si = si_example
        and out' = one_example and y = one_example]
    by blast
qed

end
